theory Spec2Isabelle
  imports Complex_Main "HOL-Library.AList" "HOL-Library.Log_Nat" "HOL-Library.Multiset"
begin

section \<open>JavaScript values used by the dashboard\<close>

text \<open>
  The dashboard's views are TypeScript; every metric is a JavaScript \<open>number\<close>. The
  inbound document is JSON, so each number of the input is finite, and it is modelled
  as a rational (\<open>rat\<close>). \<open>binary64 x\<close> is the double nearest to \<open>x\<close>: the result the
  program has for an operation whose exact result is \<open>x\<close>.

  Where the program makes a whole number of a product with \<open>Math.round\<close>, or two
  decimals of a rate with \<open>toFixed(2)\<close>, the model rounds each operation before it to
  binary64, as the program does, because the result depends on it: 25 clicks at 58
  percent are \<open>25 * 0.58 = 14.499999999999998\<close> and round to 14, where the exact
  product 14.5 rounds to 15. The device view's synthesized percentages take the rounding
  of each operation as a parameter. The other sums, products and quotients (the sums of
  the metrics, the shares of spend and revenue, the radius of a bubble) are exact in the
  model; the program's doubles differ from them by the rounding of each operation. A
  rate, whose divisor can be zero, is a \<open>jsnum\<close>, which has the non-finite results of
  JavaScript's division. Signed zero, overflow and subnormal numbers are not modelled.

  Reading a property of \<open>undefined\<close> throws a \<open>TypeError\<close>; a function that can
  throw returns \<open>error + 'a\<close>.
\<close>

datatype error = TypeError

datatype jsnum = Fin rat | PosInfinity | NegInfinity | NaN

definition round_half_even :: "rat \<Rightarrow> int" where
  "round_half_even x =
     (let n = \<lfloor>x\<rfloor>; d = x - of_int n
      in if d < 1 / 2 then n else if d > 1 / 2 then n + 1 else if even n then n else n + 1)"

definition ilog2 :: "rat \<Rightarrow> int" where
  \<comment> \<open>the integer \<open>e\<close> with \<open>2 ^ e \<le> x < 2 ^ (e + 1)\<close>, for \<open>x > 0\<close>, from the bit
      lengths of numerator and denominator\<close>
  "ilog2 x =
     (let k = bitlen (fst (quotient_of x)) - bitlen (snd (quotient_of x))
      in if 2 powi k \<le> x then k else k - 1)"

definition binary64 :: "rat \<Rightarrow> rat" where
  \<comment> \<open>IEEE 754 round to nearest, ties to even, on 53 significant bits; for results in
      the normal range (no overflow, no subnormal)\<close>
  "binary64 x =
     (if x = 0 then 0
      else let e = ilog2 \<bar>x\<bar> - 52
           in sgn x * of_int (round_half_even (\<bar>x\<bar> / 2 powi e)) * 2 powi e)"

definition js_div :: "rat \<Rightarrow> rat \<Rightarrow> jsnum" where
  \<comment> \<open>\<open>a / b\<close> on doubles\<close>
  "js_div a b =
     (if b = 0 then (if a > 0 then PosInfinity else if a < 0 then NegInfinity else NaN)
      else Fin (binary64 (a / b)))"

fun js_times :: "jsnum \<Rightarrow> rat \<Rightarrow> jsnum" where
  \<comment> \<open>\<open>x * k\<close> for a double \<open>k\<close>\<close>
  "js_times (Fin a) k = Fin (binary64 (a * k))"
| "js_times PosInfinity k = (if k > 0 then PosInfinity else if k < 0 then NegInfinity else NaN)"
| "js_times NegInfinity k = (if k > 0 then NegInfinity else if k < 0 then PosInfinity else NaN)"
| "js_times NaN k = NaN"

definition Math_round :: "rat \<Rightarrow> rat" where
  \<comment> \<open>\<open>Math.round\<close>: the nearest integer, a tie going up\<close>
  "Math_round x = of_int \<lfloor>x + 1 / 2\<rfloor>"

definition Math_floor :: "rat \<Rightarrow> int" where
  "Math_floor x = \<lfloor>x\<rfloor>"

definition toFixed2 :: "rat \<Rightarrow> rat" where
  \<comment> \<open>the number that the digits of \<open>x.toFixed(2)\<close> denote, for a double \<open>x\<close>: the
      nearest number with two decimals, a tie going away from zero; from \<open>1e21\<close> on
      \<open>toFixed\<close> prints the number itself\<close>
  "toFixed2 x =
     (if \<bar>x\<bar> \<ge> 10 ^ 21 then x
      else if x < 0 then - (of_int \<lfloor>(- x) * 100 + 1 / 2\<rfloor> / 100)
      else of_int \<lfloor>x * 100 + 1 / 2\<rfloor> / 100)"

fun parseFloat_toFixed2 :: "jsnum \<Rightarrow> jsnum" where
  \<comment> \<open>\<open>parseFloat(x.toFixed(2))\<close>: \<open>parseFloat\<close> reads the digits as the nearest double;
      \<open>Infinity.toFixed(2)\<close> is the string \<open>Infinity\<close>, which it reads back\<close>
  "parseFloat_toFixed2 (Fin x) = Fin (binary64 (toFixed2 x))"
| "parseFloat_toFixed2 PosInfinity = PosInfinity"
| "parseFloat_toFixed2 NegInfinity = NegInfinity"
| "parseFloat_toFixed2 NaN = NaN"

subsection \<open>Loops over the document\<close>

text \<open>
  \<open>campaigns.forEach(campaign => campaign.xs.forEach(...))\<close>: the inner loop throws when
  the collection \<open>xs\<close> is \<open>undefined\<close> (\<open>None\<close>), and the exception leaves the outer loop.
\<close>

definition forEach_entries :: "'a list option \<Rightarrow> ('s \<Rightarrow> 'a \<Rightarrow> 's) \<Rightarrow> 's \<Rightarrow> error + 's" where
  "forEach_entries xs f s = (case xs of None \<Rightarrow> Inl TypeError | Some ys \<Rightarrow> Inr (foldl f s ys))"

fun forEach_campaigns :: "('s \<Rightarrow> 'c \<Rightarrow> error + 's) \<Rightarrow> 'c list \<Rightarrow> 's \<Rightarrow> error + 's" where
  "forEach_campaigns f [] s = Inr s"
| "forEach_campaigns f (c # cs) s =
     (case f s c of Inl e \<Rightarrow> Inl e | Inr s' \<Rightarrow> forEach_campaigns f cs s')"

subsection \<open>Map and sort\<close>

text \<open>
  A JavaScript \<open>Map\<close> iterates in the order in which its keys were first set, and
  \<open>set\<close> on a key it has keeps the key's place: an association list with
  \<open>AList.update\<close>. \<open>Array.prototype.sort\<close> is stable, so with a consistent comparator
  its result is the one of insertion sort.
\<close>

fun insert_sorted :: "('a \<Rightarrow> 'a \<Rightarrow> int) \<Rightarrow> 'a \<Rightarrow> 'a list \<Rightarrow> 'a list" where
  "insert_sorted cmp x [] = [x]"
| "insert_sorted cmp x (y # ys) =
     (if cmp x y \<le> 0 then x # y # ys else y # insert_sorted cmp x ys)"

definition Array_sort :: "('a \<Rightarrow> 'a \<Rightarrow> int) \<Rightarrow> 'a list \<Rightarrow> 'a list" where
  "Array_sort cmp xs = foldr (insert_sorted cmp) xs []"

section \<open>The domain document\<close>

text \<open>
  The types of \<open>src/types/marketing\<close> are read off the fields the views use. A breakdown
  collection is optional in the model (\<open>None\<close> is a field the JSON does not have), and
  so is the document's \<open>campaigns\<close> list.
\<close>

record WeeklyPerformance =
  week_start :: string
  impressions :: rat
  clicks :: rat
  conversions :: rat
  spend :: rat
  revenue :: rat

record RegionalPerformance =
  region :: string
  country :: string
  impressions :: rat
  clicks :: rat
  conversions :: rat
  spend :: rat
  revenue :: rat
  ctr :: rat
  conversion_rate :: rat
  cpc :: rat
  cpa :: rat
  roas :: rat

record DemographicBreakdown =
  age_group :: string
  gender :: string
  percentage_of_audience :: rat

record DeviceBreakdown =
  device_type :: string
  percentage_of_audience :: rat

record Campaign =
  name :: string
  impressions :: rat
  clicks :: rat
  conversions :: rat
  spend :: rat
  revenue :: rat
  weekly_performance :: "WeeklyPerformance list option"
  regional_performance :: "RegionalPerformance list option"
  demographic_breakdown :: "DemographicBreakdown list option"
  device_breakdown :: "DeviceBreakdown list option"

type_synonym MarketingData = "Campaign list option"

section \<open>Demographic view\<close>

text \<open>
  \<open>src/app/demographic-view/page.tsx\<close>. The three functions read the fetched document
  and return at once when it has no \<open>campaigns\<close>. None of them writes to the console.
\<close>

record DemographicMetrics =
  maleClicks :: rat
  maleSpend :: rat
  maleRevenue :: rat
  femaleClicks :: rat
  femaleSpend :: rat
  femaleRevenue :: rat

record SpendRevenue =
  spend :: rat
  revenue :: rat

record AgeGroupData =
  ageGroup :: string
  spend :: rat
  revenue :: rat

record CampaignPerformance =
  ageGroup :: string
  gender :: string
  impressions :: rat
  clicks :: rat
  conversions :: rat
  ctr :: jsnum
  conversionRate :: jsnum

definition initial_DemographicMetrics :: DemographicMetrics where
  "initial_DemographicMetrics =
     \<lparr>maleClicks = 0, maleSpend = 0, maleRevenue = 0,
      femaleClicks = 0, femaleSpend = 0, femaleRevenue = 0\<rparr>"

definition demographic_metrics_entry ::
  "Campaign \<Rightarrow> DemographicMetrics \<Rightarrow> DemographicBreakdown \<Rightarrow> DemographicMetrics" where
  \<comment> \<open>the body of the inner \<open>forEach\<close> of \<open>processDemographicMetrics\<close>\<close>
  "demographic_metrics_entry campaign metrics demo =
     (let percentage = DemographicBreakdown.percentage_of_audience demo / 100;
          clicks' = Math_round (binary64 (Campaign.clicks campaign * binary64 percentage));
          spend' = Campaign.spend campaign * percentage;
          revenue' = Campaign.revenue campaign * percentage
      in if DemographicBreakdown.gender demo = ''Male'' then
           metrics\<lparr>maleClicks := maleClicks metrics + clicks',
                   maleSpend := maleSpend metrics + spend',
                   maleRevenue := maleRevenue metrics + revenue'\<rparr>
         else if DemographicBreakdown.gender demo = ''Female'' then
           metrics\<lparr>femaleClicks := femaleClicks metrics + clicks',
                   femaleSpend := femaleSpend metrics + spend',
                   femaleRevenue := femaleRevenue metrics + revenue'\<rparr>
         else metrics)"

definition processDemographicMetrics :: "MarketingData \<Rightarrow> error + DemographicMetrics" where
  "processDemographicMetrics data =
     (case data of
        None \<Rightarrow> Inr initial_DemographicMetrics
      | Some campaigns \<Rightarrow>
          forEach_campaigns
            (\<lambda>metrics campaign.
               forEach_entries (demographic_breakdown campaign)
                 (demographic_metrics_entry campaign) metrics)
            campaigns initial_DemographicMetrics)"

definition age_group_entry ::
  "Campaign \<Rightarrow> (string \<times> SpendRevenue) list \<Rightarrow> DemographicBreakdown
    \<Rightarrow> (string \<times> SpendRevenue) list" where
  \<comment> \<open>the body of the inner \<open>forEach\<close> of \<open>processAgeGroupData\<close>\<close>
  "age_group_entry campaign ageGroupMap demo =
     (let percentage = DemographicBreakdown.percentage_of_audience demo / 100;
          spend' = Campaign.spend campaign * percentage;
          revenue' = Campaign.revenue campaign * percentage;
          existing = (case map_of ageGroupMap (age_group demo) of
                        Some e \<Rightarrow> e
                      | None \<Rightarrow> \<lparr>SpendRevenue.spend = 0, SpendRevenue.revenue = 0\<rparr>)
      in AList.update (age_group demo)
           \<lparr>SpendRevenue.spend = SpendRevenue.spend existing + spend',
            SpendRevenue.revenue = SpendRevenue.revenue existing + revenue'\<rparr>
           ageGroupMap)"

definition ageGroupMap_of :: "Campaign list \<Rightarrow> error + (string \<times> SpendRevenue) list" where
  "ageGroupMap_of campaigns =
     forEach_campaigns
       (\<lambda>ageGroupMap campaign.
          forEach_entries (demographic_breakdown campaign) (age_group_entry campaign) ageGroupMap)
       campaigns []"

definition processAgeGroupData ::
  "(string \<Rightarrow> string \<Rightarrow> int) \<Rightarrow> MarketingData \<Rightarrow> error + (AgeGroupData list \<times> AgeGroupData list)" where
  \<comment> \<open>\<open>localeCompare\<close> is the platform's collation, a parameter; the result is the pair
      \<open>{spend, revenue}\<close>\<close>
  "processAgeGroupData localeCompare data =
     (case data of
        None \<Rightarrow> Inr ([], [])
      | Some campaigns \<Rightarrow>
          (case ageGroupMap_of campaigns of
             Inl e \<Rightarrow> Inl e
           | Inr ageGroupMap \<Rightarrow>
               Inr (Array_sort (\<lambda>a b. localeCompare (AgeGroupData.ageGroup a) (AgeGroupData.ageGroup b))
                      (map (\<lambda>(ageGroup', data').
                              \<lparr>AgeGroupData.ageGroup = ageGroup',
                               AgeGroupData.spend = SpendRevenue.spend data',
                               AgeGroupData.revenue = 0\<rparr>) ageGroupMap),
                    Array_sort (\<lambda>a b. localeCompare (AgeGroupData.ageGroup a) (AgeGroupData.ageGroup b))
                      (map (\<lambda>(ageGroup', data').
                              \<lparr>AgeGroupData.ageGroup = ageGroup',
                               AgeGroupData.spend = 0,
                               AgeGroupData.revenue = SpendRevenue.revenue data'\<rparr>) ageGroupMap))))"

definition demographic_rates :: "rat \<Rightarrow> rat \<Rightarrow> rat \<Rightarrow> jsnum \<times> jsnum" where
  \<comment> \<open>\<open>clicks > 0 ? (clicks / impressions) * 100 : 0\<close> and
      \<open>clicks > 0 ? (conversions / clicks) * 100 : 0\<close>, each through
      \<open>parseFloat(_.toFixed(2))\<close>; both guards test \<open>clicks\<close>\<close>
  "demographic_rates impressions' clicks' conversions' =
     (parseFloat_toFixed2 (if clicks' > 0 then js_times (js_div clicks' impressions') 100 else Fin 0),
      parseFloat_toFixed2 (if clicks' > 0 then js_times (js_div conversions' clicks') 100 else Fin 0))"

definition performance_of :: "Campaign \<Rightarrow> DemographicBreakdown \<Rightarrow> CampaignPerformance" where
  \<comment> \<open>the object \<open>performance\<close> of \<open>processCampaignPerformance\<close>\<close>
  "performance_of campaign demo =
     (let percentage = DemographicBreakdown.percentage_of_audience demo / 100;
          impressions' = Math_round (binary64 (Campaign.impressions campaign * binary64 percentage));
          clicks' = Math_round (binary64 (Campaign.clicks campaign * binary64 percentage));
          conversions' = Math_round (binary64 (Campaign.conversions campaign * binary64 percentage))
      in \<lparr>CampaignPerformance.ageGroup = age_group demo,
          CampaignPerformance.gender = DemographicBreakdown.gender demo,
          CampaignPerformance.impressions = impressions',
          CampaignPerformance.clicks = clicks',
          CampaignPerformance.conversions = conversions',
          CampaignPerformance.ctr = fst (demographic_rates impressions' clicks' conversions'),
          CampaignPerformance.conversionRate = snd (demographic_rates impressions' clicks' conversions')\<rparr>)"

definition merge_performance :: "CampaignPerformance \<Rightarrow> CampaignPerformance \<Rightarrow> CampaignPerformance" where
  \<comment> \<open>the updates of \<open>existing\<close>: three sums, then the two rates from the sums\<close>
  "merge_performance existing performance =
     (let impressions' = CampaignPerformance.impressions existing + CampaignPerformance.impressions performance;
          clicks' = CampaignPerformance.clicks existing + CampaignPerformance.clicks performance;
          conversions' = CampaignPerformance.conversions existing + CampaignPerformance.conversions performance
      in existing\<lparr>CampaignPerformance.impressions := impressions',
                   CampaignPerformance.clicks := clicks',
                   CampaignPerformance.conversions := conversions',
                   CampaignPerformance.ctr := fst (demographic_rates impressions' clicks' conversions'),
                   CampaignPerformance.conversionRate := snd (demographic_rates impressions' clicks' conversions')\<rparr>)"

definition set_performance ::
  "(string \<times> CampaignPerformance) list \<Rightarrow> CampaignPerformance \<Rightarrow> (string \<times> CampaignPerformance) list" where
  \<comment> \<open>\<open>existing = m.get(age_group)\<close>; update it, or \<open>m.set(age_group, performance)\<close>\<close>
  "set_performance m performance =
     (case map_of m (CampaignPerformance.ageGroup performance) of
        Some existing \<Rightarrow>
          AList.update (CampaignPerformance.ageGroup performance) (merge_performance existing performance) m
      | None \<Rightarrow> AList.update (CampaignPerformance.ageGroup performance) performance m)"

definition campaign_performance_entry ::
  "Campaign \<Rightarrow> (string \<times> CampaignPerformance) list \<times> (string \<times> CampaignPerformance) list
    \<Rightarrow> DemographicBreakdown
    \<Rightarrow> (string \<times> CampaignPerformance) list \<times> (string \<times> CampaignPerformance) list" where
  \<comment> \<open>the body of the inner \<open>forEach\<close> of \<open>processCampaignPerformance\<close>, on the pair
      \<open>(maleMap, femaleMap)\<close>\<close>
  "campaign_performance_entry campaign maps demo =
     (if DemographicBreakdown.gender demo = ''Male'' then
        (set_performance (fst maps) (performance_of campaign demo), snd maps)
      else if DemographicBreakdown.gender demo = ''Female'' then
        (fst maps, set_performance (snd maps) (performance_of campaign demo))
      else maps)"

definition performance_maps ::
  "Campaign list \<Rightarrow> error + ((string \<times> CampaignPerformance) list \<times> (string \<times> CampaignPerformance) list)" where
  "performance_maps campaigns =
     forEach_campaigns
       (\<lambda>maps campaign.
          forEach_entries (demographic_breakdown campaign) (campaign_performance_entry campaign) maps)
       campaigns ([], [])"

definition processCampaignPerformance ::
  "(string \<Rightarrow> string \<Rightarrow> int) \<Rightarrow> MarketingData
    \<Rightarrow> error + (CampaignPerformance list \<times> CampaignPerformance list)" where
  \<comment> \<open>the result is the pair \<open>{male, female}\<close>\<close>
  "processCampaignPerformance localeCompare data =
     (case data of
        None \<Rightarrow> Inr ([], [])
      | Some campaigns \<Rightarrow>
          (case performance_maps campaigns of
             Inl e \<Rightarrow> Inl e
           | Inr maps \<Rightarrow>
               Inr (Array_sort (\<lambda>a b. localeCompare (CampaignPerformance.ageGroup a) (CampaignPerformance.ageGroup b))
                      (map snd (fst maps)),
                    Array_sort (\<lambda>a b. localeCompare (CampaignPerformance.ageGroup a) (CampaignPerformance.ageGroup b))
                      (map snd (snd maps)))))"

section \<open>Weekly view\<close>

text \<open>
  \<open>src/app/weekly-view/page.tsx\<close>. \<open>getTime s\<close> stands for
  \<open>new Date(s).getTime()\<close>, a parameter: the time in milliseconds, or \<open>None\<close> for the
  \<open>NaN\<close> of a string that does not parse as a date. The comparator's difference is then
  \<open>NaN\<close>, which \<open>sort\<close> reads as \<open>+0\<close>; such a comparator is not consistent, and
  the order of the result is the implementation's (\<open>Array_sort\<close> gives the one of
  insertion sort).
\<close>

definition merge_week :: "WeeklyPerformance \<Rightarrow> WeeklyPerformance \<Rightarrow> WeeklyPerformance" where
  \<comment> \<open>the object \<open>{...existing, impressions: existing.impressions + week.impressions, ...}\<close>\<close>
  "merge_week existing week =
     existing\<lparr>WeeklyPerformance.impressions :=
                 WeeklyPerformance.impressions existing + WeeklyPerformance.impressions week,
               WeeklyPerformance.clicks :=
                 WeeklyPerformance.clicks existing + WeeklyPerformance.clicks week,
               WeeklyPerformance.conversions :=
                 WeeklyPerformance.conversions existing + WeeklyPerformance.conversions week,
               WeeklyPerformance.spend :=
                 WeeklyPerformance.spend existing + WeeklyPerformance.spend week,
               WeeklyPerformance.revenue :=
                 WeeklyPerformance.revenue existing + WeeklyPerformance.revenue week\<rparr>"

definition weekly_entry ::
  "(string \<times> WeeklyPerformance) list \<Rightarrow> WeeklyPerformance \<Rightarrow> (string \<times> WeeklyPerformance) list" where
  \<comment> \<open>the body of the inner \<open>forEach\<close> of \<open>getAggregatedWeeklyData\<close>\<close>
  "weekly_entry weeklyMap week =
     (let key = week_start week
      in case map_of weeklyMap key of
           Some existing \<Rightarrow> AList.update key (merge_week existing week) weeklyMap
         | None \<Rightarrow> AList.update key week weeklyMap)"

definition weeklyMap_of :: "Campaign list \<Rightarrow> error + (string \<times> WeeklyPerformance) list" where
  "weeklyMap_of campaigns =
     forEach_campaigns
       (\<lambda>weeklyMap campaign. forEach_entries (weekly_performance campaign) weekly_entry weeklyMap)
       campaigns []"

definition weekly_comparator ::
  "(string \<Rightarrow> int option) \<Rightarrow> WeeklyPerformance \<Rightarrow> WeeklyPerformance \<Rightarrow> int" where
  \<comment> \<open>\<open>new Date(a.week_start).getTime() - new Date(b.week_start).getTime()\<close>\<close>
  "weekly_comparator getTime a b =
     (case (getTime (week_start a), getTime (week_start b)) of
        (Some x, Some y) \<Rightarrow> x - y
      | _ \<Rightarrow> 0)"

definition getAggregatedWeeklyData ::
  "(string \<Rightarrow> int option) \<Rightarrow> MarketingData \<Rightarrow> error + WeeklyPerformance list" where
  "getAggregatedWeeklyData getTime data =
     (case data of
        None \<Rightarrow> Inr []
      | Some campaigns \<Rightarrow>
          (case weeklyMap_of campaigns of
             Inl e \<Rightarrow> Inl e
           | Inr weeklyMap \<Rightarrow>
               Inr (Array_sort (weekly_comparator getTime) (map snd weeklyMap))))"

section \<open>Region view\<close>

text \<open>\<open>src/unnamed/part_002\<close>, the region page.\<close>

definition regional_key :: "RegionalPerformance \<Rightarrow> string" where
  \<comment> \<open>the template string \<open>region-country\<close>\<close>
  "regional_key r = region r @ ''-'' @ country r"

definition merge_region :: "RegionalPerformance \<Rightarrow> RegionalPerformance \<Rightarrow> RegionalPerformance" where
  \<comment> \<open>the object \<open>{...existing, impressions: existing.impressions + region.impressions, ...,
      ctr: region.ctr, conversion_rate: region.conversion_rate, cpc: region.cpc,
      cpa: region.cpa, roas: region.roas}\<close>\<close>
  "merge_region existing region' =
     existing\<lparr>RegionalPerformance.impressions :=
                 RegionalPerformance.impressions existing + RegionalPerformance.impressions region',
               RegionalPerformance.clicks :=
                 RegionalPerformance.clicks existing + RegionalPerformance.clicks region',
               RegionalPerformance.conversions :=
                 RegionalPerformance.conversions existing + RegionalPerformance.conversions region',
               RegionalPerformance.spend :=
                 RegionalPerformance.spend existing + RegionalPerformance.spend region',
               RegionalPerformance.revenue :=
                 RegionalPerformance.revenue existing + RegionalPerformance.revenue region',
               RegionalPerformance.ctr := RegionalPerformance.ctr region',
               conversion_rate := conversion_rate region',
               cpc := cpc region',
               cpa := cpa region',
               roas := roas region'\<rparr>"

definition regional_entry ::
  "(string \<times> RegionalPerformance) list \<Rightarrow> RegionalPerformance \<Rightarrow> (string \<times> RegionalPerformance) list" where
  \<comment> \<open>the body of the inner \<open>forEach\<close> of \<open>getAggregatedRegionalData\<close>\<close>
  "regional_entry regionalMap region' =
     (let key = regional_key region'
      in case map_of regionalMap key of
           Some existing \<Rightarrow> AList.update key (merge_region existing region') regionalMap
         | None \<Rightarrow> AList.update key region' regionalMap)"

definition regionalMap_of :: "Campaign list \<Rightarrow> error + (string \<times> RegionalPerformance) list" where
  "regionalMap_of campaigns =
     forEach_campaigns
       (\<lambda>regionalMap campaign.
          forEach_entries (regional_performance campaign) regional_entry regionalMap)
       campaigns []"

definition getAggregatedRegionalData :: "MarketingData \<Rightarrow> error + RegionalPerformance list" where
  "getAggregatedRegionalData data =
     (case data of
        None \<Rightarrow> Inr []
      | Some campaigns \<Rightarrow>
          (case regionalMap_of campaigns of
             Inl e \<Rightarrow> Inl e
           | Inr regionalMap \<Rightarrow> Inr (map snd regionalMap)))"

section \<open>Device view\<close>

text \<open>
  \<open>src/unnamed/part_001\<close>, the device page. \<open>fetchData\<close> gives every campaign that has
  no \<open>device_breakdown\<close> three entries from \<open>Math.random()\<close> and divides each percentage
  by their sum. Whether the results sum to \<open>100\<close> depends on the rounding of each
  operation, so this one function takes the rounding as a parameter \<open>rnd\<close>, applied to
  the result of each operation: \<open>binary64\<close> for the numbers the program computes with,
  or the identity for exact arithmetic. \<open>random n\<close> is
  the value of the \<open>n\<close>-th call of \<open>Math.random()\<close>, at least \<open>0\<close> and less than \<open>1\<close>;
  the sum of the three raw percentages is then at least \<open>37\<close>, and the division is by a
  number that is not zero.
\<close>

definition mock_device_breakdown :: "(rat \<Rightarrow> rat) \<Rightarrow> rat \<Rightarrow> rat \<Rightarrow> rat \<Rightarrow> DeviceBreakdown list" where
  \<comment> \<open>the array literal, \<open>total = reduce((acc, curr) => acc + curr.percentage_of_audience, 0)\<close>,
      then \<open>(percentage_of_audience / total) * 100\<close> for each entry\<close>
  "mock_device_breakdown rnd r1 r2 r3 =
     (let mobile = rnd (rnd (r1 * 50) + 25);
          desktop = rnd (rnd (r2 * 30) + 10);
          tablet = rnd (rnd (r3 * 10) + 2);
          total = rnd (rnd (rnd (0 + mobile) + desktop) + tablet)
      in [\<lparr>device_type = ''Mobile'',
            DeviceBreakdown.percentage_of_audience = rnd (rnd (mobile / total) * 100)\<rparr>,
          \<lparr>device_type = ''Desktop'',
            DeviceBreakdown.percentage_of_audience = rnd (rnd (desktop / total) * 100)\<rparr>,
          \<lparr>device_type = ''Tablet'',
            DeviceBreakdown.percentage_of_audience = rnd (rnd (tablet / total) * 100)\<rparr>])"

fun mock_campaigns :: "(rat \<Rightarrow> rat) \<Rightarrow> (nat \<Rightarrow> rat) \<Rightarrow> nat \<Rightarrow> Campaign list \<Rightarrow> Campaign list" where
  \<comment> \<open>\<open>result.campaigns.forEach\<close> of \<open>fetchData\<close>; \<open>n\<close> counts the calls of
      \<open>Math.random()\<close> made so far\<close>
  "mock_campaigns rnd random n [] = []"
| "mock_campaigns rnd random n (campaign # campaigns) =
     (case device_breakdown campaign of
        None \<Rightarrow>
          campaign\<lparr>device_breakdown :=
            Some (mock_device_breakdown rnd (random n) (random (n + 1)) (random (n + 2)))\<rparr>
          # mock_campaigns rnd random (n + 3) campaigns
      | Some _ \<Rightarrow> campaign # mock_campaigns rnd random n campaigns)"

definition fetchData :: "(rat \<Rightarrow> rat) \<Rightarrow> (nat \<Rightarrow> rat) \<Rightarrow> MarketingData \<Rightarrow> MarketingData" where
  \<comment> \<open>the value of \<open>data\<close> after the fetch; a response with no \<open>campaigns\<close> throws into
      the \<open>catch\<close> and \<open>data\<close> stays \<open>null\<close>\<close>
  "fetchData rnd random result =
     (case result of None \<Rightarrow> None | Some campaigns \<Rightarrow> Some (mock_campaigns rnd random 0 campaigns))"

record DeviceMetrics =
  mobileClicks :: rat
  mobileSpend :: rat
  mobileRevenue :: rat
  desktopClicks :: rat
  desktopSpend :: rat
  desktopRevenue :: rat
  tabletClicks :: rat
  tabletSpend :: rat
  tabletRevenue :: rat

record ChartDatum =
  label :: string
  datum :: rat

record CampaignPerformanceByDevice =
  campaignName :: string
  deviceType :: string
  impressions :: rat
  clicks :: rat
  conversions :: rat
  ctr :: jsnum
  conversionRate :: jsnum

definition initialMetrics :: DeviceMetrics where
  "initialMetrics =
     \<lparr>mobileClicks = 0, mobileSpend = 0, mobileRevenue = 0,
      desktopClicks = 0, desktopSpend = 0, desktopRevenue = 0,
      tabletClicks = 0, tabletSpend = 0, tabletRevenue = 0\<rparr>"

definition device_metrics_entry ::
  "Campaign \<Rightarrow> DeviceMetrics \<Rightarrow> DeviceBreakdown \<Rightarrow> DeviceMetrics" where
  \<comment> \<open>the body of the inner \<open>forEach\<close> of \<open>processDeviceMetrics\<close>; the \<open>switch\<close> has no
      default\<close>
  "device_metrics_entry campaign metrics device =
     (let percentage = DeviceBreakdown.percentage_of_audience device / 100;
          clicks' = Math_round (binary64 (Campaign.clicks campaign * binary64 percentage));
          spend' = Campaign.spend campaign * percentage;
          revenue' = Campaign.revenue campaign * percentage
      in if device_type device = ''Mobile'' then
           metrics\<lparr>mobileClicks := mobileClicks metrics + clicks',
                   mobileSpend := mobileSpend metrics + spend',
                   mobileRevenue := mobileRevenue metrics + revenue'\<rparr>
         else if device_type device = ''Desktop'' then
           metrics\<lparr>desktopClicks := desktopClicks metrics + clicks',
                   desktopSpend := desktopSpend metrics + spend',
                   desktopRevenue := desktopRevenue metrics + revenue'\<rparr>
         else if device_type device = ''Tablet'' then
           metrics\<lparr>tabletClicks := tabletClicks metrics + clicks',
                   tabletSpend := tabletSpend metrics + spend',
                   tabletRevenue := tabletRevenue metrics + revenue'\<rparr>
         else metrics)"

definition processDeviceMetrics :: "MarketingData \<Rightarrow> error + DeviceMetrics" where
  "processDeviceMetrics data =
     (case data of
        None \<Rightarrow> Inr initialMetrics
      | Some campaigns \<Rightarrow>
          forEach_campaigns
            (\<lambda>metrics campaign.
               forEach_entries (device_breakdown campaign) (device_metrics_entry campaign) metrics)
            campaigns initialMetrics)"

definition device_chart_entry ::
  "Campaign \<Rightarrow> (string \<times> SpendRevenue) list \<Rightarrow> DeviceBreakdown \<Rightarrow> (string \<times> SpendRevenue) list" where
  \<comment> \<open>the body of the inner \<open>forEach\<close> of \<open>processDeviceChartData\<close>\<close>
  "device_chart_entry campaign deviceMap device =
     (let percentage = DeviceBreakdown.percentage_of_audience device / 100;
          spend' = Campaign.spend campaign * percentage;
          revenue' = Campaign.revenue campaign * percentage;
          existing = (case map_of deviceMap (device_type device) of
                        Some e \<Rightarrow> e
                      | None \<Rightarrow> \<lparr>SpendRevenue.spend = 0, SpendRevenue.revenue = 0\<rparr>)
      in AList.update (device_type device)
           \<lparr>SpendRevenue.spend = SpendRevenue.spend existing + spend',
            SpendRevenue.revenue = SpendRevenue.revenue existing + revenue'\<rparr>
           deviceMap)"

definition deviceMap_of :: "Campaign list \<Rightarrow> error + (string \<times> SpendRevenue) list" where
  "deviceMap_of campaigns =
     forEach_campaigns
       (\<lambda>deviceMap campaign.
          forEach_entries (device_breakdown campaign) (device_chart_entry campaign) deviceMap)
       campaigns []"

definition processDeviceChartData :: "MarketingData \<Rightarrow> error + (ChartDatum list \<times> ChartDatum list)" where
  \<comment> \<open>the pair \<open>{spend, revenue}\<close> of lists of \<open>{label, value}\<close>; the field \<open>value\<close> is
      \<open>datum\<close> here\<close>
  "processDeviceChartData data =
     (case data of
        None \<Rightarrow> Inr ([], [])
      | Some campaigns \<Rightarrow>
          (case deviceMap_of campaigns of
             Inl e \<Rightarrow> Inl e
           | Inr deviceMap \<Rightarrow>
               Inr (map (\<lambda>(deviceType', data'). \<lparr>label = deviceType', datum = SpendRevenue.spend data'\<rparr>)
                      deviceMap,
                    map (\<lambda>(deviceType', data'). \<lparr>label = deviceType', datum = SpendRevenue.revenue data'\<rparr>)
                      deviceMap)))"

definition device_rates :: "rat \<Rightarrow> rat \<Rightarrow> rat \<Rightarrow> jsnum \<times> jsnum" where
  \<comment> \<open>\<open>impressions > 0 ? (clicks / impressions) * 100 : 0\<close> and
      \<open>clicks > 0 ? (conversions / clicks) * 100 : 0\<close>, each through
      \<open>parseFloat(_.toFixed(2))\<close>\<close>
  "device_rates impressions' clicks' conversions' =
     (parseFloat_toFixed2 (if impressions' > 0 then js_times (js_div clicks' impressions') 100 else Fin 0),
      parseFloat_toFixed2 (if clicks' > 0 then js_times (js_div conversions' clicks') 100 else Fin 0))"

definition device_performance_of :: "Campaign \<Rightarrow> DeviceBreakdown \<Rightarrow> CampaignPerformanceByDevice" where
  \<comment> \<open>the object \<open>performance\<close> of \<open>processCampaignPerformanceByDevice\<close>\<close>
  "device_performance_of campaign device =
     (let percentage = DeviceBreakdown.percentage_of_audience device / 100;
          impressions' = Math_round (binary64 (Campaign.impressions campaign * binary64 percentage));
          clicks' = Math_round (binary64 (Campaign.clicks campaign * binary64 percentage));
          conversions' = Math_round (binary64 (Campaign.conversions campaign * binary64 percentage))
      in \<lparr>campaignName = name campaign,
          deviceType = device_type device,
          CampaignPerformanceByDevice.impressions = impressions',
          CampaignPerformanceByDevice.clicks = clicks',
          CampaignPerformanceByDevice.conversions = conversions',
          CampaignPerformanceByDevice.ctr = fst (device_rates impressions' clicks' conversions'),
          CampaignPerformanceByDevice.conversionRate = snd (device_rates impressions' clicks' conversions')\<rparr>)"

definition device_performance_entry ::
  "Campaign
    \<Rightarrow> CampaignPerformanceByDevice list \<times> CampaignPerformanceByDevice list \<times> CampaignPerformanceByDevice list
    \<Rightarrow> DeviceBreakdown
    \<Rightarrow> CampaignPerformanceByDevice list \<times> CampaignPerformanceByDevice list \<times> CampaignPerformanceByDevice list" where
  \<comment> \<open>the \<open>switch\<close> that pushes \<open>performance\<close> on \<open>mobile\<close>, \<open>desktop\<close> or \<open>tablet\<close>\<close>
  "device_performance_entry campaign arrays device =
     (case arrays of (mobile, desktop, tablet) \<Rightarrow>
        if device_type device = ''Mobile'' then
          (mobile @ [device_performance_of campaign device], desktop, tablet)
        else if device_type device = ''Desktop'' then
          (mobile, desktop @ [device_performance_of campaign device], tablet)
        else if device_type device = ''Tablet'' then
          (mobile, desktop, tablet @ [device_performance_of campaign device])
        else (mobile, desktop, tablet))"

definition processCampaignPerformanceByDevice ::
  "MarketingData
    \<Rightarrow> error + (CampaignPerformanceByDevice list \<times> CampaignPerformanceByDevice list \<times> CampaignPerformanceByDevice list)" where
  "processCampaignPerformanceByDevice data =
     (case data of
        None \<Rightarrow> Inr ([], [], [])
      | Some campaigns \<Rightarrow>
          forEach_campaigns
            (\<lambda>arrays campaign.
               forEach_entries (device_breakdown campaign) (device_performance_entry campaign) arrays)
            campaigns ([], [], []))"

section \<open>Bubble map\<close>

text \<open>
  \<open>src/unnamed/part_000\<close>, the map component. \<open>CITY_COORDINATES\<close> is an object literal,
  so \<open>CITY_COORDINATES[key]\<close> finds the seven cities and, through the prototype chain,
  the properties every object inherits from \<open>Object.prototype\<close>; these are functions
  (or, for \<open>__proto__\<close>, an object), all truthy, with no \<open>lat\<close> and no \<open>lng\<close>. An
  \<open>undefined\<close> latitude or longitude is \<open>None\<close>. The field \<open>value\<close> of a data point
  is \<open>value'\<close> here.
\<close>

record Coordinates =
  lat :: rat
  lng :: rat

definition CITY_COORDINATES :: "(string \<times> Coordinates) list" where
  "CITY_COORDINATES =
     [(''Abu Dhabi'', \<lparr>lat = 244539 / 10000, lng = 543773 / 10000\<rparr>),
      (''Dubai'', \<lparr>lat = 252048 / 10000, lng = 552708 / 10000\<rparr>),
      (''Sharjah'', \<lparr>lat = 253573 / 10000, lng = 554033 / 10000\<rparr>),
      (''Riyadh'', \<lparr>lat = 247136 / 10000, lng = 466753 / 10000\<rparr>),
      (''Doha'', \<lparr>lat = 252854 / 10000, lng = 51531 / 1000\<rparr>),
      (''Kuwait City'', \<lparr>lat = 293759 / 10000, lng = 479774 / 10000\<rparr>),
      (''Manama'', \<lparr>lat = 260667 / 10000, lng = 505577 / 10000\<rparr>)]"

definition Object_prototype :: "string list" where
  \<comment> \<open>the property names of \<open>Object.prototype\<close>\<close>
  "Object_prototype =
     [''constructor'', ''__defineGetter__'', ''__defineSetter__'', ''hasOwnProperty'',
      ''__lookupGetter__'', ''__lookupSetter__'', ''isPrototypeOf'', ''propertyIsEnumerable'',
      ''toString'', ''valueOf'', ''__proto__'', ''toLocaleString'']"

datatype property = Own Coordinates | Inherited | Undefined

definition CITY_COORDINATES_get :: "string \<Rightarrow> property" where
  \<comment> \<open>\<open>CITY_COORDINATES[key]\<close>\<close>
  "CITY_COORDINATES_get key =
     (case map_of CITY_COORDINATES key of
        Some coordinates \<Rightarrow> Own coordinates
      | None \<Rightarrow> if key \<in> set Object_prototype then Inherited else Undefined)"

datatype valueType = Revenue | Spend | Impressions | Clicks | Conversions

fun item_value :: "RegionalPerformance \<Rightarrow> valueType \<Rightarrow> rat" where
  \<comment> \<open>\<open>item[valueType]\<close>\<close>
  "item_value item Revenue = RegionalPerformance.revenue item"
| "item_value item Spend = RegionalPerformance.spend item"
| "item_value item Impressions = RegionalPerformance.impressions item"
| "item_value item Clicks = RegionalPerformance.clicks item"
| "item_value item Conversions = RegionalPerformance.conversions item"

record AdditionalData =
  revenue :: rat
  spend :: rat
  impressions :: rat
  clicks :: rat
  conversions :: rat

record BubbleMapDataPoint =
  region :: string
  country :: string
  latitude :: "rat option"
  longitude :: "rat option"
  value' :: rat
  additionalData :: AdditionalData

definition additionalData_of :: "RegionalPerformance \<Rightarrow> AdditionalData" where
  "additionalData_of item =
     \<lparr>AdditionalData.revenue = RegionalPerformance.revenue item,
      AdditionalData.spend = RegionalPerformance.spend item,
      AdditionalData.impressions = RegionalPerformance.impressions item,
      AdditionalData.clicks = RegionalPerformance.clicks item,
      AdditionalData.conversions = RegionalPerformance.conversions item\<rparr>"

definition transform_item ::
  "valueType \<Rightarrow> RegionalPerformance \<Rightarrow> BubbleMapDataPoint option \<times> string list" where
  \<comment> \<open>the function mapped over \<open>regionalData\<close>: the point or \<open>null\<close>, and the regions
      passed to \<open>console.warn\<close>\<close>
  "transform_item valueType' item =
     (case CITY_COORDINATES_get (RegionalPerformance.region item) of
        Undefined \<Rightarrow> (None, [RegionalPerformance.region item])
      | Own coordinates \<Rightarrow>
          (Some \<lparr>BubbleMapDataPoint.region = RegionalPerformance.region item,
                 BubbleMapDataPoint.country = RegionalPerformance.country item,
                 latitude = Some (lat coordinates),
                 longitude = Some (lng coordinates),
                 value' = item_value item valueType',
                 additionalData = additionalData_of item\<rparr>, [])
      | Inherited \<Rightarrow>
          (Some \<lparr>BubbleMapDataPoint.region = RegionalPerformance.region item,
                 BubbleMapDataPoint.country = RegionalPerformance.country item,
                 latitude = None,
                 longitude = None,
                 value' = item_value item valueType',
                 additionalData = additionalData_of item\<rparr>, []))"

definition transformRegionalDataForBubbleMap ::
  "RegionalPerformance list \<Rightarrow> valueType \<Rightarrow> BubbleMapDataPoint list \<times> string list" where
  \<comment> \<open>\<open>.map(...).filter(Boolean)\<close>, and the warnings in the order they are written\<close>
  "transformRegionalDataForBubbleMap regionalData valueType' =
     (List.map_filter (\<lambda>item. fst (transform_item valueType' item)) regionalData,
      concat (map (\<lambda>item. snd (transform_item valueType' item)) regionalData))"

datatype color = Hex string | Rgb int int int

definition getRadius :: "rat \<Rightarrow> rat \<Rightarrow> rat \<Rightarrow> rat \<Rightarrow> rat \<Rightarrow> rat" where
  \<comment> \<open>\<open>minRadius\<close> and \<open>maxRadius\<close> are the component's properties\<close>
  "getRadius minRadius maxRadius v minValue maxValue =
     (if maxValue = minValue then (minRadius + maxRadius) / 2
      else let ratio = (v - minValue) / (maxValue - minValue)
           in minRadius + (maxRadius - minRadius) * ratio)"

definition getColor :: "rat \<Rightarrow> rat \<Rightarrow> rat \<Rightarrow> color" where
  \<comment> \<open>\<open>Rgb r g b\<close> is the string \<open>rgb(r, g, b)\<close>\<close>
  "getColor v minValue maxValue =
     (if maxValue = minValue then Hex ''#3B82F6''
      else let ratio = (v - minValue) / (maxValue - minValue)
           in if ratio < 1 / 2 then
                (let intensity = ratio * 2
                 in Rgb (Math_floor (59 + intensity * 196)) (Math_floor (130 + intensity * 125))
                      (Math_floor (246 - intensity * 246)))
              else
                (let intensity = (ratio - 1 / 2) * 2
                 in Rgb (Math_floor (255 - intensity * 255)) (Math_floor (255 - intensity * 255))
                      (Math_floor (246 - intensity * 246))))"

definition Math_min :: "rat \<Rightarrow> rat list \<Rightarrow> rat" where
  \<comment> \<open>\<open>Math.min(x, ...xs)\<close>\<close>
  "Math_min x xs = fold min xs x"

definition Math_max :: "rat \<Rightarrow> rat list \<Rightarrow> rat" where
  \<comment> \<open>\<open>Math.max(x, ...xs)\<close>\<close>
  "Math_max x xs = fold max xs x"

definition BubbleMap :: "rat \<Rightarrow> rat \<Rightarrow> BubbleMapDataPoint list \<Rightarrow> (rat \<times> color) list option" where
  \<comment> \<open>the radius and the fill colour of each \<open>CircleMarker\<close>, in the order of \<open>data\<close>;
      \<open>None\<close> is the placeholder the component returns for no data\<close>
  "BubbleMap minRadius maxRadius data =
     (case data of
        [] \<Rightarrow> None
      | first # others \<Rightarrow>
          let minValue = Math_min (value' first) (map value' others);
              maxValue = Math_max (value' first) (map value' others)
          in Some (map (\<lambda>item. (getRadius minRadius maxRadius (value' item) minValue maxValue,
                                  getColor (value' item) minValue maxValue)) data))"

section \<open>Example documents\<close>

definition campaign_with ::
  "WeeklyPerformance list option \<Rightarrow> RegionalPerformance list option
    \<Rightarrow> DemographicBreakdown list option \<Rightarrow> DeviceBreakdown list option \<Rightarrow> Campaign" where
  "campaign_with weekly regional demographic device =
     \<lparr>name = ''Summer Sale'', Campaign.impressions = 1000, Campaign.clicks = 100,
      Campaign.conversions = 10, Campaign.spend = 500, Campaign.revenue = 4000,
      weekly_performance = weekly, regional_performance = regional,
      demographic_breakdown = demographic, device_breakdown = device\<rparr>"

definition regional_item :: "string \<Rightarrow> rat \<Rightarrow> rat \<Rightarrow> rat \<Rightarrow> rat \<Rightarrow> rat \<Rightarrow> RegionalPerformance" where
  \<comment> \<open>a regional entry with the rates an upstream system computed for it\<close>
  "regional_item r impressions' clicks' conversions' ctr' conversion_rate' =
     \<lparr>RegionalPerformance.region = r, RegionalPerformance.country = ''UAE'',
      RegionalPerformance.impressions = impressions', RegionalPerformance.clicks = clicks',
      RegionalPerformance.conversions = conversions', RegionalPerformance.spend = 50,
      RegionalPerformance.revenue = 400, RegionalPerformance.ctr = ctr',
      conversion_rate = conversion_rate', cpc = 5, cpa = 50, roas = 8\<rparr>"

definition half_then_zero :: "nat \<Rightarrow> rat" where
  \<comment> \<open>\<open>Math.random()\<close> returning \<open>0.5\<close>, then \<open>0\<close>\<close>
  "half_then_zero n = (if n = 0 then 1 / 2 else 0)"

definition bubble_point :: "string \<Rightarrow> rat \<Rightarrow> BubbleMapDataPoint" where
  "bubble_point r v =
     \<lparr>BubbleMapDataPoint.region = r, BubbleMapDataPoint.country = ''UAE'',
      latitude = Some 25, longitude = Some 55, value' = v,
      additionalData = \<lparr>AdditionalData.revenue = v, AdditionalData.spend = 50,
        AdditionalData.impressions = 300, AdditionalData.clicks = 20, AdditionalData.conversions = 5\<rparr>\<rparr>"

fun codepoint_compare :: "string \<Rightarrow> string \<Rightarrow> int" where
  \<comment> \<open>a collation for the examples: lexicographic by character code\<close>
  "codepoint_compare [] [] = 0"
| "codepoint_compare [] (y # ys) = - 1"
| "codepoint_compare (x # xs) [] = 1"
| "codepoint_compare (x # xs) (y # ys) =
     (if (of_char x :: nat) < of_char y then - 1
      else if (of_char y :: nat) < of_char x then 1
      else codepoint_compare xs ys)"

definition example_getTime :: "string \<Rightarrow> int option" where
  \<comment> \<open>the times of two dates; no other string parses\<close>
  "example_getTime s =
     (if s = ''2024-01-01'' then Some 1704067200000
      else if s = ''2024-01-08'' then Some 1704672000000 else None)"

definition week_entry :: "string \<Rightarrow> rat \<Rightarrow> rat \<Rightarrow> rat \<Rightarrow> rat \<Rightarrow> rat \<Rightarrow> WeeklyPerformance" where
  "week_entry start impressions' clicks' conversions' spend' revenue' =
     \<lparr>week_start = start, WeeklyPerformance.impressions = impressions',
      WeeklyPerformance.clicks = clicks', WeeklyPerformance.conversions = conversions',
      WeeklyPerformance.spend = spend', WeeklyPerformance.revenue = revenue'\<rparr>"

definition demo_entry :: "string \<Rightarrow> string \<Rightarrow> rat \<Rightarrow> DemographicBreakdown" where
  "demo_entry a g p =
     \<lparr>age_group = a, DemographicBreakdown.gender = g,
      DemographicBreakdown.percentage_of_audience = p\<rparr>"

definition device_entry :: "string \<Rightarrow> rat \<Rightarrow> DeviceBreakdown" where
  "device_entry t p = \<lparr>device_type = t, DeviceBreakdown.percentage_of_audience = p\<rparr>"

definition example_campaigns :: "Campaign list" where
  "example_campaigns =
     [\<lparr>name = ''Summer Sale'', Campaign.impressions = 1000, Campaign.clicks = 100,
       Campaign.conversions = 10, Campaign.spend = 500, Campaign.revenue = 4000,
       weekly_performance =
         Some [week_entry ''2024-01-08'' 300 30 3 150 1200, week_entry ''2024-01-01'' 200 20 2 100 800],
       regional_performance =
         Some [regional_item ''Dubai'' 100 10 1 10 10, regional_item ''Doha'' 50 5 1 10 20],
       demographic_breakdown =
         Some [demo_entry ''25-34'' ''Female'' 30, demo_entry ''18-24'' ''Male'' 50, demo_entry ''25-34'' ''Other'' 20],
       device_breakdown = Some [device_entry ''Mobile'' 60, device_entry ''Desktop'' 40]\<rparr>,
      \<lparr>name = ''Winter Sale'', Campaign.impressions = 2000, Campaign.clicks = 100,
       Campaign.conversions = 20, Campaign.spend = 1000, Campaign.revenue = 5000,
       weekly_performance = Some [week_entry ''2024-01-01'' 500 40 4 300 1500],
       regional_performance = Some [regional_item ''Dubai'' 200 10 4 5 40],
       demographic_breakdown = Some [demo_entry ''18-24'' ''Male'' 50, demo_entry ''18-24'' ''Female'' 50],
       device_breakdown = Some [device_entry ''Desktop'' 50, device_entry ''Mobile'' 50]\<rparr>]"

definition example_payload :: "Campaign list" where
  \<comment> \<open>the example as the API sends it, without \<open>device_breakdown\<close>\<close>
  "example_payload = map (\<lambda>c. c\<lparr>device_breakdown := None\<rparr>) example_campaigns"

definition unparsed_weeks :: "Campaign list" where
  \<comment> \<open>a campaign with a week start that is not a date, between two that are\<close>
  "unparsed_weeks =
     [campaign_with
        (Some [week_entry ''2024-01-08'' 300 30 3 150 1200, week_entry ''TBD'' 100 10 1 50 400,
               week_entry ''2024-01-01'' 200 20 2 100 800])
        (Some []) (Some []) None]"

definition rounding_campaign :: Campaign where
  \<comment> \<open>a campaign whose share of clicks is \<open>25 * 0.58\<close>\<close>
  "rounding_campaign =
     \<lparr>name = ''Flash Sale'', Campaign.impressions = 50, Campaign.clicks = 25,
      Campaign.conversions = 5, Campaign.spend = 100, Campaign.revenue = 300,
      weekly_performance = Some [], regional_performance = Some [],
      demographic_breakdown = Some [demo_entry ''18-24'' ''Male'' 58],
      device_breakdown = Some [device_entry ''Mobile'' 58]\<rparr>"

section \<open>Notions used in the statements\<close>

text \<open>
  \<open>apportion\<close> is the apportionment function of the specification (its section 4.1);
  the views compute the same product inline, and \<open>rounded_share\<close> is the whole number
  they make of it. \<open>entries\<close> lists the entries of one
  breakdown collection with their campaigns, in the order in which the nested loops
  visit them; \<open>first_appearance\<close> keeps the first occurrence of each key; \<open>upsert\<close> is
  the common shape of the loops that fill a \<open>Map\<close>, and \<open>merged\<close> the value it leaves
  under one key.
\<close>

definition upsert ::
  "('e \<Rightarrow> 'k) \<Rightarrow> ('e \<Rightarrow> 'v) \<Rightarrow> ('v \<Rightarrow> 'e \<Rightarrow> 'v) \<Rightarrow> ('k \<times> 'v) list \<Rightarrow> 'e \<Rightarrow> ('k \<times> 'v) list" where
  \<comment> \<open>one entry \<open>e\<close>: the key's value becomes \<open>comb existing e\<close>, or \<open>init e\<close> for a new key\<close>
  "upsert key init comb m e =
     (case map_of m (key e) of
        Some existing \<Rightarrow> AList.update (key e) (comb existing e) m
      | None \<Rightarrow> AList.update (key e) (init e) m)"

fun first_appearance :: "'a list \<Rightarrow> 'a list" where
  "first_appearance [] = []"
| "first_appearance (x # xs) = x # filter (\<lambda>y. y \<noteq> x) (first_appearance xs)"

definition merged :: "('e \<Rightarrow> 'v) \<Rightarrow> ('v \<Rightarrow> 'e \<Rightarrow> 'v) \<Rightarrow> 'v option \<Rightarrow> 'e list \<Rightarrow> 'v option" where
  \<comment> \<open>the value under a key after the entries \<open>es\<close> of that key, from the value \<open>v\<close> before\<close>
  "merged init comb v es =
     foldl (\<lambda>v e. Some (case v of None \<Rightarrow> init e | Some x \<Rightarrow> comb x e)) v es"

definition entries :: "('c \<Rightarrow> 'e list option) \<Rightarrow> 'c list \<Rightarrow> ('c \<times> 'e) list" where
  "entries sel campaigns =
     concat (map (\<lambda>c. map (Pair c) (case sel c of None \<Rightarrow> [] | Some es \<Rightarrow> es)) campaigns)"

definition all_entries :: "('c \<Rightarrow> 'e list option) \<Rightarrow> 'c list \<Rightarrow> 'e list" where
  "all_entries sel campaigns =
     concat (map (\<lambda>c. case sel c of None \<Rightarrow> [] | Some es \<Rightarrow> es) campaigns)"

definition apportion :: "rat \<Rightarrow> rat \<Rightarrow> rat" where
  \<comment> \<open>the specification's \<open>apportion(total, percentage) = total * (percentage / 100)\<close>\<close>
  "apportion amount percentage = amount * (percentage / 100)"

definition rounded_share :: "rat \<Rightarrow> rat \<Rightarrow> rat" where
  \<comment> \<open>\<open>Math.round(total * (percentage / 100))\<close> on the program's doubles\<close>
  "rounded_share amount percentage =
     Math_round (binary64 (amount * binary64 (percentage / 100)))"

definition weekly_sums :: "WeeklyPerformance list \<Rightarrow> WeeklyPerformance \<Rightarrow> bool" where
  \<comment> \<open>the bucket \<open>b\<close> holds the sums of the own values of the entries of its week\<close>
  "weekly_sums ws b \<longleftrightarrow>
     WeeklyPerformance.impressions b =
       sum_list (map WeeklyPerformance.impressions (filter (\<lambda>w. week_start w = week_start b) ws))
   \<and> WeeklyPerformance.clicks b =
       sum_list (map WeeklyPerformance.clicks (filter (\<lambda>w. week_start w = week_start b) ws))
   \<and> WeeklyPerformance.conversions b =
       sum_list (map WeeklyPerformance.conversions (filter (\<lambda>w. week_start w = week_start b) ws))
   \<and> WeeklyPerformance.spend b =
       sum_list (map WeeklyPerformance.spend (filter (\<lambda>w. week_start w = week_start b) ws))
   \<and> WeeklyPerformance.revenue b =
       sum_list (map WeeklyPerformance.revenue (filter (\<lambda>w. week_start w = week_start b) ws))"

definition regional_sums :: "RegionalPerformance list \<Rightarrow> RegionalPerformance \<Rightarrow> bool" where
  \<comment> \<open>the bucket \<open>b\<close> holds the sums of the own values of the entries of its key\<close>
  "regional_sums rs b \<longleftrightarrow>
     RegionalPerformance.impressions b =
       sum_list (map RegionalPerformance.impressions (filter (\<lambda>r. regional_key r = regional_key b) rs))
   \<and> RegionalPerformance.clicks b =
       sum_list (map RegionalPerformance.clicks (filter (\<lambda>r. regional_key r = regional_key b) rs))
   \<and> RegionalPerformance.conversions b =
       sum_list (map RegionalPerformance.conversions (filter (\<lambda>r. regional_key r = regional_key b) rs))
   \<and> RegionalPerformance.spend b =
       sum_list (map RegionalPerformance.spend (filter (\<lambda>r. regional_key r = regional_key b) rs))
   \<and> RegionalPerformance.revenue b =
       sum_list (map RegionalPerformance.revenue (filter (\<lambda>r. regional_key r = regional_key b) rs))"

definition is_gender :: "string \<Rightarrow> Campaign \<times> DemographicBreakdown \<Rightarrow> bool" where
  "is_gender g ce \<longleftrightarrow> DemographicBreakdown.gender (snd ce) = g"

definition performance_sums ::
  "string \<Rightarrow> (Campaign \<times> DemographicBreakdown) list \<Rightarrow> CampaignPerformance \<Rightarrow> bool" where
  \<comment> \<open>the bucket \<open>b\<close> of the table of gender \<open>g\<close> holds the sums of the rounded shares of
      the entries of its age group and that gender\<close>
  "performance_sums g es b \<longleftrightarrow>
     CampaignPerformance.gender b = g
   \<and> CampaignPerformance.impressions b =
       sum_list (map (\<lambda>ce. rounded_share (Campaign.impressions (fst ce))
                              (DemographicBreakdown.percentage_of_audience (snd ce)))
         (filter (\<lambda>ce. DemographicBreakdown.gender (snd ce) = g
                       \<and> age_group (snd ce) = CampaignPerformance.ageGroup b) es))
   \<and> CampaignPerformance.clicks b =
       sum_list (map (\<lambda>ce. rounded_share (Campaign.clicks (fst ce))
                              (DemographicBreakdown.percentage_of_audience (snd ce)))
         (filter (\<lambda>ce. DemographicBreakdown.gender (snd ce) = g
                       \<and> age_group (snd ce) = CampaignPerformance.ageGroup b) es))
   \<and> CampaignPerformance.conversions b =
       sum_list (map (\<lambda>ce. rounded_share (Campaign.conversions (fst ce))
                              (DemographicBreakdown.percentage_of_audience (snd ce)))
         (filter (\<lambda>ce. DemographicBreakdown.gender (snd ce) = g
                       \<and> age_group (snd ce) = CampaignPerformance.ageGroup b) es))"

definition spend_revenue_of :: "Campaign \<Rightarrow> rat \<Rightarrow> SpendRevenue" where
  "spend_revenue_of campaign percentage =
     \<lparr>SpendRevenue.spend = apportion (Campaign.spend campaign) percentage,
      SpendRevenue.revenue = apportion (Campaign.revenue campaign) percentage\<rparr>"

definition add_spend_revenue :: "SpendRevenue \<Rightarrow> SpendRevenue \<Rightarrow> SpendRevenue" where
  "add_spend_revenue x y =
     \<lparr>SpendRevenue.spend = SpendRevenue.spend x + SpendRevenue.spend y,
      SpendRevenue.revenue = SpendRevenue.revenue x + SpendRevenue.revenue y\<rparr>"

definition age_group_spend :: "(Campaign \<times> DemographicBreakdown) list \<Rightarrow> string \<Rightarrow> rat" where
  "age_group_spend es a =
     sum_list (map (\<lambda>ce. apportion (Campaign.spend (fst ce))
                            (DemographicBreakdown.percentage_of_audience (snd ce)))
       (filter (\<lambda>ce. age_group (snd ce) = a) es))"

definition age_group_revenue :: "(Campaign \<times> DemographicBreakdown) list \<Rightarrow> string \<Rightarrow> rat" where
  "age_group_revenue es a =
     sum_list (map (\<lambda>ce. apportion (Campaign.revenue (fst ce))
                            (DemographicBreakdown.percentage_of_audience (snd ce)))
       (filter (\<lambda>ce. age_group (snd ce) = a) es))"

definition device_spend :: "(Campaign \<times> DeviceBreakdown) list \<Rightarrow> string \<Rightarrow> rat" where
  "device_spend es t =
     sum_list (map (\<lambda>ce. apportion (Campaign.spend (fst ce))
                            (DeviceBreakdown.percentage_of_audience (snd ce)))
       (filter (\<lambda>ce. device_type (snd ce) = t) es))"

definition device_revenue :: "(Campaign \<times> DeviceBreakdown) list \<Rightarrow> string \<Rightarrow> rat" where
  "device_revenue es t =
     sum_list (map (\<lambda>ce. apportion (Campaign.revenue (fst ce))
                            (DeviceBreakdown.percentage_of_audience (snd ce)))
       (filter (\<lambda>ce. device_type (snd ce) = t) es))"

definition is_device :: "string \<Rightarrow> Campaign \<times> DeviceBreakdown \<Rightarrow> bool" where
  "is_device t ce \<longleftrightarrow> device_type (snd ce) = t"

definition device_row_of :: "Campaign \<times> DeviceBreakdown \<Rightarrow> CampaignPerformanceByDevice \<Rightarrow> bool" where
  \<comment> \<open>the row holds the rounded shares of the campaign for the device entry\<close>
  "device_row_of ce row \<longleftrightarrow>
     campaignName row = name (fst ce)
   \<and> deviceType row = device_type (snd ce)
   \<and> CampaignPerformanceByDevice.impressions row =
       rounded_share (Campaign.impressions (fst ce)) (DeviceBreakdown.percentage_of_audience (snd ce))
   \<and> CampaignPerformanceByDevice.clicks row =
       rounded_share (Campaign.clicks (fst ce)) (DeviceBreakdown.percentage_of_audience (snd ce))
   \<and> CampaignPerformanceByDevice.conversions row =
       rounded_share (Campaign.conversions (fst ce)) (DeviceBreakdown.percentage_of_audience (snd ce))"

definition gender_clicks :: "string \<Rightarrow> (Campaign \<times> DemographicBreakdown) list \<Rightarrow> rat" where
  "gender_clicks g es =
     sum_list (map (\<lambda>ce. rounded_share (Campaign.clicks (fst ce))
                            (DemographicBreakdown.percentage_of_audience (snd ce)))
       (filter (is_gender g) es))"

definition gender_spend :: "string \<Rightarrow> (Campaign \<times> DemographicBreakdown) list \<Rightarrow> rat" where
  "gender_spend g es =
     sum_list (map (\<lambda>ce. apportion (Campaign.spend (fst ce))
                            (DemographicBreakdown.percentage_of_audience (snd ce)))
       (filter (is_gender g) es))"

definition gender_revenue :: "string \<Rightarrow> (Campaign \<times> DemographicBreakdown) list \<Rightarrow> rat" where
  "gender_revenue g es =
     sum_list (map (\<lambda>ce. apportion (Campaign.revenue (fst ce))
                            (DemographicBreakdown.percentage_of_audience (snd ce)))
       (filter (is_gender g) es))"

definition demographic_metrics_sums ::
  "(Campaign \<times> DemographicBreakdown) list \<Rightarrow> DemographicMetrics \<Rightarrow> bool" where
  \<comment> \<open>the six totals of the cards: for each gender the sum of the rounded shares of
      clicks and the sums of the shares of spend and revenue\<close>
  "demographic_metrics_sums es metrics \<longleftrightarrow>
     maleClicks metrics = gender_clicks ''Male'' es
   \<and> maleSpend metrics = gender_spend ''Male'' es
   \<and> maleRevenue metrics = gender_revenue ''Male'' es
   \<and> femaleClicks metrics = gender_clicks ''Female'' es
   \<and> femaleSpend metrics = gender_spend ''Female'' es
   \<and> femaleRevenue metrics = gender_revenue ''Female'' es"

definition device_clicks :: "(Campaign \<times> DeviceBreakdown) list \<Rightarrow> string \<Rightarrow> rat" where
  "device_clicks es t =
     sum_list (map (\<lambda>ce. rounded_share (Campaign.clicks (fst ce))
                            (DeviceBreakdown.percentage_of_audience (snd ce)))
       (filter (\<lambda>ce. device_type (snd ce) = t) es))"

definition device_metrics_sums ::
  "(Campaign \<times> DeviceBreakdown) list \<Rightarrow> DeviceMetrics \<Rightarrow> bool" where
  \<comment> \<open>the nine totals of the cards, for the device types Mobile, Desktop and Tablet\<close>
  "device_metrics_sums es metrics \<longleftrightarrow>
     mobileClicks metrics = device_clicks es ''Mobile''
   \<and> mobileSpend metrics = device_spend es ''Mobile''
   \<and> mobileRevenue metrics = device_revenue es ''Mobile''
   \<and> desktopClicks metrics = device_clicks es ''Desktop''
   \<and> desktopSpend metrics = device_spend es ''Desktop''
   \<and> desktopRevenue metrics = device_revenue es ''Desktop''
   \<and> tabletClicks metrics = device_clicks es ''Tablet''
   \<and> tabletSpend metrics = device_spend es ''Tablet''
   \<and> tabletRevenue metrics = device_revenue es ''Tablet''"

definition synthetic_percentages :: "(rat \<Rightarrow> rat) \<Rightarrow> rat \<Rightarrow> rat \<Rightarrow> rat \<Rightarrow> rat list" where
  \<comment> \<open>the three percentages of the array literal of \<open>fetchData\<close>, before it divides them\<close>
  "synthetic_percentages rnd r1 r2 r3 =
     [rnd (rnd (r1 * 50) + 25), rnd (rnd (r2 * 30) + 10), rnd (rnd (r3 * 10) + 2)]"

definition normalized_by :: "(rat \<Rightarrow> rat) \<Rightarrow> rat list \<Rightarrow> DeviceBreakdown list \<Rightarrow> bool" where
  \<comment> \<open>the entries are Mobile, Desktop and Tablet, each with its percentage of \<open>raw\<close>
      divided by the sum of \<open>raw\<close>, added up from 0 in order, and multiplied by 100\<close>
  "normalized_by rnd raw ds \<longleftrightarrow>
     map device_type ds = [''Mobile'', ''Desktop'', ''Tablet'']
   \<and> map DeviceBreakdown.percentage_of_audience ds =
       map (\<lambda>x. rnd (rnd (x / foldl (\<lambda>acc curr. rnd (acc + curr)) 0 raw) * 100)) raw"

definition near_normalized :: "rat list \<Rightarrow> DeviceBreakdown list \<Rightarrow> bool" where
  \<comment> \<open>each percentage is within \<open>1e-13\<close> of its share of 100, and so is their sum of 100\<close>
  "near_normalized raw ds \<longleftrightarrow>
     list_all2 (\<lambda>p x. \<bar>p - x / sum_list raw * 100\<bar> \<le> 1 / 10 ^ 13)
       (map DeviceBreakdown.percentage_of_audience ds) raw
   \<and> \<bar>sum_list (map DeviceBreakdown.percentage_of_audience ds) - 100\<bar> \<le> 1 / 10 ^ 13"

definition draws_before :: "nat \<Rightarrow> Campaign list \<Rightarrow> nat" where
  \<comment> \<open>the calls of \<open>Math.random()\<close> made for the campaigns before the \<open>i\<close>-th: three
      for each campaign without \<open>device_breakdown\<close>\<close>
  "draws_before i campaigns =
     3 * length (filter (\<lambda>c. device_breakdown c = None) (take i campaigns))"

definition synthetic_for :: "(rat \<Rightarrow> rat) \<Rightarrow> (nat \<Rightarrow> rat) \<Rightarrow> nat \<Rightarrow> Campaign list \<Rightarrow> rat list" where
  \<comment> \<open>the synthetic percentages of the \<open>i\<close>-th campaign, from its three draws\<close>
  "synthetic_for rnd random i campaigns =
     (let k = draws_before i campaigns
      in synthetic_percentages rnd (random k) (random (k + 1)) (random (k + 2)))"

definition male_or_female :: "DemographicBreakdown \<Rightarrow> bool" where
  "male_or_female demo \<longleftrightarrow>
     DemographicBreakdown.gender demo = ''Male'' \<or> DemographicBreakdown.gender demo = ''Female''"

definition keep_male_female :: "Campaign \<Rightarrow> Campaign" where
  \<comment> \<open>the campaign without its demographic entries of another gender\<close>
  "keep_male_female campaign =
     campaign\<lparr>demographic_breakdown :=
       map_option (filter male_or_female) (demographic_breakdown campaign)\<rparr>"

definition dates_parse :: "(string \<Rightarrow> int option) \<Rightarrow> Campaign list \<Rightarrow> bool" where
  \<comment> \<open>every weekly entry's \<open>week_start\<close> parses as a date\<close>
  "dates_parse getTime campaigns =
     list_all (\<lambda>w. getTime (week_start w) \<noteq> None) (all_entries weekly_performance campaigns)"

definition week_not_after :: "(string \<Rightarrow> int option) \<Rightarrow> WeeklyPerformance \<Rightarrow> WeeklyPerformance \<Rightarrow> bool" where
  "week_not_after getTime a b \<longleftrightarrow>
     (\<exists>x y. getTime (week_start a) = Some x \<and> getTime (week_start b) = Some y \<and> x \<le> y)"

definition present :: "(Campaign \<Rightarrow> 'e list option) \<Rightarrow> Campaign list \<Rightarrow> bool" where
  \<comment> \<open>every campaign has the collection \<open>sel\<close>\<close>
  "present sel campaigns = list_all (\<lambda>c. sel c \<noteq> None) campaigns"

definition consistent_comparator :: "('a \<Rightarrow> 'a \<Rightarrow> int) \<Rightarrow> bool" where
  \<comment> \<open>the comparator orders any two elements, transitively\<close>
  "consistent_comparator cmp \<longleftrightarrow>
     (\<forall>a b. cmp a b \<le> 0 \<or> cmp b a \<le> 0)
   \<and> (\<forall>a b c. cmp a b \<le> 0 \<longrightarrow> cmp b c \<le> 0 \<longrightarrow> cmp a c \<le> 0)"

section \<open>Lemmas\<close>

subsection \<open>Rounding to binary64\<close>

text \<open>
  \<open>ilog2\<close> is the exponent of a positive number; a number with a 53-bit mantissa
  \<open>m\<close> within half a unit is rounded to that mantissa (\<open>binary64_eq_div\<close>, by which
  \<open>simp\<close> evaluates \<open>binary64\<close>); whole numbers below \<open>2 ^ 53\<close> are doubles; and
  rounding changes a number by at most one part in \<open>2 ^ 53\<close>.
\<close>

lemma bitlen_powi_bounds:
  assumes "0 < p"
  shows "(2::rat) powi (bitlen p - 1) \<le> of_int p" and "of_int p < (2::rat) powi bitlen p"
proof -
  from assms have pos: "0 < bitlen p"
    using bitlen_eq_zero_iff [of p] bitlen_nonneg [of p] by linarith
  from bitlen_bounds [OF assms] have "(2::int) ^ nat (bitlen p - 1) \<le> p" and "p < 2 ^ nat (bitlen p)"
    by simp_all
  then have "(of_int (2 ^ nat (bitlen p - 1)) :: rat) \<le> of_int p"
    and "(of_int p :: rat) < of_int (2 ^ nat (bitlen p))"
    by (simp_all only: of_int_le_iff of_int_less_iff)
  with pos show "(2::rat) powi (bitlen p - 1) \<le> of_int p" and "of_int p < (2::rat) powi bitlen p"
    by (simp_all add: power_int_def)
qed

lemma ilog2_bounds:
  assumes "0 < x"
  shows "2 powi ilog2 x \<le> x" and "x < 2 powi (ilog2 x + 1)"
proof -
  obtain p q where pq: "quotient_of x = (p, q)"
    by (cases "quotient_of x")
  then have q: "0 < q" and x: "x = of_int p / of_int q"
    by (rule quotient_of_denom_pos, rule quotient_of_div)
  with assms have p: "0 < p"
    by (simp add: zero_less_divide_iff)
  define k where "k = bitlen p - bitlen q"
  note P = bitlen_powi_bounds [OF p] and Q = bitlen_powi_bounds [OF q]
  have qpos: "(0::rat) < of_int q" using q by simp
  have "x < 2 powi bitlen p / of_int q"
    unfolding x using P(2) qpos by (simp add: divide_strict_right_mono)
  also have "\<dots> \<le> 2 powi bitlen p / 2 powi (bitlen q - 1)"
    using Q(1) qpos by (intro divide_left_mono mult_pos_pos) simp_all
  also have "\<dots> = 2 powi (k + 1)"
    by (simp add: k_def power_int_diff [symmetric] algebra_simps)
  finally have upper: "x < 2 powi (k + 1)" .
  have "2 powi (k - 1) = 2 powi (bitlen p - 1) / (2::rat) powi bitlen q"
    by (simp add: k_def power_int_diff [symmetric] algebra_simps)
  also have "\<dots> \<le> of_int p / 2 powi bitlen q"
    using P(1) by (intro divide_right_mono) simp_all
  also have "\<dots> \<le> of_int p / of_int q"
    using Q(2) p qpos by (intro divide_left_mono mult_pos_pos) simp_all
  finally have lower: "2 powi (k - 1) \<le> x"
    by (simp add: x)
  have i: "ilog2 x = (if 2 powi k \<le> x then k else k - 1)"
    by (simp add: ilog2_def pq k_def Let_def)
  show "2 powi ilog2 x \<le> x"
    using lower by (simp add: i)
  show "x < 2 powi (ilog2 x + 1)"
    using upper by (simp add: i not_le)
qed

lemma ilog2_unique:
  assumes "2 powi e \<le> x" and "x < 2 powi (e + 1)"
  shows "ilog2 x = e"
proof -
  have "(0::rat) < 2 powi e" by simp
  from this assms(1) have pos: "0 < x" by (rule less_le_trans)
  note B = ilog2_bounds [OF pos]
  have "\<not> ilog2 x + 1 \<le> e"
  proof
    assume "ilog2 x + 1 \<le> e"
    then have "(2::rat) powi (ilog2 x + 1) \<le> 2 powi e"
      by (intro power_int_increasing) simp_all
    with B(2) assms(1) show False by simp
  qed
  moreover have "\<not> e + 1 \<le> ilog2 x"
  proof
    assume "e + 1 \<le> ilog2 x"
    then have "(2::rat) powi (e + 1) \<le> 2 powi ilog2 x"
      by (intro power_int_increasing) simp_all
    with B(1) assms(2) show False by simp
  qed
  ultimately show ?thesis by simp
qed

lemma round_half_even_error: "\<bar>of_int (round_half_even x) - x\<bar> \<le> 1 / 2"
proof -
  have "of_int \<lfloor>x\<rfloor> \<le> x" "x < of_int \<lfloor>x\<rfloor> + 1"
    by linarith+
  then show ?thesis
    by (auto simp: round_half_even_def Let_def abs_le_iff)
qed

lemma round_half_even_eqI:
  assumes "\<bar>x - of_int m\<bar> < 1 / 2"
  shows "round_half_even x = m"
proof -
  from assms have "of_int m - 1 / 2 < x" "x < of_int m + 1 / 2"
    by linarith+
  have fl: "\<lfloor>x\<rfloor> = m \<or> \<lfloor>x\<rfloor> = m - 1"
  proof -
    have "of_int (m - 1) \<le> x" using \<open>of_int m - 1 / 2 < x\<close> by simp
    then have "m - 1 \<le> \<lfloor>x\<rfloor>" by (simp add: le_floor_iff)
    moreover have "x < of_int (m + 1)" using \<open>x < of_int m + 1 / 2\<close> by simp
    then have "\<lfloor>x\<rfloor> < m + 1" by (simp only: floor_less_iff)
    ultimately show ?thesis by linarith
  qed
  then show ?thesis
  proof
    assume "\<lfloor>x\<rfloor> = m"
    with \<open>x < of_int m + 1 / 2\<close> show ?thesis
      by (simp add: round_half_even_def Let_def)
  next
    assume "\<lfloor>x\<rfloor> = m - 1"
    with \<open>of_int m - 1 / 2 < x\<close> show ?thesis
      by (simp add: round_half_even_def Let_def)
  qed
qed

lemma round_half_even_of_int [simp]: "round_half_even (of_int n) = n"
  by (rule round_half_even_eqI) simp

lemma binary64_0 [simp]: "binary64 0 = 0"
  by (simp add: binary64_def)

lemma binary64_minus: "binary64 (- x) = - binary64 x"
  by (simp add: binary64_def Let_def sgn_minus)

lemma binary64_pos:
  assumes "0 < x"
  shows "binary64 x = of_int (round_half_even (x / 2 powi (ilog2 x - 52))) * 2 powi (ilog2 x - 52)"
  using assms by (simp add: binary64_def Let_def)

lemma binary64_eqI:
  assumes "2 powi (e + 52) \<le> x" and "x < 2 powi (e + 53)"
    and "\<bar>x - of_int m * 2 powi e\<bar> < 2 powi e / 2"
  shows "binary64 x = of_int m * 2 powi e"
proof -
  have "(0::rat) < 2 powi (e + 52)" by simp
  from this assms(1) have pos: "0 < x" by (rule less_le_trans)
  have "ilog2 x = e + 52"
    using assms(1,2) by (intro ilog2_unique) (simp_all add: add.assoc)
  then have b: "binary64 x = of_int (round_half_even (x / 2 powi e)) * 2 powi e"
    by (simp add: binary64_pos [OF pos])
  have pe: "(0::rat) < 2 powi e" by simp
  have "x / 2 powi e - of_int m = (x - of_int m * 2 powi e) / 2 powi e"
    by (simp add: diff_divide_distrib)
  then have "\<bar>x / 2 powi e - of_int m\<bar> = \<bar>x - of_int m * 2 powi e\<bar> / 2 powi e"
    by (simp only: abs_divide abs_of_pos [OF pe])
  also have "\<dots> < (2 powi e / 2) / 2 powi e"
    using assms(3) by (intro divide_strict_right_mono) simp_all
  finally have "\<bar>x / 2 powi e - of_int m\<bar> < 1 / 2"
    by simp
  then have "round_half_even (x / 2 powi e) = m"
    by (rule round_half_even_eqI)
  with b show ?thesis by simp
qed

lemma binary64_error_pos:
  assumes "0 < x"
  shows "\<bar>binary64 x - x\<bar> \<le> x / 2 ^ 53"
proof -
  define e where "e = ilog2 x - 52"
  have pe: "(0::rat) < 2 powi e" by simp
  have "binary64 x - x = (of_int (round_half_even (x / 2 powi e)) - x / 2 powi e) * 2 powi e"
    by (simp add: binary64_pos [OF assms] e_def algebra_simps)
  then have "\<bar>binary64 x - x\<bar> = \<bar>of_int (round_half_even (x / 2 powi e)) - x / 2 powi e\<bar> * 2 powi e"
    by (simp add: abs_mult)
  also have "\<dots> \<le> 1 / 2 * 2 powi e"
    by (intro mult_right_mono round_half_even_error) simp
  also have "\<dots> = 2 powi ilog2 x / 2 ^ 53"
    by (simp add: e_def power_int_diff)
  also have "\<dots> \<le> x / 2 ^ 53"
    using ilog2_bounds(1) [OF assms] by (intro divide_right_mono) simp_all
  finally show ?thesis .
qed

lemma binary64_bounds:
  assumes "0 \<le> x"
  shows "x * (1 - 1 / 2 ^ 53) \<le> binary64 x" and "binary64 x \<le> x * (1 + 1 / 2 ^ 53)"
proof -
  define u where "u = x / 2 ^ 53"
  have "\<bar>binary64 x - x\<bar> \<le> u"
  proof (cases "x = 0")
    case True
    then show ?thesis by (simp add: u_def)
  next
    case False
    with assms have "0 < x" by simp
    then show ?thesis unfolding u_def by (rule binary64_error_pos)
  qed
  then have "x - u \<le> binary64 x" "binary64 x \<le> x + u"
    by linarith+
  moreover have "x * (1 - 1 / 2 ^ 53) = x - u" "x * (1 + 1 / 2 ^ 53) = x + u"
    by (simp_all add: u_def algebra_simps)
  ultimately show "x * (1 - 1 / 2 ^ 53) \<le> binary64 x" and "binary64 x \<le> x * (1 + 1 / 2 ^ 53)"
    by simp_all
qed

lemma binary64_of_int:
  assumes "\<bar>n\<bar> < 2 ^ 53"
  shows "binary64 (of_int n) = of_int n"
proof -
  have pos: "binary64 (of_int n) = of_int n" if n: "0 < n" "n < 2 ^ 53" for n :: int
  proof -
    have x: "(0::rat) < of_int n" using n by simp
    define i where "i = ilog2 (of_int n)"
    have "2 powi i \<le> (of_int n :: rat)"
      unfolding i_def by (rule ilog2_bounds(1) [OF x])
    also have "(of_int n :: rat) < of_int (2 ^ 53)"
      using n(2) by (simp only: of_int_less_iff)
    finally have lt: "(2::rat) powi i < 2 powi 53"
      by (simp add: power_int_def)
    have "\<not> 53 \<le> i"
    proof
      assume "53 \<le> i"
      then have "(2::rat) powi 53 \<le> 2 powi i"
        by (intro power_int_increasing) simp_all
      with lt show False by simp
    qed
    then have "i \<le> 52" by simp
    define j where "j = nat (52 - i)"
    have p: "(2::rat) powi (i - 52) = 1 / 2 ^ j"
      using \<open>i \<le> 52\<close> by (simp add: j_def power_int_def field_simps)
    then have "of_int n / 2 powi (i - 52) = (of_int (n * 2 ^ j) :: rat)"
      by simp
    then have "round_half_even (of_int n / 2 powi (i - 52)) = n * 2 ^ j"
      by (simp only: round_half_even_of_int)
    then show ?thesis
      using p by (simp add: binary64_pos [OF x] i_def [symmetric])
  qed
  consider "0 < n" | "n = 0" | "n < 0" by linarith
  then show ?thesis
  proof cases
    case 1
    with assms show ?thesis by (intro pos) simp_all
  next
    case 2
    then show ?thesis by simp
  next
    case 3
    with assms have "binary64 (of_int (- n)) = of_int (- n)" by (intro pos) simp_all
    then show ?thesis by (simp add: binary64_minus)
  qed
qed

lemma binary64_numeral [simp]:
  "(numeral k :: int) < 9007199254740992 \<Longrightarrow> binary64 (numeral k) = numeral k"
  using binary64_of_int [of "numeral k"] by simp

lemma binary64_1 [simp]: "binary64 1 = 1"
  using binary64_of_int [of 1] by simp

lemma binary64_eq_div:
  fixes k :: nat
  assumes "2 ^ 52 \<le> x * 2 ^ k" and "x * 2 ^ k < 2 ^ 53" and "\<bar>x * 2 ^ k - of_int m\<bar> < 1 / 2"
  shows "binary64 x = of_int m / 2 ^ k"
proof -
  have p: "(2::rat) powi (- int k) = 1 / 2 ^ k"
    by (simp add: power_int_minus field_simps)
  have "binary64 x = of_int m * 2 powi (- int k)"
  proof (rule binary64_eqI)
    have "(2::rat) powi (- int k + 52) = 2 ^ 52 / 2 ^ k"
      by (subst power_int_add) (simp_all add: p)
    also have "\<dots> \<le> x" using assms(1) by (simp add: field_simps)
    finally show "2 powi (- int k + 52) \<le> x" .
    have "x < 2 ^ 53 / 2 ^ k" using assms(2) by (simp add: field_simps)
    also have "\<dots> = (2::rat) powi (- int k + 53)"
      by (subst power_int_add) (simp_all add: p)
    finally show "x < 2 powi (- int k + 53)" .
    have "x - of_int m * 2 powi (- int k) = (x * 2 ^ k - of_int m) / 2 ^ k"
      by (simp add: p field_simps)
    then have "\<bar>x - of_int m * 2 powi (- int k)\<bar> = \<bar>x * 2 ^ k - of_int m\<bar> / 2 ^ k"
      by (simp only: abs_divide) simp
    also have "\<dots> < (1 / 2) / 2 ^ k"
      using assms(3) by (intro divide_strict_right_mono) simp_all
    finally show "\<bar>x - of_int m * 2 powi (- int k)\<bar> < 2 powi (- int k) / 2"
      by (simp add: p)
  qed
  then show ?thesis by (simp add: p)
qed

lemma binary64_half [simp]: "binary64 (1 / 2) = 1 / 2"
  using binary64_eq_div [of "1 / 2" 53 "2 ^ 52"] by simp

lemma binary64_rnd:
  "0 \<le> x \<Longrightarrow> (1 - 1 / 2 ^ 53) * x \<le> binary64 x \<and> binary64 x \<le> (1 + 1 / 2 ^ 53) * x"
  using binary64_bounds [of x] by (simp add: mult.commute)

lemma binary64_nonneg: "0 \<le> x \<Longrightarrow> 0 \<le> binary64 x"
proof -
  assume x: "0 \<le> x"
  then have "0 \<le> (1 - 1 / 2 ^ 53) * x" by (intro mult_nonneg_nonneg) simp_all
  with binary64_rnd [OF x] show ?thesis by simp
qed

lemma binary64_positive: "0 < x \<Longrightarrow> 0 < binary64 x"
proof -
  assume x: "0 < x"
  then have "0 < (1 - 1 / 2 ^ 53) * x" by (intro mult_pos_pos) simp_all
  moreover from x have "0 \<le> x" by simp
  from binary64_rnd [OF this] have "(1 - 1 / 2 ^ 53) * x \<le> binary64 x" by simp
  ultimately show ?thesis by (rule less_le_trans)
qed

lemma rounded_sum_step:
  fixes a b lo hi :: rat
  assumes rnd_all: "\<forall>x. 0 \<le> x \<longrightarrow> a * x \<le> rnd x \<and> rnd x \<le> b * x"
    and a: "0 < a" "a \<le> 1" and b: "1 \<le> b"
    and lo: "0 < lo" "lo \<le> 1" and hi: "1 \<le> hi"
    and X: "0 \<le> X" and Z: "0 \<le> Z"
    and Y: "lo * X \<le> Y" "Y \<le> hi * X"
  shows "a * lo * (X + Z) \<le> rnd (Y + Z)" and "rnd (Y + Z) \<le> b * hi * (X + Z)"
proof -
  from rnd_all have rnd: "0 \<le> x \<Longrightarrow> a * x \<le> rnd x \<and> rnd x \<le> b * x" for x by simp
  have "0 \<le> lo * X" using lo X by simp
  with Y have Y0: "0 \<le> Y" by simp
  with Z have YZ: "0 \<le> Y + Z" by simp
  have "lo * Z \<le> 1 * Z" using lo Z by (intro mult_right_mono) simp_all
  with Y have "lo * (X + Z) \<le> Y + Z" by (simp add: algebra_simps)
  then have "a * (lo * (X + Z)) \<le> a * (Y + Z)"
    using a by (intro mult_left_mono) simp_all
  also have "\<dots> \<le> rnd (Y + Z)" using rnd [OF YZ] by simp
  finally show "a * lo * (X + Z) \<le> rnd (Y + Z)" by (simp add: mult.assoc)
  have "1 * Z \<le> hi * Z" using hi Z by (intro mult_right_mono) simp_all
  with Y have "Y + Z \<le> hi * (X + Z)" by (simp add: algebra_simps)
  then have "b * (Y + Z) \<le> b * (hi * (X + Z))"
    using b by (intro mult_left_mono) simp_all
  moreover have "rnd (Y + Z) \<le> b * (Y + Z)" using rnd [OF YZ] by simp
  ultimately show "rnd (Y + Z) \<le> b * hi * (X + Z)" by (simp add: mult.assoc)
qed

lemma rounded_percentage:
  fixes a b lo hi :: rat
  assumes rnd_all: "\<forall>x. 0 \<le> x \<longrightarrow> a * x \<le> rnd x \<and> rnd x \<le> b * x"
    and a: "0 < a" and b: "1 \<le> b"
    and lo: "0 < lo" and hi: "0 < hi"
    and x: "0 \<le> x" and S: "0 < S"
    and T: "lo * S \<le> T" "T \<le> hi * S"
  shows "a * a / hi * (x / S * 100) \<le> rnd (rnd (x / T) * 100)"
    and "rnd (rnd (x / T) * 100) \<le> b * b / lo * (x / S * 100)"
proof -
  from rnd_all have rnd: "0 \<le> x \<Longrightarrow> a * x \<le> rnd x \<and> rnd x \<le> b * x" for x by simp
  have loS: "0 < lo * S" and hiS: "0 < hi * S" using lo hi S by simp_all
  with T have Tpos: "0 < T" by simp
  have q0: "0 \<le> x / T" using x Tpos by simp
  have b0: "0 < b" using b by simp
  have q1: "x / (hi * S) \<le> x / T"
    using x T(2) Tpos hi S by (intro divide_left_mono mult_pos_pos) simp_all
  have q2: "x / T \<le> x / (lo * S)"
    using x T(1) Tpos lo S by (intro divide_left_mono mult_pos_pos) simp_all
  have r0: "0 \<le> rnd (x / T)"
  proof -
    have "0 \<le> a * (x / T)" using a q0 by (intro mult_nonneg_nonneg) simp_all
    with rnd [OF q0] show ?thesis by simp
  qed
  then have r100: "0 \<le> rnd (x / T) * 100" by simp
  have "a * (x / (hi * S)) \<le> a * (x / T)"
    using a q1 by (intro mult_left_mono) simp_all
  also have "\<dots> \<le> rnd (x / T)" using rnd [OF q0] by simp
  finally have "a * (a * (x / (hi * S)) * 100) \<le> a * (rnd (x / T) * 100)"
    using a by (intro mult_left_mono mult_right_mono) simp_all
  also have "\<dots> \<le> rnd (rnd (x / T) * 100)" using rnd [OF r100] by simp
  finally show "a * a / hi * (x / S * 100) \<le> rnd (rnd (x / T) * 100)"
    by (simp add: field_simps)
  have "rnd (x / T) \<le> b * (x / T)" using rnd [OF q0] by simp
  also have "\<dots> \<le> b * (x / (lo * S))"
    using b0 q2 by (intro mult_left_mono) simp_all
  finally have "b * (rnd (x / T) * 100) \<le> b * (b * (x / (lo * S)) * 100)"
    using b0 by (intro mult_left_mono mult_right_mono) simp_all
  moreover have "rnd (rnd (x / T) * 100) \<le> b * (rnd (x / T) * 100)" using rnd [OF r100] by simp
  ultimately have "rnd (rnd (x / T) * 100) \<le> b * (b * (x / (lo * S)) * 100)" by simp
  then show "rnd (rnd (x / T) * 100) \<le> b * b / lo * (x / S * 100)"
    by (simp add: field_simps)
qed

lemma near_abs:
  fixes p y :: rat
  assumes "(1 - 1 / 10 ^ 15) * y \<le> p" and "p \<le> (1 + 1 / 10 ^ 15) * y" and "y \<le> 100"
  shows "\<bar>p - y\<bar> \<le> 1 / 10 ^ 13"
proof -
  define e :: rat where "e = 1 / 10 ^ 15"
  have e: "0 \<le> e" "e * 100 = 1 / 10 ^ 13" by (simp_all add: e_def)
  have "e * y \<le> e * 100" using assms(3) e(1) by (rule mult_left_mono)
  moreover from assms(1,2) have "(1 - e) * y \<le> p" "p \<le> (1 + e) * y"
    by (simp_all only: e_def)
  then have "y - e * y \<le> p" "p \<le> y + e * y"
    by (simp_all only: left_diff_distrib distrib_right mult_1_left)
  ultimately have "\<bar>p - y\<bar> \<le> e * 100" by linarith
  then show ?thesis by (simp only: e)
qed

lemma normalized_binary64_near:
  fixes M D Tb :: rat
  assumes M: "0 < M" and D: "0 < D" and Tb: "0 < Tb"
  defines "T \<equiv> binary64 (binary64 (binary64 M + D) + Tb)"
  defines "S \<equiv> M + D + Tb"
  shows "\<bar>binary64 (binary64 (M / T) * 100) - M / S * 100\<bar> \<le> 1 / 10 ^ 13"
    and "\<bar>binary64 (binary64 (D / T) * 100) - D / S * 100\<bar> \<le> 1 / 10 ^ 13"
    and "\<bar>binary64 (binary64 (Tb / T) * 100) - Tb / S * 100\<bar> \<le> 1 / 10 ^ 13"
    and "\<bar>binary64 (binary64 (M / T) * 100) + binary64 (binary64 (D / T) * 100)
          + binary64 (binary64 (Tb / T) * 100) - 100\<bar> \<le> 1 / 10 ^ 13"
proof -
  define a b :: rat where "a = 1 - 1 / 2 ^ 53" and "b = 1 + 1 / 2 ^ 53"
  have rnd_all: "\<forall>x. 0 \<le> x \<longrightarrow> a * x \<le> binary64 x \<and> binary64 x \<le> b * x"
    unfolding a_def b_def using binary64_rnd by blast
  have a: "0 < a" "a \<le> 1" and b: "1 \<le> b" by (simp_all add: a_def b_def)
  have S: "0 < S" using M D Tb by (simp add: S_def)
  have M0: "0 \<le> M" and D0: "0 \<le> D" and Tb0: "0 \<le> Tb" using M D Tb by simp_all
  from rnd_all M0 have T1: "a * M \<le> binary64 M" "binary64 M \<le> b * M" by blast+
  have T2: "a * a * (M + D) \<le> binary64 (binary64 M + D)" "binary64 (binary64 M + D) \<le> b * b * (M + D)"
    by (rule rounded_sum_step [where rnd = binary64, OF rnd_all a b a b M0 D0 T1])+
  have aa: "0 < a * a" "a * a \<le> 1" and bb: "1 \<le> b * b" by (simp_all add: a_def b_def)
  have MD: "0 \<le> M + D" using M D by simp
  have T3: "a * (a * a) * S \<le> T" "T \<le> b * (b * b) * S"
    unfolding T_def S_def
    by (rule rounded_sum_step [where rnd = binary64, OF rnd_all a b aa bb MD Tb0 T2])+
  have lo: "0 < a * (a * a)" and hi: "0 < b * (b * b)" by (simp_all add: a_def b_def)
  note P = rounded_percentage [where rnd = binary64, OF rnd_all a(1) b lo hi _ S T3]
  have c1: "1 - 1 / 10 ^ 15 \<le> a * a / (b * (b * b))" by (simp add: a_def b_def)
  have c2: "b * b / (a * (a * a)) \<le> 1 + 1 / 10 ^ 15" by (simp add: a_def b_def)
  have near: "(1 - 1 / 10 ^ 15) * (x / S * 100) \<le> binary64 (binary64 (x / T) * 100)"
    "binary64 (binary64 (x / T) * 100) \<le> (1 + 1 / 10 ^ 15) * (x / S * 100)" if x: "0 \<le> x" for x
  proof -
    have "0 \<le> x / S" using x S by simp
    then have y: "0 \<le> x / S * 100" by (intro mult_nonneg_nonneg) simp_all
    have "(1 - 1 / 10 ^ 15) * (x / S * 100) \<le> a * a / (b * (b * b)) * (x / S * 100)"
      using c1 y by (rule mult_right_mono)
    also note P(1) [OF x]
    finally show "(1 - 1 / 10 ^ 15) * (x / S * 100) \<le> binary64 (binary64 (x / T) * 100)" .
    note P(2) [OF x]
    also have "b * b / (a * (a * a)) * (x / S * 100) \<le> (1 + 1 / 10 ^ 15) * (x / S * 100)"
      using c2 y by (rule mult_right_mono)
    finally show "binary64 (binary64 (x / T) * 100) \<le> (1 + 1 / 10 ^ 15) * (x / S * 100)" .
  qed
  have one: "\<bar>binary64 (binary64 (x / T) * 100) - x / S * 100\<bar> \<le> 1 / 10 ^ 13" if x: "0 \<le> x" "x \<le> S" for x
  proof -
    have "x / S \<le> 1" using x S by simp
    then have "x / S * 100 \<le> 1 * 100" by (intro mult_right_mono) simp_all
    then have "x / S * 100 \<le> 100" by (simp only: mult_1_left)
    with near [OF x(1)] show ?thesis by (rule near_abs)
  qed
  show "\<bar>binary64 (binary64 (M / T) * 100) - M / S * 100\<bar> \<le> 1 / 10 ^ 13"
    using M0 D0 Tb0 by (intro one) (simp_all add: S_def)
  show "\<bar>binary64 (binary64 (D / T) * 100) - D / S * 100\<bar> \<le> 1 / 10 ^ 13"
    using M0 D0 Tb0 by (intro one) (simp_all add: S_def)
  show "\<bar>binary64 (binary64 (Tb / T) * 100) - Tb / S * 100\<bar> \<le> 1 / 10 ^ 13"
    using M0 D0 Tb0 by (intro one) (simp_all add: S_def)
  define pm pd pt where "pm = binary64 (binary64 (M / T) * 100)"
    and "pd = binary64 (binary64 (D / T) * 100)" and "pt = binary64 (binary64 (Tb / T) * 100)"
  define ym yd yt where "ym = M / S * 100" and "yd = D / S * 100" and "yt = Tb / S * 100"
  have "ym + yd + yt = (M + D + Tb) / S * 100"
    by (simp only: ym_def yd_def yt_def add_divide_distrib distrib_right)
  also have "\<dots> = 100" using S by (simp add: S_def)
  finally have sum: "ym + yd + yt = 100" .
  have lower: "(1 - 1 / 10 ^ 15) * ym \<le> pm" "(1 - 1 / 10 ^ 15) * yd \<le> pd" "(1 - 1 / 10 ^ 15) * yt \<le> pt"
    unfolding pm_def pd_def pt_def ym_def yd_def yt_def
    by (rule near(1) [OF M0], rule near(1) [OF D0], rule near(1) [OF Tb0])
  have upper: "pm \<le> (1 + 1 / 10 ^ 15) * ym" "pd \<le> (1 + 1 / 10 ^ 15) * yd" "pt \<le> (1 + 1 / 10 ^ 15) * yt"
    unfolding pm_def pd_def pt_def ym_def yd_def yt_def
    by (rule near(2) [OF M0], rule near(2) [OF D0], rule near(2) [OF Tb0])
  have "(1 - 1 / 10 ^ 15) * (ym + yd + yt) = (1 - 1 / 10 ^ 15) * ym + (1 - 1 / 10 ^ 15) * yd + (1 - 1 / 10 ^ 15) * yt"
    by (simp only: distrib_left)
  also have "\<dots> \<le> pm + pd + pt"
    by (intro add_mono lower)
  finally have l: "(1 - 1 / 10 ^ 15) * (ym + yd + yt) \<le> pm + pd + pt" .
  have "pm + pd + pt \<le> (1 + 1 / 10 ^ 15) * ym + (1 + 1 / 10 ^ 15) * yd + (1 + 1 / 10 ^ 15) * yt"
    by (intro add_mono upper)
  also have "\<dots> = (1 + 1 / 10 ^ 15) * (ym + yd + yt)"
    by (simp only: distrib_left)
  finally have u: "pm + pd + pt \<le> (1 + 1 / 10 ^ 15) * (ym + yd + yt)" .
  have "\<bar>pm + pd + pt - (ym + yd + yt)\<bar> \<le> 1 / 10 ^ 13"
    using l u by (rule near_abs) (simp add: sum)
  then show "\<bar>binary64 (binary64 (M / T) * 100) + binary64 (binary64 (D / T) * 100)
          + binary64 (binary64 (Tb / T) * 100) - 100\<bar> \<le> 1 / 10 ^ 13"
    by (simp only: sum pm_def pd_def pt_def)
qed

subsection \<open>Evaluation of numerals and of short lists\<close>

lemma floor_rat_numeral [simp]: "\<lfloor>numeral a / numeral b :: rat\<rfloor> = numeral a div numeral b"
  by (metis floor_divide_of_int_eq of_int_numeral)

lemma floor_rat_half [simp]: "\<lfloor>1 / 2 :: rat\<rfloor> = 0"
  by (simp add: floor_eq_iff)

lemma Math_round_numeral [simp]: "Math_round (numeral a) = numeral a"
  by (simp add: Math_round_def)

lemma Math_round_0 [simp]: "Math_round 0 = 0"
  by (simp add: Math_round_def)

lemma Array_sort_Nil [simp]: "Array_sort cmp [] = []"
  by (simp add: Array_sort_def)

lemma Array_sort_single [simp]: "Array_sort cmp [x] = [x]"
  by (simp add: Array_sort_def)

lemma demographic_rates_examples:
  "demographic_rates 500 50 5 = (Fin 10, Fin 10)"
  "demographic_rates 1000 100 10 = (Fin 10, Fin 10)"
  "demographic_rates 0 10 2 = (PosInfinity, Fin 20)"
  by code_simp+

lemmas demographic_defs =
  processCampaignPerformance_def performance_maps_def forEach_entries_def
  campaign_performance_entry_def set_performance_def performance_of_def merge_performance_def
  demographic_rates_examples Let_def

subsection \<open>Folding entries into a keyed map\<close>

lemma set_first_appearance [simp]: "set (first_appearance xs) = set xs"
  by (induction xs) auto

lemma keys_upsert:
  "map fst (upsert key init comb m e) =
     (if key e \<in> fst ` set m then map fst m else map fst m @ [key e])"
  by (auto simp: upsert_def update_keys map_of_eq_None_iff split: option.splits)

lemma map_of_upsert:
  "map_of (upsert key init comb m e) =
     (map_of m)(key e \<mapsto> (case map_of m (key e) of None \<Rightarrow> init e | Some x \<Rightarrow> comb x e))"
  by (auto simp: upsert_def update_conv' split: option.splits)

lemma keys_foldl_upsert:
  "map fst (foldl (upsert key init comb) m es) =
     map fst m @ filter (\<lambda>k. k \<notin> fst ` set m) (first_appearance (map key es))"
proof (induction es arbitrary: m)
  case Nil
  then show ?case by simp
next
  case (Cons e es)
  show ?case
  proof (cases "key e \<in> fst ` set m")
    case True
    have "filter (\<lambda>k. k \<notin> fst ` set m) (filter (\<lambda>y. y \<noteq> key e) (first_appearance (map key es)))
          = filter (\<lambda>k. k \<notin> fst ` set m) (first_appearance (map key es))"
      using True by (auto intro: filter_cong)
    with True show ?thesis
      by (simp add: Cons.IH keys_upsert) (metis (no_types) True keys_upsert list.set_map)
  next
    case False
    have "set (map fst (upsert key init comb m e)) = insert (key e) (fst ` set m)"
      using False by (simp add: keys_upsert)
    then have "fst ` set (upsert key init comb m e) = insert (key e) (fst ` set m)"
      by simp
    with False show ?thesis
      by (simp add: Cons.IH keys_upsert conj_commute)
  qed
qed

lemma keys_foldl_upsert_Nil:
  "map fst (foldl (upsert key init comb) [] es) = first_appearance (map key es)"
  by (simp add: keys_foldl_upsert)

lemma distinct_upsert: "distinct (map fst m) \<Longrightarrow> distinct (map fst (upsert key init comb m e))"
  by (auto simp: keys_upsert)

lemma distinct_foldl_upsert:
  "distinct (map fst m) \<Longrightarrow> distinct (map fst (foldl (upsert key init comb) m es))"
  by (induction es arbitrary: m) (simp_all add: distinct_upsert)

lemma map_of_foldl_upsert:
  "map_of (foldl (upsert key init comb) m es) k =
     merged init comb (map_of m k) (filter (\<lambda>e. key e = k) es)"
proof (induction es arbitrary: m)
  case Nil
  then show ?case by (simp add: merged_def)
next
  case (Cons e es)
  show ?case
    by (simp add: Cons.IH map_of_upsert merged_def)
qed

lemma merged_Some_sum:
  assumes comb: "\<And>x e. f (comb x e) = f x + g e"
  shows "merged init comb (Some x) es = Some v \<Longrightarrow> f v = f x + sum_list (map g es)"
proof (induction es arbitrary: x)
  case Nil
  then show ?case by (simp add: merged_def)
next
  case (Cons e es)
  from Cons.prems have "merged init comb (Some (comb x e)) es = Some v"
    by (simp add: merged_def)
  from Cons.IH [OF this] show ?case
    by (simp add: comb add.assoc)
qed

lemma merged_None_sum:
  fixes g :: "'e \<Rightarrow> 'a::comm_monoid_add"
  assumes init: "\<And>e. f (init e) = g e" and comb: "\<And>x e. f (comb x e) = f x + g e"
    and v: "merged init comb None es = Some v"
  shows "f v = sum_list (map g es)"
proof (cases es)
  case Nil
  with v show ?thesis by (simp add: merged_def)
next
  case (Cons e es')
  with v have "merged init comb (Some (init e)) es' = Some v"
    by (simp add: merged_def)
  from merged_Some_sum [where f = f and g = g, OF comb this] Cons show ?thesis
    by (simp add: init)
qed

lemma merged_Some_inv:
  assumes comb: "\<And>x e. P x \<Longrightarrow> P (comb x e)"
  shows "P x \<Longrightarrow> merged init comb (Some x) es = Some v \<Longrightarrow> P v"
proof (induction es arbitrary: x)
  case Nil
  then show ?case by (simp add: merged_def)
next
  case (Cons e es)
  from Cons.prems(2) have "merged init comb (Some (comb x e)) es = Some v"
    by (simp add: merged_def)
  from Cons.IH [OF comb [OF Cons.prems(1)] this] show ?case .
qed

lemma merged_None_key:
  assumes init: "\<And>e. bk (init e) = key e" and comb: "\<And>x e. bk (comb x e) = bk x"
    and keys: "\<forall>e\<in>set es. key e = k"
    and v: "merged init comb None es = Some v"
  shows "bk v = k"
proof (cases es)
  case Nil
  with v show ?thesis by (simp add: merged_def)
next
  case (Cons e es')
  with v have "merged init comb (Some (init e)) es' = Some v"
    by (simp add: merged_def)
  moreover have "bk (init e) = k"
    using keys Cons by (simp add: init)
  ultimately show ?thesis
    using merged_Some_inv [where P = "\<lambda>x. bk x = k" and comb = comb] by (metis comb)
qed

lemma in_foldl_upsert:
  assumes "(k, v) \<in> set (foldl (upsert key init comb) [] es)"
  shows "merged init comb None (filter (\<lambda>e. key e = k) es) = Some v"
proof -
  have "distinct (map fst (foldl (upsert key init comb) [] es))"
    by (simp add: distinct_foldl_upsert)
  with assms have "map_of (foldl (upsert key init comb) [] es) k = Some v"
    by simp
  then show ?thesis
    by (simp add: map_of_foldl_upsert)
qed

lemma foldl_upsert_sum:
  fixes g :: "'e \<Rightarrow> 'a::comm_monoid_add"
  assumes "\<And>e. f (init e) = g e" and "\<And>x e. f (comb x e) = f x + g e"
    and "(k, v) \<in> set (foldl (upsert key init comb) [] es)"
  shows "f v = sum_list (map g (filter (\<lambda>e. key e = k) es))"
  using merged_None_sum [where f = f and g = g, OF assms(1,2) in_foldl_upsert [OF assms(3)]] .

lemma foldl_upsert_key:
  assumes "\<And>e. bk (init e) = key e" and "\<And>x e. bk (comb x e) = bk x"
    and "(k, v) \<in> set (foldl (upsert key init comb) [] es)"
  shows "bk v = k"
  using merged_None_key [where bk = bk and key = key, OF assms(1,2) _ in_foldl_upsert [OF assms(3)]]
  by simp

lemma map_bucket_key:
  assumes "\<And>k v. (k, v) \<in> set m \<Longrightarrow> bk v = k"
  shows "map bk (map snd m) = map fst m"
  using assms by (induction m) auto

subsection \<open>The loops over a document\<close>

lemma foldl_Pair:
  "foldl (\<lambda>s ce. f (fst ce) s (snd ce)) s (map (Pair c) es) = foldl (f c) s es"
  by (induction es arbitrary: s) simp_all

lemma foldl_snd: "foldl (\<lambda>s ce. f s (snd ce)) s es = foldl f s (map snd es)"
  by (induction es arbitrary: s) simp_all

lemma map_snd_entries: "map snd (entries sel campaigns) = all_entries sel campaigns"
  by (induction campaigns) (simp_all add: entries_def all_entries_def comp_def)

lemma present_iff: "present sel campaigns \<longleftrightarrow> (\<forall>c\<in>set campaigns. sel c \<noteq> None)"
  by (simp add: present_def list_all_iff)

lemma forEach_campaigns_present:
  "\<forall>c\<in>set campaigns. sel c \<noteq> None \<Longrightarrow>
   forEach_campaigns (\<lambda>s c. forEach_entries (sel c) (f c) s) campaigns s =
     Inr (foldl (\<lambda>s ce. f (fst ce) s (snd ce)) s (entries sel campaigns))"
proof (induction campaigns arbitrary: s)
  case Nil
  then show ?case by (simp add: entries_def)
next
  case (Cons c cs)
  from Cons.prems obtain es where es: "sel c = Some es" by auto
  from Cons.prems have "\<forall>c\<in>set cs. sel c \<noteq> None" by simp
  from Cons.IH [OF this] es show ?case
    by (simp add: forEach_entries_def entries_def foldl_Pair)
qed

lemma forEach_campaigns_empty:
  "sel c = Some [] \<Longrightarrow>
   forEach_campaigns (\<lambda>s c. forEach_entries (sel c) (f c) s) (before @ c # after) s =
   forEach_campaigns (\<lambda>s c. forEach_entries (sel c) (f c) s) (before @ after) s"
proof (induction before arbitrary: s)
  case Nil
  then show ?case by (simp add: forEach_entries_def)
next
  case (Cons b bs)
  then show ?case by (simp split: sum.splits)
qed

lemma forEach_campaigns_map:
  "forEach_campaigns step (map h campaigns) s = forEach_campaigns (\<lambda>s c. step s (h c)) campaigns s"
  by (induction campaigns arbitrary: s) (simp_all split: sum.splits)

lemma foldl_sum_where:
  fixes f :: "'s \<Rightarrow> rat"
  assumes "\<And>s e. f (step s e) = f s + (if P e then g e else 0)"
  shows "f (foldl step s es) = f s + sum_list (map g (filter P es))"
  by (induction es arbitrary: s) (simp_all add: assms)

lemma foldl_filter_skip:
  "(\<And>s e. \<not> P e \<Longrightarrow> f s e = s) \<Longrightarrow> foldl f s (filter P es) = foldl f s es"
  by (induction es arbitrary: s) simp_all

lemma forEach_entries_filter:
  "(\<And>s e. \<not> P e \<Longrightarrow> f s e = s) \<Longrightarrow>
   forEach_entries (map_option (filter P) xs) f s = forEach_entries xs f s"
  by (cases xs) (simp_all add: forEach_entries_def foldl_filter_skip)

subsection \<open>Sorting\<close>

lemma set_insert_sorted [simp]: "set (insert_sorted cmp x xs) = insert x (set xs)"
  by (induction xs) auto

lemma set_Array_sort [simp]: "set (Array_sort cmp xs) = set xs"
  by (induction xs) (simp_all add: Array_sort_def)

lemma mset_insert_sorted [simp]: "mset (insert_sorted cmp x xs) = add_mset x (mset xs)"
  by (induction xs) auto

lemma mset_Array_sort [simp]: "mset (Array_sort cmp xs) = mset xs"
  by (induction xs) (simp_all add: Array_sort_def)

lemma insert_sorted_cong:
  "(\<And>y. y \<in> set ys \<Longrightarrow> cmp x y = cmp' x y) \<Longrightarrow> insert_sorted cmp x ys = insert_sorted cmp' x ys"
  by (induction ys) simp_all

lemma Array_sort_cong:
  "(\<And>x y. x \<in> set xs \<Longrightarrow> y \<in> set xs \<Longrightarrow> cmp x y = cmp' x y)
   \<Longrightarrow> Array_sort cmp xs = Array_sort cmp' xs"
proof (induction xs)
  case Nil
  then show ?case by (simp add: Array_sort_def)
next
  case (Cons x xs)
  from Cons have tl: "Array_sort cmp xs = Array_sort cmp' xs" by simp
  have "insert_sorted cmp x (Array_sort cmp' xs) = insert_sorted cmp' x (Array_sort cmp' xs)"
    by (rule insert_sorted_cong) (simp add: Cons.prems)
  with tl show ?case
    by (simp add: Array_sort_def)
qed

lemma sorted_insert_sorted:
  assumes "consistent_comparator cmp"
  shows "sorted_wrt (\<lambda>a b. cmp a b \<le> 0) xs \<Longrightarrow> sorted_wrt (\<lambda>a b. cmp a b \<le> 0) (insert_sorted cmp x xs)"
proof (induction xs)
  case Nil
  then show ?case by simp
next
  case (Cons y ys)
  from assms have total: "cmp x y \<le> 0 \<or> cmp y x \<le> 0"
    and trans: "\<And>z. cmp x y \<le> 0 \<Longrightarrow> cmp y z \<le> 0 \<Longrightarrow> cmp x z \<le> 0"
    unfolding consistent_comparator_def by blast+
  show ?case
  proof (cases "cmp x y \<le> 0")
    case True
    with Cons.prems show ?thesis by (auto intro: trans)
  next
    case False
    with total have "cmp y x \<le> 0" by simp
    with False Cons show ?thesis by auto
  qed
qed

lemma sorted_Array_sort:
  assumes "consistent_comparator cmp"
  shows "sorted_wrt (\<lambda>a b. cmp a b \<le> 0) (Array_sort cmp xs)"
proof (induction xs)
  case Nil
  then show ?case by (simp add: Array_sort_def)
next
  case (Cons x xs)
  from sorted_insert_sorted [OF assms Cons.IH] show ?case
    by (simp add: Array_sort_def)
qed

lemma consistent_comparator_on:
  "consistent_comparator cmp \<Longrightarrow> consistent_comparator (\<lambda>a b. cmp (f a) (f b))"
  unfolding consistent_comparator_def by blast

lemma consistent_difference: "consistent_comparator (\<lambda>a b. f a - (f b :: int))"
  unfolding consistent_comparator_def by auto

subsection \<open>Weekly buckets\<close>

lemma weekly_entry_upsert: "weekly_entry = upsert week_start (\<lambda>w. w) merge_week"
  by (auto simp: fun_eq_iff weekly_entry_def upsert_def Let_def split: option.splits)

lemma weeklyMap_of_present:
  assumes "\<forall>c\<in>set campaigns. weekly_performance c \<noteq> None"
  shows "weeklyMap_of campaigns =
    Inr (foldl (upsert week_start (\<lambda>w. w) merge_week) [] (all_entries weekly_performance campaigns))"
  using forEach_campaigns_present [where sel = weekly_performance and f = "\<lambda>c. weekly_entry", OF assms]
  by (simp add: weeklyMap_of_def foldl_snd map_snd_entries weekly_entry_upsert)

lemma weekly_bucket:
  assumes "(k, b) \<in> set (foldl (upsert week_start (\<lambda>w. w) merge_week) [] ws)"
  shows "week_start b = k"
    and "WeeklyPerformance.impressions b =
           sum_list (map WeeklyPerformance.impressions (filter (\<lambda>w. week_start w = k) ws))"
    and "WeeklyPerformance.clicks b =
           sum_list (map WeeklyPerformance.clicks (filter (\<lambda>w. week_start w = k) ws))"
    and "WeeklyPerformance.conversions b =
           sum_list (map WeeklyPerformance.conversions (filter (\<lambda>w. week_start w = k) ws))"
    and "WeeklyPerformance.spend b =
           sum_list (map WeeklyPerformance.spend (filter (\<lambda>w. week_start w = k) ws))"
    and "WeeklyPerformance.revenue b =
           sum_list (map WeeklyPerformance.revenue (filter (\<lambda>w. week_start w = k) ws))"
proof -
  show "week_start b = k"
    by (rule foldl_upsert_key [OF _ _ assms]) (simp_all add: merge_week_def)
  show "WeeklyPerformance.impressions b =
           sum_list (map WeeklyPerformance.impressions (filter (\<lambda>w. week_start w = k) ws))"
    by (rule foldl_upsert_sum [OF _ _ assms]) (simp_all add: merge_week_def)
  show "WeeklyPerformance.clicks b =
           sum_list (map WeeklyPerformance.clicks (filter (\<lambda>w. week_start w = k) ws))"
    by (rule foldl_upsert_sum [OF _ _ assms]) (simp_all add: merge_week_def)
  show "WeeklyPerformance.conversions b =
           sum_list (map WeeklyPerformance.conversions (filter (\<lambda>w. week_start w = k) ws))"
    by (rule foldl_upsert_sum [OF _ _ assms]) (simp_all add: merge_week_def)
  show "WeeklyPerformance.spend b =
           sum_list (map WeeklyPerformance.spend (filter (\<lambda>w. week_start w = k) ws))"
    by (rule foldl_upsert_sum [OF _ _ assms]) (simp_all add: merge_week_def)
  show "WeeklyPerformance.revenue b =
           sum_list (map WeeklyPerformance.revenue (filter (\<lambda>w. week_start w = k) ws))"
    by (rule foldl_upsert_sum [OF _ _ assms]) (simp_all add: merge_week_def)
qed

lemma weekly_data_sums:
  assumes "\<forall>c\<in>set campaigns. weekly_performance c \<noteq> None"
  shows "\<exists>out. getAggregatedWeeklyData getTime (Some campaigns) = Inr out
           \<and> (\<forall>b\<in>set out. weekly_sums (all_entries weekly_performance campaigns) b)"
proof -
  let ?m = "foldl (upsert week_start (\<lambda>w. w) merge_week) [] (all_entries weekly_performance campaigns)"
  have "weekly_sums (all_entries weekly_performance campaigns) b" if "b \<in> set (map snd ?m)" for b
  proof -
    from that obtain k where "(k, b) \<in> set ?m" by auto
    from weekly_bucket [OF this] show ?thesis by (simp add: weekly_sums_def)
  qed
  then show ?thesis
    by (simp add: getAggregatedWeeklyData_def weeklyMap_of_present [OF assms])
qed

lemma weekly_keys:
  "map week_start (map snd (foldl (upsert week_start (\<lambda>w. w) merge_week) [] ws)) =
     first_appearance (map week_start ws)"
proof -
  have "map week_start (map snd (foldl (upsert week_start (\<lambda>w. w) merge_week) [] ws)) =
        map fst (foldl (upsert week_start (\<lambda>w. w) merge_week) [] ws)"
    by (rule map_bucket_key) (rule weekly_bucket(1))
  then show ?thesis
    by (simp add: keys_foldl_upsert_Nil)
qed

lemma weekly_data_sorted:
  assumes present: "\<forall>c\<in>set campaigns. weekly_performance c \<noteq> None"
    and dates: "dates_parse getTime campaigns"
  shows "\<exists>out. getAggregatedWeeklyData getTime (Some campaigns) = Inr out
           \<and> sorted_wrt (week_not_after getTime) out
           \<and> mset (map week_start out) =
               mset (first_appearance (map week_start (all_entries weekly_performance campaigns)))"
proof -
  let ?f = "\<lambda>w. the (getTime (week_start w))"
  let ?vs = "map snd (foldl (upsert week_start (\<lambda>w. w) merge_week) []
               (all_entries weekly_performance campaigns))"
  have out: "getAggregatedWeeklyData getTime (Some campaigns) = Inr (Array_sort (weekly_comparator getTime) ?vs)"
    by (simp add: getAggregatedWeeklyData_def weeklyMap_of_present [OF present])
  have keys: "map week_start ?vs = first_appearance (map week_start (all_entries weekly_performance campaigns))"
    by (rule weekly_keys)
  have parse: "\<exists>x. getTime (week_start b) = Some x" if "b \<in> set ?vs" for b
  proof -
    from that have "week_start b \<in> set (map week_start ?vs)"
      by (simp only: set_map) (rule imageI)
    with keys have "week_start b \<in> week_start ` set (all_entries weekly_performance campaigns)"
      by simp
    with dates show ?thesis
      by (auto simp: dates_parse_def list_all_iff)
  qed
  have "Array_sort (weekly_comparator getTime) ?vs = Array_sort (\<lambda>a b. ?f a - ?f b) ?vs"
  proof (rule Array_sort_cong)
    fix a b assume "a \<in> set ?vs" "b \<in> set ?vs"
    from parse [OF this(1)] parse [OF this(2)]
    show "weekly_comparator getTime a b = ?f a - ?f b"
      by (auto simp: weekly_comparator_def)
  qed
  moreover have "sorted_wrt (\<lambda>a b. ?f a - ?f b \<le> 0) (Array_sort (\<lambda>a b. ?f a - ?f b) ?vs)"
    by (rule sorted_Array_sort) (rule consistent_difference)
  ultimately have "sorted_wrt (\<lambda>a b. ?f a - ?f b \<le> 0) (Array_sort (weekly_comparator getTime) ?vs)"
    by simp
  then have sorted: "sorted_wrt (week_not_after getTime) (Array_sort (weekly_comparator getTime) ?vs)"
  proof (rule sorted_wrt_mono_rel [rotated])
    fix a b
    assume "a \<in> set (Array_sort (weekly_comparator getTime) ?vs)"
      and "b \<in> set (Array_sort (weekly_comparator getTime) ?vs)"
      and le: "?f a - ?f b \<le> 0"
    then have "a \<in> set ?vs" "b \<in> set ?vs" by simp_all
    from parse [OF this(1)] parse [OF this(2)] le
    show "week_not_after getTime a b"
      by (auto simp: week_not_after_def)
  qed
  have "mset (map week_start (Array_sort (weekly_comparator getTime) ?vs)) = mset (map week_start ?vs)"
    by (simp only: mset_map mset_Array_sort)
  with keys have "mset (map week_start (Array_sort (weekly_comparator getTime) ?vs)) =
      mset (first_appearance (map week_start (all_entries weekly_performance campaigns)))"
    by simp
  with out sorted show ?thesis
    by blast
qed

lemma weekly_empty:
  "getAggregatedWeeklyData getTime (Some (before @ c\<lparr>weekly_performance := Some []\<rparr> # after)) =
   getAggregatedWeeklyData getTime (Some (before @ after))"
  by (simp add: getAggregatedWeeklyData_def weeklyMap_of_def forEach_campaigns_empty)

subsection \<open>Regional buckets\<close>

lemma regional_entry_upsert: "regional_entry = upsert regional_key (\<lambda>r. r) merge_region"
  by (auto simp: fun_eq_iff regional_entry_def upsert_def Let_def split: option.splits)

lemma regionalMap_of_present:
  assumes "\<forall>c\<in>set campaigns. regional_performance c \<noteq> None"
  shows "regionalMap_of campaigns =
    Inr (foldl (upsert regional_key (\<lambda>r. r) merge_region) [] (all_entries regional_performance campaigns))"
  using forEach_campaigns_present [where sel = regional_performance and f = "\<lambda>c. regional_entry", OF assms]
  by (simp add: regionalMap_of_def foldl_snd map_snd_entries regional_entry_upsert)

lemma regional_key_merge [simp]: "regional_key (merge_region x r) = regional_key x"
  by (simp add: regional_key_def merge_region_def)

lemma regional_bucket:
  assumes "(k, b) \<in> set (foldl (upsert regional_key (\<lambda>r. r) merge_region) [] rs)"
  shows "regional_sums rs b"
proof -
  have k: "regional_key b = k"
    by (rule foldl_upsert_key [OF _ _ assms]) simp_all
  have "RegionalPerformance.impressions b =
       sum_list (map RegionalPerformance.impressions (filter (\<lambda>r. regional_key r = k) rs))"
    by (rule foldl_upsert_sum [OF _ _ assms]) (simp_all add: merge_region_def)
  moreover have "RegionalPerformance.clicks b =
       sum_list (map RegionalPerformance.clicks (filter (\<lambda>r. regional_key r = k) rs))"
    by (rule foldl_upsert_sum [OF _ _ assms]) (simp_all add: merge_region_def)
  moreover have "RegionalPerformance.conversions b =
       sum_list (map RegionalPerformance.conversions (filter (\<lambda>r. regional_key r = k) rs))"
    by (rule foldl_upsert_sum [OF _ _ assms]) (simp_all add: merge_region_def)
  moreover have "RegionalPerformance.spend b =
       sum_list (map RegionalPerformance.spend (filter (\<lambda>r. regional_key r = k) rs))"
    by (rule foldl_upsert_sum [OF _ _ assms]) (simp_all add: merge_region_def)
  moreover have "RegionalPerformance.revenue b =
       sum_list (map RegionalPerformance.revenue (filter (\<lambda>r. regional_key r = k) rs))"
    by (rule foldl_upsert_sum [OF _ _ assms]) (simp_all add: merge_region_def)
  ultimately show ?thesis
    by (simp add: regional_sums_def k)
qed

lemma regional_data_sums:
  assumes "\<forall>c\<in>set campaigns. regional_performance c \<noteq> None"
  shows "\<exists>out. getAggregatedRegionalData (Some campaigns) = Inr out
           \<and> (\<forall>b\<in>set out. regional_sums (all_entries regional_performance campaigns) b)"
proof -
  let ?m = "foldl (upsert regional_key (\<lambda>r. r) merge_region) [] (all_entries regional_performance campaigns)"
  have "regional_sums (all_entries regional_performance campaigns) b" if "b \<in> set (map snd ?m)" for b
  proof -
    from that obtain k where "(k, b) \<in> set ?m" by auto
    from regional_bucket [OF this] show ?thesis .
  qed
  then show ?thesis
    by (simp add: getAggregatedRegionalData_def regionalMap_of_present [OF assms])
qed

lemma regional_data_order:
  assumes "\<forall>c\<in>set campaigns. regional_performance c \<noteq> None"
  shows "\<exists>out. getAggregatedRegionalData (Some campaigns) = Inr out
           \<and> map regional_key out =
               first_appearance (map regional_key (all_entries regional_performance campaigns))"
proof -
  let ?m = "foldl (upsert regional_key (\<lambda>r. r) merge_region) [] (all_entries regional_performance campaigns)"
  have "map regional_key (map snd ?m) = map fst ?m"
    by (rule map_bucket_key) (rule foldl_upsert_key [where bk = regional_key], simp_all)
  then show ?thesis
    by (simp add: getAggregatedRegionalData_def regionalMap_of_present [OF assms] keys_foldl_upsert_Nil)
qed

lemma regional_empty:
  "getAggregatedRegionalData (Some (before @ c\<lparr>regional_performance := Some []\<rparr> # after)) =
   getAggregatedRegionalData (Some (before @ after))"
  by (simp add: getAggregatedRegionalData_def regionalMap_of_def forEach_campaigns_empty)

subsection \<open>Demographic buckets\<close>

lemma set_performance_upsert:
  "set_performance = upsert CampaignPerformance.ageGroup (\<lambda>p. p) merge_performance"
  by (auto simp: fun_eq_iff set_performance_def upsert_def split: option.splits)

lemma foldl_campaign_performance_entry:
  "foldl (\<lambda>maps ce. campaign_performance_entry (fst ce) maps (snd ce)) (male, female) es =
     (foldl set_performance male
        (map (\<lambda>ce. performance_of (fst ce) (snd ce)) (filter (is_gender ''Male'') es)),
      foldl set_performance female
        (map (\<lambda>ce. performance_of (fst ce) (snd ce)) (filter (is_gender ''Female'') es)))"
  by (induction es arbitrary: male female)
    (simp_all add: campaign_performance_entry_def is_gender_def)

lemma performance_maps_present:
  assumes "\<forall>c\<in>set campaigns. demographic_breakdown c \<noteq> None"
  shows "performance_maps campaigns =
    Inr (foldl set_performance []
           (map (\<lambda>ce. performance_of (fst ce) (snd ce))
              (filter (is_gender ''Male'') (entries demographic_breakdown campaigns))),
         foldl set_performance []
           (map (\<lambda>ce. performance_of (fst ce) (snd ce))
              (filter (is_gender ''Female'') (entries demographic_breakdown campaigns))))"
  using forEach_campaigns_present
    [where sel = demographic_breakdown and f = campaign_performance_entry, OF assms]
  by (simp add: performance_maps_def foldl_campaign_performance_entry)

lemma filter_map_filter:
  "filter P (map f (filter Q xs)) = map f (filter (\<lambda>x. Q x \<and> P (f x)) xs)"
  by (induction xs) auto

lemma performance_bucket:
  assumes "(k, b) \<in> set (foldl set_performance []
             (map (\<lambda>ce. performance_of (fst ce) (snd ce)) (filter (is_gender g) es)))"
  shows "performance_sums g es b"
proof -
  let ?ps = "map (\<lambda>ce. performance_of (fst ce) (snd ce)) (filter (is_gender g) es)"
  from assms have in_m: "(k, b) \<in> set (foldl (upsert CampaignPerformance.ageGroup (\<lambda>p. p) merge_performance) [] ?ps)"
    by (simp add: set_performance_upsert)
  have k: "CampaignPerformance.ageGroup b = k"
    by (rule foldl_upsert_key [OF _ _ in_m]) (simp_all add: merge_performance_def Let_def)
  have sel: "filter (\<lambda>p. CampaignPerformance.ageGroup p = k) ?ps =
      map (\<lambda>ce. performance_of (fst ce) (snd ce))
        (filter (\<lambda>ce. DemographicBreakdown.gender (snd ce) = g \<and> age_group (snd ce) = k) es)"
    by (simp add: filter_map_filter is_gender_def performance_of_def Let_def)
  have "merged (\<lambda>p. p) merge_performance None (filter (\<lambda>p. CampaignPerformance.ageGroup p = k) ?ps) = Some b"
    by (rule in_foldl_upsert [OF in_m])
  then have g: "CampaignPerformance.gender b = g"
    by (rule merged_None_key [where bk = CampaignPerformance.gender and key = CampaignPerformance.gender, rotated 3])
      (auto simp: merge_performance_def performance_of_def is_gender_def Let_def)
  have "CampaignPerformance.impressions b =
      sum_list (map CampaignPerformance.impressions (filter (\<lambda>p. CampaignPerformance.ageGroup p = k) ?ps))"
    by (rule foldl_upsert_sum [OF _ _ in_m]) (simp_all add: merge_performance_def Let_def)
  moreover have "CampaignPerformance.clicks b =
      sum_list (map CampaignPerformance.clicks (filter (\<lambda>p. CampaignPerformance.ageGroup p = k) ?ps))"
    by (rule foldl_upsert_sum [OF _ _ in_m]) (simp_all add: merge_performance_def Let_def)
  moreover have "CampaignPerformance.conversions b =
      sum_list (map CampaignPerformance.conversions (filter (\<lambda>p. CampaignPerformance.ageGroup p = k) ?ps))"
    by (rule foldl_upsert_sum [OF _ _ in_m]) (simp_all add: merge_performance_def Let_def)
  ultimately show ?thesis
    unfolding sel
    by (simp add: performance_sums_def k g comp_def performance_of_def rounded_share_def Let_def)
qed

lemma campaign_performance_sums:
  assumes "\<forall>c\<in>set campaigns. demographic_breakdown c \<noteq> None"
  shows "\<exists>male female. processCampaignPerformance localeCompare (Some campaigns) = Inr (male, female)
           \<and> (\<forall>b\<in>set male. performance_sums ''Male'' (entries demographic_breakdown campaigns) b)
           \<and> (\<forall>b\<in>set female. performance_sums ''Female'' (entries demographic_breakdown campaigns) b)"
proof -
  let ?m = "\<lambda>g. foldl set_performance []
             (map (\<lambda>ce. performance_of (fst ce) (snd ce))
                (filter (is_gender g) (entries demographic_breakdown campaigns)))"
  have "performance_sums g (entries demographic_breakdown campaigns) b"
    if "b \<in> set (map snd (?m g))" for b g
  proof -
    from that obtain k where "(k, b) \<in> set (?m g)" by auto
    from performance_bucket [OF this] show ?thesis .
  qed
  then show ?thesis
    by (simp add: processCampaignPerformance_def performance_maps_present [OF assms])
qed

lemma campaign_performance_sorted:
  assumes "\<forall>c\<in>set campaigns. demographic_breakdown c \<noteq> None"
    and "consistent_comparator localeCompare"
  shows "\<exists>male female. processCampaignPerformance localeCompare (Some campaigns) = Inr (male, female)
           \<and> sorted_wrt (\<lambda>a b. localeCompare (CampaignPerformance.ageGroup a) (CampaignPerformance.ageGroup b) \<le> 0) male
           \<and> sorted_wrt (\<lambda>a b. localeCompare (CampaignPerformance.ageGroup a) (CampaignPerformance.ageGroup b) \<le> 0) female"
proof -
  let ?cmp = "\<lambda>a b. localeCompare (CampaignPerformance.ageGroup a) (CampaignPerformance.ageGroup b)"
  have sorted: "sorted_wrt (\<lambda>a b. ?cmp a b \<le> 0) (Array_sort ?cmp xs)" for xs
    by (rule sorted_Array_sort) (rule consistent_comparator_on [OF assms(2)])
  show ?thesis
    by (simp add: processCampaignPerformance_def performance_maps_present [OF assms(1)] sorted)
qed

lemma campaign_performance_empty:
  "processCampaignPerformance localeCompare (Some (before @ c\<lparr>demographic_breakdown := Some []\<rparr> # after)) =
   processCampaignPerformance localeCompare (Some (before @ after))"
  by (simp add: processCampaignPerformance_def performance_maps_def forEach_campaigns_empty)

lemma demographic_metrics_present:
  assumes "\<forall>c\<in>set campaigns. demographic_breakdown c \<noteq> None"
  shows "processDemographicMetrics (Some campaigns) =
    Inr (foldl (\<lambda>s ce. demographic_metrics_entry (fst ce) s (snd ce)) initial_DemographicMetrics
           (entries demographic_breakdown campaigns))"
  using forEach_campaigns_present [where sel = demographic_breakdown and f = demographic_metrics_entry, OF assms]
  by (simp add: processDemographicMetrics_def)

lemma demographic_metrics_fold:
  "demographic_metrics_sums es
     (foldl (\<lambda>s ce. demographic_metrics_entry (fst ce) s (snd ce)) initial_DemographicMetrics es)"
proof -
  let ?step = "\<lambda>s ce. demographic_metrics_entry (fst ce) s (snd ce)"
  let ?pct = "\<lambda>ce. DemographicBreakdown.percentage_of_audience (snd ce)"
  have "maleClicks (foldl ?step s es) = maleClicks s + gender_clicks ''Male'' es" for s
    unfolding gender_clicks_def
    by (rule foldl_sum_where)
      (simp add: demographic_metrics_entry_def is_gender_def rounded_share_def Let_def)
  moreover have "maleSpend (foldl ?step s es) = maleSpend s + gender_spend ''Male'' es" for s
    unfolding gender_spend_def
    by (rule foldl_sum_where)
      (simp add: demographic_metrics_entry_def is_gender_def apportion_def Let_def)
  moreover have "maleRevenue (foldl ?step s es) = maleRevenue s + gender_revenue ''Male'' es" for s
    unfolding gender_revenue_def
    by (rule foldl_sum_where)
      (simp add: demographic_metrics_entry_def is_gender_def apportion_def Let_def)
  moreover have "femaleClicks (foldl ?step s es) = femaleClicks s + gender_clicks ''Female'' es" for s
    unfolding gender_clicks_def
    by (rule foldl_sum_where)
      (simp add: demographic_metrics_entry_def is_gender_def rounded_share_def Let_def)
  moreover have "femaleSpend (foldl ?step s es) = femaleSpend s + gender_spend ''Female'' es" for s
    unfolding gender_spend_def
    by (rule foldl_sum_where)
      (simp add: demographic_metrics_entry_def is_gender_def apportion_def Let_def)
  moreover have "femaleRevenue (foldl ?step s es) = femaleRevenue s + gender_revenue ''Female'' es" for s
    unfolding gender_revenue_def
    by (rule foldl_sum_where)
      (simp add: demographic_metrics_entry_def is_gender_def apportion_def Let_def)
  ultimately show ?thesis
    by (simp add: demographic_metrics_sums_def initial_DemographicMetrics_def)
qed

lemma demographic_metrics_sums_present:
  assumes "\<forall>c\<in>set campaigns. demographic_breakdown c \<noteq> None"
  shows "\<exists>metrics. processDemographicMetrics (Some campaigns) = Inr metrics
           \<and> demographic_metrics_sums (entries demographic_breakdown campaigns) metrics"
  by (simp add: demographic_metrics_present [OF assms] demographic_metrics_fold)

lemma demographic_metrics_empty:
  "processDemographicMetrics (Some (before @ c\<lparr>demographic_breakdown := Some []\<rparr> # after)) =
   processDemographicMetrics (Some (before @ after))"
  by (simp add: processDemographicMetrics_def forEach_campaigns_empty)

subsection \<open>Entries the gender totals skip\<close>

lemma demographic_metrics_skip:
  "\<not> male_or_female demo \<Longrightarrow> demographic_metrics_entry campaign metrics demo = metrics"
  by (simp add: male_or_female_def demographic_metrics_entry_def Let_def)

lemma campaign_performance_skip:
  "\<not> male_or_female demo \<Longrightarrow> campaign_performance_entry campaign maps demo = maps"
  by (simp add: male_or_female_def campaign_performance_entry_def)

lemma demographic_metrics_keep:
  "demographic_metrics_entry (keep_male_female campaign) = demographic_metrics_entry campaign"
  by (simp add: fun_eq_iff demographic_metrics_entry_def keep_male_female_def)

lemma campaign_performance_keep:
  "campaign_performance_entry (keep_male_female campaign) = campaign_performance_entry campaign"
  by (simp add: fun_eq_iff campaign_performance_entry_def performance_of_def keep_male_female_def)

lemma processDemographicMetrics_keep:
  "processDemographicMetrics (Some (map keep_male_female campaigns)) =
   processDemographicMetrics (Some campaigns)"
proof -
  have "forEach_entries (demographic_breakdown (keep_male_female c))
          (demographic_metrics_entry (keep_male_female c)) s =
        forEach_entries (demographic_breakdown c) (demographic_metrics_entry c) s" for c s
    using forEach_entries_filter [where P = male_or_female and f = "demographic_metrics_entry c"]
    by (simp add: demographic_metrics_keep demographic_metrics_skip) (simp add: keep_male_female_def)
  then show ?thesis
    by (simp add: processDemographicMetrics_def forEach_campaigns_map)
qed

lemma performance_maps_keep:
  "performance_maps (map keep_male_female campaigns) = performance_maps campaigns"
proof -
  have "forEach_entries (demographic_breakdown (keep_male_female c))
          (campaign_performance_entry (keep_male_female c)) s =
        forEach_entries (demographic_breakdown c) (campaign_performance_entry c) s" for c s
    using forEach_entries_filter [where P = male_or_female and f = "campaign_performance_entry c"]
    by (simp add: campaign_performance_keep campaign_performance_skip) (simp add: keep_male_female_def)
  then show ?thesis
    by (simp add: performance_maps_def forEach_campaigns_map)
qed

lemma processCampaignPerformance_keep:
  "processCampaignPerformance localeCompare (Some (map keep_male_female campaigns)) =
   processCampaignPerformance localeCompare (Some campaigns)"
  by (simp add: processCampaignPerformance_def performance_maps_keep)

subsection \<open>Spend and revenue by age group and by device\<close>

lemma age_group_entry_upsert:
  "(\<lambda>m ce. age_group_entry (fst ce) m (snd ce)) =
     upsert (\<lambda>ce. age_group (snd ce))
       (\<lambda>ce. spend_revenue_of (fst ce) (DemographicBreakdown.percentage_of_audience (snd ce)))
       (\<lambda>x ce. add_spend_revenue x
          (spend_revenue_of (fst ce) (DemographicBreakdown.percentage_of_audience (snd ce))))"
  by (auto simp: fun_eq_iff age_group_entry_def upsert_def spend_revenue_of_def add_spend_revenue_def
      apportion_def Let_def split: option.splits)

lemma device_chart_entry_upsert:
  "(\<lambda>m ce. device_chart_entry (fst ce) m (snd ce)) =
     upsert (\<lambda>ce. device_type (snd ce))
       (\<lambda>ce. spend_revenue_of (fst ce) (DeviceBreakdown.percentage_of_audience (snd ce)))
       (\<lambda>x ce. add_spend_revenue x
          (spend_revenue_of (fst ce) (DeviceBreakdown.percentage_of_audience (snd ce))))"
  by (auto simp: fun_eq_iff device_chart_entry_def upsert_def spend_revenue_of_def add_spend_revenue_def
      apportion_def Let_def split: option.splits)

lemma spend_revenue_bucket:
  assumes "(k, v) \<in> set (foldl (upsert key (\<lambda>ce. spend_revenue_of (fst ce) (pct ce))
              (\<lambda>x ce. add_spend_revenue x (spend_revenue_of (fst ce) (pct ce)))) [] es)"
  shows "SpendRevenue.spend v =
           sum_list (map (\<lambda>ce. apportion (Campaign.spend (fst ce)) (pct ce)) (filter (\<lambda>ce. key ce = k) es))"
    and "SpendRevenue.revenue v =
           sum_list (map (\<lambda>ce. apportion (Campaign.revenue (fst ce)) (pct ce)) (filter (\<lambda>ce. key ce = k) es))"
proof -
  show "SpendRevenue.spend v =
           sum_list (map (\<lambda>ce. apportion (Campaign.spend (fst ce)) (pct ce)) (filter (\<lambda>ce. key ce = k) es))"
    by (rule foldl_upsert_sum [OF _ _ assms]) (simp_all add: spend_revenue_of_def add_spend_revenue_def)
  show "SpendRevenue.revenue v =
           sum_list (map (\<lambda>ce. apportion (Campaign.revenue (fst ce)) (pct ce)) (filter (\<lambda>ce. key ce = k) es))"
    by (rule foldl_upsert_sum [OF _ _ assms]) (simp_all add: spend_revenue_of_def add_spend_revenue_def)
qed

lemma ageGroupMap_of_present:
  assumes "\<forall>c\<in>set campaigns. demographic_breakdown c \<noteq> None"
  shows "ageGroupMap_of campaigns =
    Inr (foldl (upsert (\<lambda>ce. age_group (snd ce))
           (\<lambda>ce. spend_revenue_of (fst ce) (DemographicBreakdown.percentage_of_audience (snd ce)))
           (\<lambda>x ce. add_spend_revenue x
              (spend_revenue_of (fst ce) (DemographicBreakdown.percentage_of_audience (snd ce)))))
         [] (entries demographic_breakdown campaigns))"
  using forEach_campaigns_present [where sel = demographic_breakdown and f = age_group_entry, OF assms]
  by (simp add: ageGroupMap_of_def age_group_entry_upsert)

lemma deviceMap_of_present:
  assumes "\<forall>c\<in>set campaigns. device_breakdown c \<noteq> None"
  shows "deviceMap_of campaigns =
    Inr (foldl (upsert (\<lambda>ce. device_type (snd ce))
           (\<lambda>ce. spend_revenue_of (fst ce) (DeviceBreakdown.percentage_of_audience (snd ce)))
           (\<lambda>x ce. add_spend_revenue x
              (spend_revenue_of (fst ce) (DeviceBreakdown.percentage_of_audience (snd ce)))))
         [] (entries device_breakdown campaigns))"
  using forEach_campaigns_present [where sel = device_breakdown and f = device_chart_entry, OF assms]
  by (simp add: deviceMap_of_def device_chart_entry_upsert)

lemma age_group_data_sums:
  assumes "\<forall>c\<in>set campaigns. demographic_breakdown c \<noteq> None"
  shows "\<exists>spendData revenueData.
           processAgeGroupData localeCompare (Some campaigns) = Inr (spendData, revenueData)
           \<and> (\<forall>b\<in>set spendData. AgeGroupData.spend b =
                 age_group_spend (entries demographic_breakdown campaigns) (AgeGroupData.ageGroup b))
           \<and> (\<forall>b\<in>set revenueData. AgeGroupData.revenue b =
                 age_group_revenue (entries demographic_breakdown campaigns) (AgeGroupData.ageGroup b))"
  by (auto simp: processAgeGroupData_def ageGroupMap_of_present [OF assms] age_group_spend_def
      age_group_revenue_def dest: spend_revenue_bucket)

lemma age_group_keys:
  assumes "\<forall>c\<in>set campaigns. demographic_breakdown c \<noteq> None"
  shows "\<exists>spendData revenueData.
           processAgeGroupData localeCompare (Some campaigns) = Inr (spendData, revenueData)
           \<and> set (map AgeGroupData.ageGroup spendData) =
               set (map (\<lambda>ce. age_group (snd ce)) (entries demographic_breakdown campaigns))
           \<and> set (map AgeGroupData.ageGroup revenueData) =
               set (map (\<lambda>ce. age_group (snd ce)) (entries demographic_breakdown campaigns))"
proof -
  let ?m = "foldl (upsert (\<lambda>ce. age_group (snd ce))
           (\<lambda>ce. spend_revenue_of (fst ce) (DemographicBreakdown.percentage_of_audience (snd ce)))
           (\<lambda>x ce. add_spend_revenue x
              (spend_revenue_of (fst ce) (DemographicBreakdown.percentage_of_audience (snd ce)))))
         [] (entries demographic_breakdown campaigns)"
  have "map fst ?m = first_appearance (map (\<lambda>ce. age_group (snd ce)) (entries demographic_breakdown campaigns))"
    by (rule keys_foldl_upsert_Nil)
  then have "fst ` set ?m = set (map (\<lambda>ce. age_group (snd ce)) (entries demographic_breakdown campaigns))"
    by (metis set_first_appearance set_map)
  then show ?thesis
    by (simp add: processAgeGroupData_def ageGroupMap_of_present [OF assms] image_image split_def)
qed

lemma age_group_data_sorted:
  assumes "\<forall>c\<in>set campaigns. demographic_breakdown c \<noteq> None"
    and "consistent_comparator localeCompare"
  shows "\<exists>spendData revenueData.
           processAgeGroupData localeCompare (Some campaigns) = Inr (spendData, revenueData)
           \<and> sorted_wrt (\<lambda>a b. localeCompare (AgeGroupData.ageGroup a) (AgeGroupData.ageGroup b) \<le> 0) spendData
           \<and> sorted_wrt (\<lambda>a b. localeCompare (AgeGroupData.ageGroup a) (AgeGroupData.ageGroup b) \<le> 0) revenueData"
proof -
  let ?cmp = "\<lambda>a b. localeCompare (AgeGroupData.ageGroup a) (AgeGroupData.ageGroup b)"
  have sorted: "sorted_wrt (\<lambda>a b. ?cmp a b \<le> 0) (Array_sort ?cmp xs)" for xs
    by (rule sorted_Array_sort) (rule consistent_comparator_on [OF assms(2)])
  show ?thesis
    by (simp add: processAgeGroupData_def ageGroupMap_of_present [OF assms(1)] sorted)
qed

lemma age_group_empty:
  "processAgeGroupData localeCompare (Some (before @ c\<lparr>demographic_breakdown := Some []\<rparr> # after)) =
   processAgeGroupData localeCompare (Some (before @ after))"
  by (simp add: processAgeGroupData_def ageGroupMap_of_def forEach_campaigns_empty)

lemma device_chart_sums:
  assumes "\<forall>c\<in>set campaigns. device_breakdown c \<noteq> None"
  shows "\<exists>spendData revenueData.
           processDeviceChartData (Some campaigns) = Inr (spendData, revenueData)
           \<and> (\<forall>b\<in>set spendData. datum b = device_spend (entries device_breakdown campaigns) (label b))
           \<and> (\<forall>b\<in>set revenueData. datum b = device_revenue (entries device_breakdown campaigns) (label b))"
  by (auto simp: processDeviceChartData_def deviceMap_of_present [OF assms] device_spend_def
      device_revenue_def dest: spend_revenue_bucket)

lemma device_chart_order:
  assumes "\<forall>c\<in>set campaigns. device_breakdown c \<noteq> None"
  shows "\<exists>spendData revenueData.
           processDeviceChartData (Some campaigns) = Inr (spendData, revenueData)
           \<and> map label spendData =
               first_appearance (map device_type (all_entries device_breakdown campaigns))
           \<and> map label revenueData =
               first_appearance (map device_type (all_entries device_breakdown campaigns))"
proof -
  let ?m = "foldl (upsert (\<lambda>ce. device_type (snd ce))
           (\<lambda>ce. spend_revenue_of (fst ce) (DeviceBreakdown.percentage_of_audience (snd ce)))
           (\<lambda>x ce. add_spend_revenue x
              (spend_revenue_of (fst ce) (DeviceBreakdown.percentage_of_audience (snd ce)))))
         [] (entries device_breakdown campaigns)"
  have "map fst ?m = first_appearance (map (\<lambda>ce. device_type (snd ce)) (entries device_breakdown campaigns))"
    by (rule keys_foldl_upsert_Nil)
  also have "map (\<lambda>ce. device_type (snd ce)) (entries device_breakdown campaigns) =
        map device_type (all_entries device_breakdown campaigns)"
    by (simp add: map_snd_entries [symmetric])
  finally have keys: "map fst ?m = first_appearance (map device_type (all_entries device_breakdown campaigns))" .
  have "map label (map (\<lambda>(deviceType', data'). \<lparr>label = deviceType', datum = SpendRevenue.spend data'\<rparr>) ?m)
        = map fst ?m"
    by (simp add: split_def)
  moreover have "map label (map (\<lambda>(deviceType', data'). \<lparr>label = deviceType', datum = SpendRevenue.revenue data'\<rparr>) ?m)
        = map fst ?m"
    by (simp add: split_def)
  moreover have "processDeviceChartData (Some campaigns) =
      Inr (map (\<lambda>(deviceType', data'). \<lparr>label = deviceType', datum = SpendRevenue.spend data'\<rparr>) ?m,
           map (\<lambda>(deviceType', data'). \<lparr>label = deviceType', datum = SpendRevenue.revenue data'\<rparr>) ?m)"
    by (simp add: processDeviceChartData_def deviceMap_of_present [OF assms])
  ultimately show ?thesis
    using keys by (metis (no_types, lifting))
qed

lemma device_chart_empty:
  "processDeviceChartData (Some (before @ c\<lparr>device_breakdown := Some []\<rparr> # after)) =
   processDeviceChartData (Some (before @ after))"
  by (simp add: processDeviceChartData_def deviceMap_of_def forEach_campaigns_empty)

subsection \<open>Device totals and table rows\<close>

lemma foldl_device_performance_entry:
  "foldl (\<lambda>arrays ce. device_performance_entry (fst ce) arrays (snd ce)) (mobile, desktop, tablet) es =
     (mobile @ map (\<lambda>ce. device_performance_of (fst ce) (snd ce)) (filter (is_device ''Mobile'') es),
      desktop @ map (\<lambda>ce. device_performance_of (fst ce) (snd ce)) (filter (is_device ''Desktop'') es),
      tablet @ map (\<lambda>ce. device_performance_of (fst ce) (snd ce)) (filter (is_device ''Tablet'') es))"
  by (induction es arbitrary: mobile desktop tablet)
    (simp_all add: device_performance_entry_def is_device_def)

lemma device_rows_present:
  assumes "\<forall>c\<in>set campaigns. device_breakdown c \<noteq> None"
  shows "processCampaignPerformanceByDevice (Some campaigns) =
    Inr (map (\<lambda>ce. device_performance_of (fst ce) (snd ce))
           (filter (is_device ''Mobile'') (entries device_breakdown campaigns)),
         map (\<lambda>ce. device_performance_of (fst ce) (snd ce))
           (filter (is_device ''Desktop'') (entries device_breakdown campaigns)),
         map (\<lambda>ce. device_performance_of (fst ce) (snd ce))
           (filter (is_device ''Tablet'') (entries device_breakdown campaigns)))"
  using forEach_campaigns_present
    [where sel = device_breakdown and f = device_performance_entry, OF assms]
  by (simp add: processCampaignPerformanceByDevice_def foldl_device_performance_entry)

lemma device_row_of_performance: "device_row_of ce (device_performance_of (fst ce) (snd ce))"
  by (simp add: device_row_of_def device_performance_of_def rounded_share_def Let_def)

lemma list_all2_map_right: "(\<And>x. P x (f x)) \<Longrightarrow> list_all2 P xs (map f xs)"
  by (induction xs) simp_all

lemma device_rows_apportioned:
  assumes "\<forall>c\<in>set campaigns. device_breakdown c \<noteq> None"
  shows "\<exists>mobile desktop tablet.
           processCampaignPerformanceByDevice (Some campaigns) = Inr (mobile, desktop, tablet)
           \<and> list_all2 device_row_of
                (filter (is_device ''Mobile'') (entries device_breakdown campaigns)) mobile
           \<and> list_all2 device_row_of
                (filter (is_device ''Desktop'') (entries device_breakdown campaigns)) desktop
           \<and> list_all2 device_row_of
                (filter (is_device ''Tablet'') (entries device_breakdown campaigns)) tablet"
  by (simp add: device_rows_present [OF assms] list_all2_map_right device_row_of_performance)

lemma device_rows_empty:
  "processCampaignPerformanceByDevice (Some (before @ c\<lparr>device_breakdown := Some []\<rparr> # after)) =
   processCampaignPerformanceByDevice (Some (before @ after))"
  by (simp add: processCampaignPerformanceByDevice_def forEach_campaigns_empty)

lemma device_metrics_present:
  assumes "\<forall>c\<in>set campaigns. device_breakdown c \<noteq> None"
  shows "processDeviceMetrics (Some campaigns) =
    Inr (foldl (\<lambda>s ce. device_metrics_entry (fst ce) s (snd ce)) initialMetrics
           (entries device_breakdown campaigns))"
  using forEach_campaigns_present [where sel = device_breakdown and f = device_metrics_entry, OF assms]
  by (simp add: processDeviceMetrics_def)

lemma device_metrics_fold:
  "device_metrics_sums es
     (foldl (\<lambda>s ce. device_metrics_entry (fst ce) s (snd ce)) initialMetrics es)"
proof -
  let ?step = "\<lambda>s ce. device_metrics_entry (fst ce) s (snd ce)"
  have "mobileClicks (foldl ?step s es) = mobileClicks s + device_clicks es ''Mobile''" for s
    unfolding device_clicks_def
    by (rule foldl_sum_where) (simp add: device_metrics_entry_def rounded_share_def Let_def)
  moreover have "mobileSpend (foldl ?step s es) = mobileSpend s + device_spend es ''Mobile''" for s
    unfolding device_spend_def
    by (rule foldl_sum_where) (simp add: device_metrics_entry_def apportion_def Let_def)
  moreover have "mobileRevenue (foldl ?step s es) = mobileRevenue s + device_revenue es ''Mobile''" for s
    unfolding device_revenue_def
    by (rule foldl_sum_where) (simp add: device_metrics_entry_def apportion_def Let_def)
  moreover have "desktopClicks (foldl ?step s es) = desktopClicks s + device_clicks es ''Desktop''" for s
    unfolding device_clicks_def
    by (rule foldl_sum_where) (simp add: device_metrics_entry_def rounded_share_def Let_def)
  moreover have "desktopSpend (foldl ?step s es) = desktopSpend s + device_spend es ''Desktop''" for s
    unfolding device_spend_def
    by (rule foldl_sum_where) (simp add: device_metrics_entry_def apportion_def Let_def)
  moreover have "desktopRevenue (foldl ?step s es) = desktopRevenue s + device_revenue es ''Desktop''" for s
    unfolding device_revenue_def
    by (rule foldl_sum_where) (simp add: device_metrics_entry_def apportion_def Let_def)
  moreover have "tabletClicks (foldl ?step s es) = tabletClicks s + device_clicks es ''Tablet''" for s
    unfolding device_clicks_def
    by (rule foldl_sum_where) (simp add: device_metrics_entry_def rounded_share_def Let_def)
  moreover have "tabletSpend (foldl ?step s es) = tabletSpend s + device_spend es ''Tablet''" for s
    unfolding device_spend_def
    by (rule foldl_sum_where) (simp add: device_metrics_entry_def apportion_def Let_def)
  moreover have "tabletRevenue (foldl ?step s es) = tabletRevenue s + device_revenue es ''Tablet''" for s
    unfolding device_revenue_def
    by (rule foldl_sum_where) (simp add: device_metrics_entry_def apportion_def Let_def)
  ultimately show ?thesis
    by (simp add: device_metrics_sums_def initialMetrics_def)
qed

lemma device_metrics_sums_present:
  assumes "\<forall>c\<in>set campaigns. device_breakdown c \<noteq> None"
  shows "\<exists>metrics. processDeviceMetrics (Some campaigns) = Inr metrics
           \<and> device_metrics_sums (entries device_breakdown campaigns) metrics"
  by (simp add: device_metrics_present [OF assms] device_metrics_fold)

lemma device_metrics_empty:
  "processDeviceMetrics (Some (before @ c\<lparr>device_breakdown := Some []\<rparr> # after)) =
   processDeviceMetrics (Some (before @ after))"
  by (simp add: processDeviceMetrics_def forEach_campaigns_empty)

subsection \<open>The fetched document of the device view\<close>

lemma mock_campaigns_length: "length (mock_campaigns rnd random n campaigns) = length campaigns"
  by (induction campaigns arbitrary: n) (auto split: option.splits)

lemma draws_before_0 [simp]: "draws_before 0 campaigns = 0"
  by (simp add: draws_before_def)

lemma draws_before_Suc [simp]:
  "draws_before (Suc j) (c # cs) = (if device_breakdown c = None then 3 else 0) + draws_before j cs"
  by (simp add: draws_before_def)

lemma mock_campaigns_nth:
  "i < length campaigns \<Longrightarrow> device_breakdown (campaigns ! i) = None \<Longrightarrow>
   mock_campaigns rnd random n campaigns ! i =
     (campaigns ! i)\<lparr>device_breakdown :=
        Some (mock_device_breakdown rnd (random (n + draws_before i campaigns))
                (random (n + draws_before i campaigns + 1)) (random (n + draws_before i campaigns + 2)))\<rparr>"
proof (induction campaigns arbitrary: n i)
  case Nil
  then show ?case by simp
next
  case (Cons c cs)
  show ?case
  proof (cases i)
    case 0
    with Cons.prems show ?thesis by auto
  next
    case (Suc j)
    with Cons.prems have j: "j < length cs" "device_breakdown (cs ! j) = None" by simp_all
    show ?thesis
    proof (cases "device_breakdown c")
      case None
      from Cons.IH [OF j, of "n + 3"] Suc None show ?thesis by (simp add: add.assoc)
    next
      case (Some ds)
      from Cons.IH [OF j, of n] Suc Some show ?thesis by simp
    qed
  qed
qed

lemma mock_campaigns_all_present:
  "\<forall>c\<in>set (mock_campaigns rnd random n campaigns). device_breakdown c \<noteq> None"
  by (induction campaigns arbitrary: n) (auto split: option.splits)

lemma fetched_present: "present device_breakdown (mock_campaigns rnd random n campaigns)"
  by (simp add: present_iff mock_campaigns_all_present)

lemma device_metrics_after_fetch:
  "\<exists>metrics. processDeviceMetrics (fetchData rnd random result) = Inr metrics"
  by (cases result)
    (simp_all add: fetchData_def processDeviceMetrics_def
      forEach_campaigns_present [OF mock_campaigns_all_present])

lemma device_chart_after_fetch:
  "\<exists>charts. processDeviceChartData (fetchData rnd random result) = Inr charts"
  by (cases result)
    (simp_all add: fetchData_def processDeviceChartData_def deviceMap_of_def
      forEach_campaigns_present [OF mock_campaigns_all_present])

lemma device_rows_after_fetch:
  "\<exists>rows. processCampaignPerformanceByDevice (fetchData rnd random result) = Inr rows"
  by (cases result)
    (simp_all add: fetchData_def processCampaignPerformanceByDevice_def
      forEach_campaigns_present [OF mock_campaigns_all_present] foldl_device_performance_entry)

lemma normalized_sum:
  fixes a b c :: rat
  assumes "a + b + c \<noteq> 0"
  shows "a / (a + b + c) * 100 + (b / (a + b + c) * 100 + c / (a + b + c) * 100) = 100"
proof -
  define t where "t = a + b + c"
  have "a / t * 100 + (b / t * 100 + c / t * 100) = 100 * ((a + b + c) / t)"
    by (simp add: add_divide_distrib algebra_simps)
  also have "(a + b + c) / t = 1"
    using assms by (simp add: t_def)
  finally show ?thesis
    by (simp add: t_def)
qed

lemma mock_exact_sum:
  assumes "0 \<le> r1" "0 \<le> r2" "0 \<le> r3"
  shows "sum_list (map DeviceBreakdown.percentage_of_audience (mock_device_breakdown (\<lambda>x. x) r1 r2 r3)) = 100"
proof -
  have "r1 * 50 + 25 + (r2 * 30 + 10) + (r3 * 10 + 2) \<noteq> 0" using assms by simp
  from normalized_sum [OF this] show ?thesis
    by (simp add: mock_device_breakdown_def Let_def)
qed

lemma mock_normalized_by:
  "normalized_by rnd (synthetic_percentages rnd r1 r2 r3) (mock_device_breakdown rnd r1 r2 r3)"
  by (simp add: normalized_by_def synthetic_percentages_def mock_device_breakdown_def Let_def)

lemma synthetic_positive:
  assumes "0 \<le> r" and "0 < c" and "0 \<le> k"
  shows "0 < binary64 (binary64 (r * k) + c)"
proof -
  have "0 \<le> binary64 (r * k)"
    using assms(1,3) by (intro binary64_nonneg mult_nonneg_nonneg)
  with assms(2) have "0 < binary64 (r * k) + c" by simp
  then show ?thesis by (rule binary64_positive)
qed

lemma mock_binary64_near:
  assumes "0 \<le> r1" "0 \<le> r2" "0 \<le> r3"
  shows "near_normalized (synthetic_percentages binary64 r1 r2 r3) (mock_device_breakdown binary64 r1 r2 r3)"
proof -
  define M D Tb where "M = binary64 (binary64 (r1 * 50) + 25)"
    and "D = binary64 (binary64 (r2 * 30) + 10)" and "Tb = binary64 (binary64 (r3 * 10) + 2)"
  have pos: "0 < M" "0 < D" "0 < Tb"
    unfolding M_def D_def Tb_def using assms by (simp_all add: synthetic_positive)
  note N = normalized_binary64_near [OF pos]
  have raw: "synthetic_percentages binary64 r1 r2 r3 = [M, D, Tb]"
    by (simp add: synthetic_percentages_def M_def D_def Tb_def)
  have ds: "map DeviceBreakdown.percentage_of_audience (mock_device_breakdown binary64 r1 r2 r3) =
      [binary64 (binary64 (M / binary64 (binary64 (binary64 M + D) + Tb)) * 100),
       binary64 (binary64 (D / binary64 (binary64 (binary64 M + D) + Tb)) * 100),
       binary64 (binary64 (Tb / binary64 (binary64 (binary64 M + D) + Tb)) * 100)]"
    by (simp add: mock_device_breakdown_def Let_def M_def D_def Tb_def)
  have sum: "sum_list [M, D, Tb] = M + D + Tb" by simp
  show ?thesis
    unfolding near_normalized_def raw ds sum
    using N by (simp only: list_all2_Cons list_all2_Nil sum_list.Cons sum_list.Nil add_0_right add.assoc simp_thms)
qed

lemma half_then_zero_range: "\<forall>n. 0 \<le> half_then_zero n \<and> half_then_zero n < 1"
  by (simp add: half_then_zero_def)

lemma mock_exact_values:
  "mock_device_breakdown (\<lambda>x. x) (1 / 2) 0 0 =
     [\<lparr>device_type = ''Mobile'', DeviceBreakdown.percentage_of_audience = 2500 / 31\<rparr>,
      \<lparr>device_type = ''Desktop'', DeviceBreakdown.percentage_of_audience = 500 / 31\<rparr>,
      \<lparr>device_type = ''Tablet'', DeviceBreakdown.percentage_of_audience = 100 / 31\<rparr>]"
  by (simp add: mock_device_breakdown_def Let_def)

lemma synthetic_example:
  "synthetic_for binary64 half_then_zero 0 [campaign_with (Some []) (Some []) (Some []) None] = [50, 10, 2]"
  by (simp add: synthetic_for_def synthetic_percentages_def half_then_zero_def Let_def)

lemma mock_binary64_values:
  "mock_device_breakdown binary64 (1 / 2) 0 0 =
     [\<lparr>device_type = ''Mobile'', DeviceBreakdown.percentage_of_audience = 5674898724005161 / 70368744177664\<rparr>,
      \<lparr>device_type = ''Desktop'', DeviceBreakdown.percentage_of_audience = 4539918979204129 / 281474976710656\<rparr>,
      \<lparr>device_type = ''Tablet'', DeviceBreakdown.percentage_of_audience = 3631935183363303 / 1125899906842624\<rparr>]"
  by code_simp

lemma binary64_sum_of_values:
  "binary64 (binary64 (5674898724005161 / 70368744177664
      + 4539918979204129 / 281474976710656) + 3631935183363303 / 1125899906842624)
   = 7036874417766399 / 70368744177664"
  by code_simp

subsection \<open>The bubble map\<close>

lemma Math_min_eq: "Math_min x xs = Min (set (x # xs))"
  unfolding Math_min_def by (rule Min.set_eq_fold [symmetric])

lemma Math_max_eq: "Math_max x xs = Max (set (x # xs))"
  unfolding Math_max_def by (rule Max.set_eq_fold [symmetric])

lemma transform_item_unknown:
  "map_of CITY_COORDINATES (RegionalPerformance.region item) = None
   \<Longrightarrow> RegionalPerformance.region item \<notin> set Object_prototype
   \<Longrightarrow> transform_item valueType' item = (None, [RegionalPerformance.region item])"
  by (simp add: transform_item_def CITY_COORDINATES_get_def)

lemma transform_item_known:
  "map_of CITY_COORDINATES (RegionalPerformance.region item) = Some coordinates
   \<Longrightarrow> transform_item valueType' item =
       (Some \<lparr>BubbleMapDataPoint.region = RegionalPerformance.region item,
              BubbleMapDataPoint.country = RegionalPerformance.country item,
              latitude = Some (lat coordinates), longitude = Some (lng coordinates),
              value' = item_value item valueType',
              additionalData = additionalData_of item\<rparr>, [])"
  by (simp add: transform_item_def CITY_COORDINATES_get_def)

subsection \<open>The example document\<close>

lemma codepoint_compare_total: "codepoint_compare a b \<le> 0 \<or> codepoint_compare b a \<le> 0"
  by (induction a b rule: codepoint_compare.induct) auto

lemma codepoint_compare_trans:
  "codepoint_compare a b \<le> 0 \<Longrightarrow> codepoint_compare b c \<le> 0 \<Longrightarrow> codepoint_compare a c \<le> 0"
proof (induction a b arbitrary: c rule: codepoint_compare.induct)
  case 1
  then show ?case by simp
next
  case (2 y ys)
  then show ?case by (cases c) simp_all
next
  case (3 x xs)
  then show ?case by simp
next
  case (4 x xs y ys)
  show ?case
  proof (cases c)
    case Nil
    with "4.prems" show ?thesis by (simp split: if_splits)
  next
    case (Cons z zs)
    show ?thesis
    proof (cases "(of_char x :: nat) < of_char y")
      case True
      with "4.prems"(2) Cons have "(of_char x :: nat) < of_char z"
        by (simp split: if_splits)
      with Cons show ?thesis by simp
    next
      case False
      with "4.prems"(1) have xy: "(of_char x :: nat) = of_char y" and tl: "codepoint_compare xs ys \<le> 0"
        by (simp_all split: if_splits)
      show ?thesis
      proof (cases "(of_char y :: nat) < of_char z")
        case True
        with xy Cons show ?thesis by simp
      next
        case nlt: False
        with "4.prems"(2) Cons have yz: "(of_char y :: nat) = of_char z"
          and tl': "codepoint_compare ys zs \<le> 0"
          by (simp_all split: if_splits)
        from "4.IH" [OF _ _ tl tl'] xy have "codepoint_compare xs zs \<le> 0"
          by simp
        with xy yz Cons show ?thesis by simp
      qed
    qed
  qed
qed

lemma consistent_codepoint_compare: "consistent_comparator codepoint_compare"
  unfolding consistent_comparator_def
  using codepoint_compare_total codepoint_compare_trans by blast

lemma example_present:
  "present weekly_performance example_campaigns"
  "present regional_performance example_campaigns"
  "present demographic_breakdown example_campaigns"
  "present device_breakdown example_campaigns"
  by (simp_all add: present_def example_campaigns_def)

lemma example_performance:
  "processCampaignPerformance codepoint_compare (Some example_campaigns) =
     Inr ([\<lparr>CampaignPerformance.ageGroup = ''18-24'', CampaignPerformance.gender = ''Male'',
             CampaignPerformance.impressions = 1500, CampaignPerformance.clicks = 100,
             CampaignPerformance.conversions = 15, CampaignPerformance.ctr = Fin (binary64 (667 / 100)),
             CampaignPerformance.conversionRate = Fin 15\<rparr>],
          [\<lparr>CampaignPerformance.ageGroup = ''18-24'', CampaignPerformance.gender = ''Female'',
             CampaignPerformance.impressions = 1000, CampaignPerformance.clicks = 50,
             CampaignPerformance.conversions = 10, CampaignPerformance.ctr = Fin 5,
             CampaignPerformance.conversionRate = Fin 20\<rparr>,
           \<lparr>CampaignPerformance.ageGroup = ''25-34'', CampaignPerformance.gender = ''Female'',
             CampaignPerformance.impressions = 300, CampaignPerformance.clicks = 30,
             CampaignPerformance.conversions = 3, CampaignPerformance.ctr = Fin 10,
             CampaignPerformance.conversionRate = Fin 10\<rparr>])"
  by code_simp

lemma example_age_groups:
  "processAgeGroupData codepoint_compare (Some example_campaigns) =
     Inr ([\<lparr>AgeGroupData.ageGroup = ''18-24'', AgeGroupData.spend = 1250, AgeGroupData.revenue = 0\<rparr>,
           \<lparr>AgeGroupData.ageGroup = ''25-34'', AgeGroupData.spend = 250, AgeGroupData.revenue = 0\<rparr>],
          [\<lparr>AgeGroupData.ageGroup = ''18-24'', AgeGroupData.spend = 0, AgeGroupData.revenue = 7000\<rparr>,
           \<lparr>AgeGroupData.ageGroup = ''25-34'', AgeGroupData.spend = 0, AgeGroupData.revenue = 2000\<rparr>])"
  by code_simp

lemma example_metrics:
  "processDemographicMetrics (Some example_campaigns) =
     Inr \<lparr>maleClicks = 100, maleSpend = 750, maleRevenue = 4500,
          femaleClicks = 80, femaleSpend = 650, femaleRevenue = 3700\<rparr>"
  by code_simp

lemma example_device_keys:
  "first_appearance (map device_type (all_entries device_breakdown example_campaigns)) =
     [''Mobile'', ''Desktop'']"
  by code_simp

lemma example_kept:
  "map keep_male_female example_campaigns \<noteq> example_campaigns"
  by code_simp

lemma example_spend_25_34:
  "age_group_spend (entries demographic_breakdown example_campaigns) ''25-34'' =
     apportion 500 30 + apportion 500 20"
  by code_simp

lemma example_payload_present:
  "present weekly_performance example_payload"
  "present regional_performance example_payload"
  "present demographic_breakdown example_payload"
  "\<not> present device_breakdown example_payload"
  by (simp_all add: present_def example_payload_def example_campaigns_def)

lemma example_payload_dates_parse: "dates_parse example_getTime example_payload"
  by code_simp

lemma example_payload_weekly:
  "getAggregatedWeeklyData example_getTime (Some example_payload) =
     Inr [week_entry ''2024-01-01'' 700 60 6 400 2300, week_entry ''2024-01-08'' 300 30 3 150 1200]"
  by code_simp

lemma example_payload_weekly_keys:
  "first_appearance (map week_start (all_entries weekly_performance example_payload)) =
     [''2024-01-08'', ''2024-01-01'']"
  by code_simp

lemma example_payload_regional_keys:
  "first_appearance (map regional_key (all_entries regional_performance example_payload)) =
     [''Dubai-UAE'', ''Doha-UAE'']"
  by code_simp

lemma example_payload_metrics:
  "processDemographicMetrics (Some example_payload) =
     Inr \<lparr>maleClicks = 100, maleSpend = 750, maleRevenue = 4500,
          femaleClicks = 80, femaleSpend = 650, femaleRevenue = 3700\<rparr>"
  by code_simp

lemma example_device_metrics:
  "processDeviceMetrics (Some example_campaigns) =
     Inr \<lparr>mobileClicks = 110, mobileSpend = 800, mobileRevenue = 4900,
          desktopClicks = 90, desktopSpend = 700, desktopRevenue = 4100,
          tabletClicks = 0, tabletSpend = 0, tabletRevenue = 0\<rparr>"
  by code_simp

lemma rounding_campaign_present: "present demographic_breakdown [rounding_campaign]"
  by (simp add: present_def rounding_campaign_def)

lemma rounding_campaign_performance:
  "processCampaignPerformance codepoint_compare (Some [rounding_campaign]) =
     Inr ([\<lparr>CampaignPerformance.ageGroup = ''18-24'', CampaignPerformance.gender = ''Male'',
             CampaignPerformance.impressions = 29, CampaignPerformance.clicks = 14,
             CampaignPerformance.conversions = 3, CampaignPerformance.ctr = Fin (binary64 (4828 / 100)),
             CampaignPerformance.conversionRate = Fin (binary64 (2143 / 100))\<rparr>], [])"
  by code_simp

lemma rounded_share_25_58: "rounded_share 25 58 = 14"
  by code_simp

lemma exact_share_25_58: "Math_round (apportion 25 58) = 15"
  by code_simp

section \<open>The claims\<close>

subsection \<open>What each reducer sums\<close>




subsection \<open>Zero denominators\<close>

text \<open>
  C2. The demographic table guards its click-through rate with \<open>clicks > 0\<close>, not with
  the divisor: a campaign with 0 impressions and 10 clicks whose one demographic entry
  has the whole audience gives a bucket with impressions 0 and the rate \<open>Infinity\<close>.
  The device table guards the same quotient with \<open>impressions > 0\<close>.
\<close>

theorem zero_impressions_ctr_is_Infinity:
  "processCampaignPerformance localeCompare
     (Some [\<lparr>name = n, Campaign.impressions = 0, Campaign.clicks = 10,
              Campaign.conversions = 2, Campaign.spend = s, Campaign.revenue = r,
              weekly_performance = w, regional_performance = g,
              demographic_breakdown =
                Some [\<lparr>age_group = ''18-24'', DemographicBreakdown.gender = ''Male'',
                       DemographicBreakdown.percentage_of_audience = 100\<rparr>],
              device_breakdown = d\<rparr>])
   = Inr ([\<lparr>CampaignPerformance.ageGroup = ''18-24'', CampaignPerformance.gender = ''Male'',
            CampaignPerformance.impressions = 0, CampaignPerformance.clicks = 10,
            CampaignPerformance.conversions = 2, CampaignPerformance.ctr = PosInfinity,
            CampaignPerformance.conversionRate = Fin 20\<rparr>], [])"
  by (simp add: demographic_defs)

subsection \<open>Rates of a merged regional bucket\<close>

text \<open>
  C3. When \<open>getAggregatedRegionalData\<close> merges a second entry into a bucket it sums
  the five metrics and overwrites the rates with the entry's own: two campaigns with
  one Dubai entry each, (impressions 100, clicks 10, conversions 1, ctr 10, conversion
  rate 10) and (impressions 200, clicks 10, conversions 4, ctr 5, conversion rate 40),
  give one bucket with impressions 300, clicks 20, conversions 5, ctr 5 and conversion
  rate 40. From the sums the rates are 6.67 and 25.
\<close>

theorem merged_region_keeps_last_rates:
  "getAggregatedRegionalData
     (Some [campaign_with None (Some [regional_item ''Dubai'' 100 10 1 10 10]) None None,
            campaign_with None (Some [regional_item ''Dubai'' 200 10 4 5 40]) None None])
   = Inr [\<lparr>RegionalPerformance.region = ''Dubai'', RegionalPerformance.country = ''UAE'',
            RegionalPerformance.impressions = 300, RegionalPerformance.clicks = 20,
            RegionalPerformance.conversions = 5, RegionalPerformance.spend = 100,
            RegionalPerformance.revenue = 800, RegionalPerformance.ctr = 5,
            conversion_rate = 40, cpc = 5, cpa = 50, roas = 8\<rparr>]"
  by (simp add: getAggregatedRegionalData_def regionalMap_of_def forEach_entries_def
      regional_entry_def merge_region_def regional_key_def campaign_with_def regional_item_def Let_def)

subsection \<open>The end-to-end demographic scenario\<close>

text \<open>
  C4. Two campaigns, each with the totals clicks 100, impressions 1000, conversions 10
  and the single demographic entry (18-24, Male, 50 percent): the male table of
  \<open>processCampaignPerformance\<close> is the one bucket with clicks 100, impressions 1000,
  conversions 10, ctr 10.00 and conversion rate 10.00, and the female table is empty.
  The campaigns' other fields are arbitrary.
\<close>

theorem two_campaigns_male_bucket:
  "processCampaignPerformance localeCompare
     (Some [\<lparr>name = n1, Campaign.impressions = 1000, Campaign.clicks = 100,
              Campaign.conversions = 10, Campaign.spend = s1, Campaign.revenue = r1,
              weekly_performance = w1, regional_performance = g1,
              demographic_breakdown =
                Some [\<lparr>age_group = ''18-24'', DemographicBreakdown.gender = ''Male'',
                       DemographicBreakdown.percentage_of_audience = 50\<rparr>],
              device_breakdown = d1\<rparr>,
            \<lparr>name = n2, Campaign.impressions = 1000, Campaign.clicks = 100,
              Campaign.conversions = 10, Campaign.spend = s2, Campaign.revenue = r2,
              weekly_performance = w2, regional_performance = g2,
              demographic_breakdown =
                Some [\<lparr>age_group = ''18-24'', DemographicBreakdown.gender = ''Male'',
                       DemographicBreakdown.percentage_of_audience = 50\<rparr>],
              device_breakdown = d2\<rparr>])
   = Inr ([\<lparr>CampaignPerformance.ageGroup = ''18-24'', CampaignPerformance.gender = ''Male'',
            CampaignPerformance.impressions = 1000, CampaignPerformance.clicks = 100,
            CampaignPerformance.conversions = 10, CampaignPerformance.ctr = Fin 10,
            CampaignPerformance.conversionRate = Fin 10\<rparr>], [])"
  by (simp add: demographic_defs)

subsection \<open>The order of the buckets\<close>

text \<open>
  C5, as stated, fails for the weekly reducer on a document with a week start that is
  not a date. For such a string \<open>new Date(s).getTime()\<close> is \<open>NaN\<close>, so the comparator
  is \<open>NaN\<close> on every pair with that entry, which \<open>sort\<close> reads as equal, and the
  entries on either side of it are not brought into order: with the week starts
  2024-01-08, TBD and 2024-01-01, in this order, the output has 8 January before
  1 January.
\<close>

theorem unparsed_week_start_breaks_order:
  "example_getTime ''2024-01-08'' = Some 1704672000000
   \<and> example_getTime ''TBD'' = None
   \<and> example_getTime ''2024-01-01'' = Some 1704067200000
   \<and> getAggregatedWeeklyData example_getTime (Some unparsed_weeks) =
       Inr [week_entry ''2024-01-08'' 300 30 3 150 1200, week_entry ''TBD'' 100 10 1 50 400,
            week_entry ''2024-01-01'' 200 20 2 100 800]"
  by code_simp

text \<open>
  C5, amended. Each reducer is taken on a document that has its own collection in
  every campaign, whatever the other collections. The weekly buckets are one for each
  week start, and when every week start parses as a date they are in ascending order of
  the week start's time. The demographic tables and the age-group series are sorted by
  the age-group label under \<open>localeCompare\<close> (a consistent comparator, the platform's
  collation of the labels). The regional buckets and the device buckets are in the order
  in which their keys first appear; the document the device view reads, the fetched one,
  has the device collection in every campaign.
\<close>

theorem outputs_are_ordered:
  "(present weekly_performance campaigns \<longrightarrow>
      (\<exists>weekly. getAggregatedWeeklyData getTime (Some campaigns) = Inr weekly
         \<and> mset (map week_start weekly) =
             mset (first_appearance (map week_start (all_entries weekly_performance campaigns)))
         \<and> (dates_parse getTime campaigns \<longrightarrow> sorted_wrt (week_not_after getTime) weekly)))
   \<and> (present demographic_breakdown campaigns \<and> consistent_comparator localeCompare \<longrightarrow>
      (\<exists>male female ageSpend ageRevenue.
           processCampaignPerformance localeCompare (Some campaigns) = Inr (male, female)
         \<and> sorted_wrt (\<lambda>a b. localeCompare (CampaignPerformance.ageGroup a) (CampaignPerformance.ageGroup b) \<le> 0) male
         \<and> sorted_wrt (\<lambda>a b. localeCompare (CampaignPerformance.ageGroup a) (CampaignPerformance.ageGroup b) \<le> 0) female
         \<and> processAgeGroupData localeCompare (Some campaigns) = Inr (ageSpend, ageRevenue)
         \<and> sorted_wrt (\<lambda>a b. localeCompare (AgeGroupData.ageGroup a) (AgeGroupData.ageGroup b) \<le> 0) ageSpend
         \<and> sorted_wrt (\<lambda>a b. localeCompare (AgeGroupData.ageGroup a) (AgeGroupData.ageGroup b) \<le> 0) ageRevenue))
   \<and> (present regional_performance campaigns \<longrightarrow>
      (\<exists>regional. getAggregatedRegionalData (Some campaigns) = Inr regional
         \<and> map regional_key regional =
             first_appearance (map regional_key (all_entries regional_performance campaigns))))
   \<and> (present device_breakdown campaigns \<longrightarrow>
      (\<exists>deviceSpend deviceRevenue.
           processDeviceChartData (Some campaigns) = Inr (deviceSpend, deviceRevenue)
         \<and> map label deviceSpend = first_appearance (map device_type (all_entries device_breakdown campaigns))
         \<and> map label deviceRevenue = first_appearance (map device_type (all_entries device_breakdown campaigns))))
   \<and> (\<exists>fetched. fetchData rnd random (Some campaigns) = Some fetched \<and> present device_breakdown fetched)"
proof (intro conjI impI)
  assume "present weekly_performance campaigns"
  then have w: "\<forall>c\<in>set campaigns. weekly_performance c \<noteq> None"
    by (simp add: present_iff)
  let ?vs = "map snd (foldl (upsert week_start (\<lambda>w. w) merge_week) []
               (all_entries weekly_performance campaigns))"
  have out: "getAggregatedWeeklyData getTime (Some campaigns) = Inr (Array_sort (weekly_comparator getTime) ?vs)"
    by (simp add: getAggregatedWeeklyData_def weeklyMap_of_present [OF w])
  have "mset (map week_start (Array_sort (weekly_comparator getTime) ?vs)) = mset (map week_start ?vs)"
    by (simp only: mset_map mset_Array_sort)
  then have keys: "mset (map week_start (Array_sort (weekly_comparator getTime) ?vs)) =
      mset (first_appearance (map week_start (all_entries weekly_performance campaigns)))"
    by (simp only: weekly_keys)
  have sorted: "sorted_wrt (week_not_after getTime) (Array_sort (weekly_comparator getTime) ?vs)"
    if "dates_parse getTime campaigns"
    using weekly_data_sorted [OF w that] out by auto
  from out keys sorted
  show "\<exists>weekly. getAggregatedWeeklyData getTime (Some campaigns) = Inr weekly
         \<and> mset (map week_start weekly) =
             mset (first_appearance (map week_start (all_entries weekly_performance campaigns)))
         \<and> (dates_parse getTime campaigns \<longrightarrow> sorted_wrt (week_not_after getTime) weekly)"
    by blast
next
  assume "present demographic_breakdown campaigns \<and> consistent_comparator localeCompare"
  then have d: "\<forall>c\<in>set campaigns. demographic_breakdown c \<noteq> None"
    and c: "consistent_comparator localeCompare"
    by (simp_all add: present_iff)
  from campaign_performance_sorted [OF d c] obtain male female where
    "processCampaignPerformance localeCompare (Some campaigns) = Inr (male, female)"
    "sorted_wrt (\<lambda>a b. localeCompare (CampaignPerformance.ageGroup a) (CampaignPerformance.ageGroup b) \<le> 0) male"
    "sorted_wrt (\<lambda>a b. localeCompare (CampaignPerformance.ageGroup a) (CampaignPerformance.ageGroup b) \<le> 0) female"
    by blast
  moreover from age_group_data_sorted [OF d c] obtain ageSpend ageRevenue where
    "processAgeGroupData localeCompare (Some campaigns) = Inr (ageSpend, ageRevenue)"
    "sorted_wrt (\<lambda>a b. localeCompare (AgeGroupData.ageGroup a) (AgeGroupData.ageGroup b) \<le> 0) ageSpend"
    "sorted_wrt (\<lambda>a b. localeCompare (AgeGroupData.ageGroup a) (AgeGroupData.ageGroup b) \<le> 0) ageRevenue"
    by blast
  ultimately show "\<exists>male female ageSpend ageRevenue.
           processCampaignPerformance localeCompare (Some campaigns) = Inr (male, female)
         \<and> sorted_wrt (\<lambda>a b. localeCompare (CampaignPerformance.ageGroup a) (CampaignPerformance.ageGroup b) \<le> 0) male
         \<and> sorted_wrt (\<lambda>a b. localeCompare (CampaignPerformance.ageGroup a) (CampaignPerformance.ageGroup b) \<le> 0) female
         \<and> processAgeGroupData localeCompare (Some campaigns) = Inr (ageSpend, ageRevenue)
         \<and> sorted_wrt (\<lambda>a b. localeCompare (AgeGroupData.ageGroup a) (AgeGroupData.ageGroup b) \<le> 0) ageSpend
         \<and> sorted_wrt (\<lambda>a b. localeCompare (AgeGroupData.ageGroup a) (AgeGroupData.ageGroup b) \<le> 0) ageRevenue"
    by blast
next
  assume "present regional_performance campaigns"
  then have r: "\<forall>c\<in>set campaigns. regional_performance c \<noteq> None"
    by (simp add: present_iff)
  show "\<exists>regional. getAggregatedRegionalData (Some campaigns) = Inr regional
         \<and> map regional_key regional =
             first_appearance (map regional_key (all_entries regional_performance campaigns))"
    by (rule regional_data_order [OF r])
next
  assume "present device_breakdown campaigns"
  then have v: "\<forall>c\<in>set campaigns. device_breakdown c \<noteq> None"
    by (simp add: present_iff)
  show "\<exists>deviceSpend deviceRevenue.
           processDeviceChartData (Some campaigns) = Inr (deviceSpend, deviceRevenue)
         \<and> map label deviceSpend = first_appearance (map device_type (all_entries device_breakdown campaigns))
         \<and> map label deviceRevenue = first_appearance (map device_type (all_entries device_breakdown campaigns))"
    by (rule device_chart_order [OF v])
next
  show "\<exists>fetched. fetchData rnd random (Some campaigns) = Some fetched \<and> present device_breakdown fetched"
    by (simp add: fetchData_def fetched_present)
qed

theorem outputs_are_ordered_witness:
  "present weekly_performance example_payload
   \<and> present regional_performance example_payload
   \<and> present demographic_breakdown example_payload
   \<and> \<not> present device_breakdown example_payload
   \<and> consistent_comparator codepoint_compare
   \<and> dates_parse example_getTime example_payload
   \<and> first_appearance (map week_start (all_entries weekly_performance example_payload)) =
       [''2024-01-08'', ''2024-01-01'']
   \<and> getAggregatedWeeklyData example_getTime (Some example_payload) =
       Inr [week_entry ''2024-01-01'' 700 60 6 400 2300, week_entry ''2024-01-08'' 300 30 3 150 1200]
   \<and> sorted_wrt (week_not_after example_getTime)
       [week_entry ''2024-01-01'' 700 60 6 400 2300, week_entry ''2024-01-08'' 300 30 3 150 1200]
   \<and> (\<exists>regional. getAggregatedRegionalData (Some example_payload) = Inr regional
         \<and> map regional_key regional = [''Dubai-UAE'', ''Doha-UAE''])
   \<and> present demographic_breakdown example_campaigns
   \<and> (\<exists>male female.
         processCampaignPerformance codepoint_compare (Some example_campaigns) = Inr (male, female)
         \<and> map CampaignPerformance.ageGroup female = [''18-24'', ''25-34''])
   \<and> present device_breakdown example_campaigns
   \<and> (\<exists>deviceSpend deviceRevenue.
         processDeviceChartData (Some example_campaigns) = Inr (deviceSpend, deviceRevenue)
         \<and> map label deviceSpend = [''Mobile'', ''Desktop''])"
proof -
  note payload = outputs_are_ordered [of example_payload example_getTime codepoint_compare "\<lambda>x. x" "\<lambda>n. 0"]
  note fetched = outputs_are_ordered [of example_campaigns example_getTime codepoint_compare "\<lambda>x. x" "\<lambda>n. 0"]
  from payload example_payload_present(1) example_payload_dates_parse example_payload_weekly
  have sorted: "sorted_wrt (week_not_after example_getTime)
       [week_entry ''2024-01-01'' 700 60 6 400 2300, week_entry ''2024-01-08'' 300 30 3 150 1200]"
    by simp
  from payload example_payload_present(2) example_payload_regional_keys
  have regional: "\<exists>regional. getAggregatedRegionalData (Some example_payload) = Inr regional
         \<and> map regional_key regional = [''Dubai-UAE'', ''Doha-UAE'']"
    by auto
  from fetched example_present(4) example_device_keys
  have device: "\<exists>deviceSpend deviceRevenue.
         processDeviceChartData (Some example_campaigns) = Inr (deviceSpend, deviceRevenue)
         \<and> map label deviceSpend = [''Mobile'', ''Desktop'']"
    by auto
  have female: "\<exists>male female.
         processCampaignPerformance codepoint_compare (Some example_campaigns) = Inr (male, female)
         \<and> map CampaignPerformance.ageGroup female = [''18-24'', ''25-34'']"
    by (simp add: example_performance)
  from sorted regional device female example_payload_present consistent_codepoint_compare
    example_payload_dates_parse example_payload_weekly_keys example_payload_weekly example_present(3,4)
  show ?thesis
    by simp
qed

subsection \<open>Empty and absent collections\<close>

text \<open>
  C6, as stated, fails: no aggregation function tests a breakdown collection before
  it calls \<open>forEach\<close> on it, so a campaign without \<open>demographic_breakdown\<close>,
  \<open>weekly_performance\<close> or \<open>regional_performance\<close> makes the function throw a
  \<open>TypeError\<close>.
\<close>

theorem absent_demographic_breakdown_throws:
  "processDemographicMetrics (Some [campaign_with (Some []) (Some []) None (Some [])]) = Inl TypeError
   \<and> processAgeGroupData (\<lambda>a b. 0) (Some [campaign_with (Some []) (Some []) None (Some [])]) = Inl TypeError
   \<and> processCampaignPerformance (\<lambda>a b. 0) (Some [campaign_with (Some []) (Some []) None (Some [])]) = Inl TypeError
   \<and> getAggregatedWeeklyData (\<lambda>s. None) (Some [campaign_with None (Some []) (Some []) (Some [])]) = Inl TypeError
   \<and> getAggregatedRegionalData (Some [campaign_with (Some []) None (Some []) (Some [])]) = Inl TypeError"
  by (simp add: processDemographicMetrics_def processAgeGroupData_def ageGroupMap_of_def
      processCampaignPerformance_def performance_maps_def getAggregatedWeeklyData_def weeklyMap_of_def
      getAggregatedRegionalData_def regionalMap_of_def forEach_entries_def campaign_with_def)

text \<open>
  C6, amended. A campaign whose breakdown collection is present and empty contributes
  nothing for that dimension: each of the eight aggregation functions returns what it
  returns on the document without that campaign. And the device view replaces an absent
  \<open>device_breakdown\<close> when it fetches, so its three functions complete on the fetched
  document, whatever the response.
\<close>

theorem empty_collection_contributes_nothing:
  "getAggregatedWeeklyData getTime (Some (before @ c\<lparr>weekly_performance := Some []\<rparr> # after)) =
     getAggregatedWeeklyData getTime (Some (before @ after))
   \<and> getAggregatedRegionalData (Some (before @ c\<lparr>regional_performance := Some []\<rparr> # after)) =
     getAggregatedRegionalData (Some (before @ after))
   \<and> processDemographicMetrics (Some (before @ c\<lparr>demographic_breakdown := Some []\<rparr> # after)) =
     processDemographicMetrics (Some (before @ after))
   \<and> processAgeGroupData localeCompare (Some (before @ c\<lparr>demographic_breakdown := Some []\<rparr> # after)) =
     processAgeGroupData localeCompare (Some (before @ after))
   \<and> processCampaignPerformance localeCompare (Some (before @ c\<lparr>demographic_breakdown := Some []\<rparr> # after)) =
     processCampaignPerformance localeCompare (Some (before @ after))
   \<and> processDeviceMetrics (Some (before @ c\<lparr>device_breakdown := Some []\<rparr> # after)) =
     processDeviceMetrics (Some (before @ after))
   \<and> processDeviceChartData (Some (before @ c\<lparr>device_breakdown := Some []\<rparr> # after)) =
     processDeviceChartData (Some (before @ after))
   \<and> processCampaignPerformanceByDevice (Some (before @ c\<lparr>device_breakdown := Some []\<rparr> # after)) =
     processCampaignPerformanceByDevice (Some (before @ after))
   \<and> (\<exists>metrics. processDeviceMetrics (fetchData rnd random result) = Inr metrics)
   \<and> (\<exists>charts. processDeviceChartData (fetchData rnd random result) = Inr charts)
   \<and> (\<exists>rows. processCampaignPerformanceByDevice (fetchData rnd random result) = Inr rows)"
  by (intro conjI weekly_empty regional_empty demographic_metrics_empty age_group_empty
      campaign_performance_empty device_metrics_empty device_chart_empty device_rows_empty
      device_metrics_after_fetch device_chart_after_fetch device_rows_after_fetch)

subsection \<open>Regions without coordinates\<close>

text \<open>
  C7. A region named like a property of \<open>Object.prototype\<close> has no entry in the table
  and is not excluded: for the region \<open>constructor\<close> the lookup
  \<open>CITY_COORDINATES[item.region]\<close> is the function \<open>Object\<close>, the test \<open>!coordinates\<close>
  fails, nothing is logged, and the output has a point whose latitude and longitude are
  \<open>undefined\<close>.
\<close>

theorem inherited_name_is_not_excluded:
  "transformRegionalDataForBubbleMap [regional_item ''constructor'' 300 20 5 5 40] Revenue
   = ([\<lparr>BubbleMapDataPoint.region = ''constructor'', BubbleMapDataPoint.country = ''UAE'',
         latitude = None, longitude = None, value' = 400,
         additionalData =
           \<lparr>AdditionalData.revenue = 400, AdditionalData.spend = 50,
            AdditionalData.impressions = 300, AdditionalData.clicks = 20,
            AdditionalData.conversions = 5\<rparr>\<rparr>], [])"
  by (simp add: transformRegionalDataForBubbleMap_def transform_item_def CITY_COORDINATES_get_def
      CITY_COORDINATES_def Object_prototype_def regional_item_def additionalData_of_def
      List.map_filter_def)

subsection \<open>Bubble radius and colour\<close>



subsection \<open>The synthesized device breakdown\<close>

text \<open>
  C9, as stated, fails on the program's numbers. \<open>fetchData\<close> gives a campaign with
  no \<open>device_breakdown\<close> the entries Mobile, Desktop and Tablet and divides each
  percentage by the sum of the three; in binary64 arithmetic, with \<open>Math.random()\<close>
  returning 0.5, 0 and 0, the three percentages are 80.64516129032258,
  16.129032258064516 and 3.225806451612903. Their sum is not 100, and added in order
  with the program's rounding they give 99.99999999999999.
\<close>

theorem binary64_percentages_miss_100:
  "fetchData binary64 half_then_zero (Some [campaign_with (Some []) (Some []) (Some []) None])
     = Some [campaign_with (Some []) (Some []) (Some [])
               (Some [\<lparr>device_type = ''Mobile'',
                        DeviceBreakdown.percentage_of_audience = 5674898724005161 / 70368744177664\<rparr>,
                      \<lparr>device_type = ''Desktop'',
                        DeviceBreakdown.percentage_of_audience = 4539918979204129 / 281474976710656\<rparr>,
                      \<lparr>device_type = ''Tablet'',
                        DeviceBreakdown.percentage_of_audience = 3631935183363303 / 1125899906842624\<rparr>])]
   \<and> (5674898724005161 / 70368744177664 + 4539918979204129 / 281474976710656
        + 3631935183363303 / 1125899906842624 :: rat) \<noteq> 100
   \<and> binary64 (binary64 (5674898724005161 / 70368744177664
        + 4539918979204129 / 281474976710656) + 3631935183363303 / 1125899906842624) \<noteq> 100"
proof (intro conjI)
  show "fetchData binary64 half_then_zero (Some [campaign_with (Some []) (Some []) (Some []) None])
     = Some [campaign_with (Some []) (Some []) (Some [])
               (Some [\<lparr>device_type = ''Mobile'',
                        DeviceBreakdown.percentage_of_audience = 5674898724005161 / 70368744177664\<rparr>,
                      \<lparr>device_type = ''Desktop'',
                        DeviceBreakdown.percentage_of_audience = 4539918979204129 / 281474976710656\<rparr>,
                      \<lparr>device_type = ''Tablet'',
                        DeviceBreakdown.percentage_of_audience = 3631935183363303 / 1125899906842624\<rparr>])]"
    using mock_binary64_values
    by (simp add: fetchData_def campaign_with_def half_then_zero_def)
  show "(5674898724005161 / 70368744177664 + 4539918979204129 / 281474976710656
        + 3631935183363303 / 1125899906842624 :: rat) \<noteq> 100"
    by simp
  show "binary64 (binary64 (5674898724005161 / 70368744177664
        + 4539918979204129 / 281474976710656) + 3631935183363303 / 1125899906842624) \<noteq> 100"
    by (subst binary64_sum_of_values) simp
qed

text \<open>
  C9, amended. For a campaign with no \<open>device_breakdown\<close>, \<open>fetchData\<close> stores the
  three entries Mobile, Desktop and Tablet, each with its synthetic percentage divided by
  the sum of the three and multiplied by 100, and leaves the campaign's other fields as
  they are. In the program's binary64 arithmetic each stored percentage is within
  \<open>1e-13\<close> of its share of 100 and the three sum to 100 within \<open>1e-13\<close>; in exact
  arithmetic they sum to 100.
\<close>

theorem absent_device_breakdown_normalized:
  assumes random: "\<forall>n. 0 \<le> random n \<and> random n < 1"
    and i: "i < length campaigns"
    and absent: "device_breakdown (campaigns ! i) = None"
  shows "\<exists>fetched ds exact es.
      fetchData binary64 random (Some campaigns) = Some fetched
    \<and> length fetched = length campaigns
    \<and> fetched ! i = (campaigns ! i)\<lparr>device_breakdown := Some ds\<rparr>
    \<and> normalized_by binary64 (synthetic_for binary64 random i campaigns) ds
    \<and> near_normalized (synthetic_for binary64 random i campaigns) ds
    \<and> fetchData (\<lambda>x. x) random (Some campaigns) = Some exact
    \<and> length exact = length campaigns
    \<and> exact ! i = (campaigns ! i)\<lparr>device_breakdown := Some es\<rparr>
    \<and> normalized_by (\<lambda>x. x) (synthetic_for (\<lambda>x. x) random i campaigns) es
    \<and> sum_list (map DeviceBreakdown.percentage_of_audience es) = 100"
proof -
  define k where "k = draws_before i campaigns"
  from random have r: "0 \<le> random k" "0 \<le> random (k + 1)" "0 \<le> random (k + 2)"
    by simp_all
  have nth: "mock_campaigns rnd random 0 campaigns ! i =
     (campaigns ! i)\<lparr>device_breakdown :=
        Some (mock_device_breakdown rnd (random k) (random (k + 1)) (random (k + 2)))\<rparr>" for rnd
    using mock_campaigns_nth [OF i absent, of rnd random 0] by (simp add: k_def)
  have syn: "synthetic_for rnd random i campaigns =
      synthetic_percentages rnd (random k) (random (k + 1)) (random (k + 2))" for rnd
    by (simp add: synthetic_for_def k_def Let_def)
  let ?ds = "mock_device_breakdown binary64 (random k) (random (k + 1)) (random (k + 2))"
  let ?es = "mock_device_breakdown (\<lambda>x. x) (random k) (random (k + 1)) (random (k + 2))"
  show ?thesis
  proof (intro exI conjI)
    show "fetchData binary64 random (Some campaigns) = Some (mock_campaigns binary64 random 0 campaigns)"
      by (simp add: fetchData_def)
    show "length (mock_campaigns binary64 random 0 campaigns) = length campaigns"
      by (rule mock_campaigns_length)
    show "mock_campaigns binary64 random 0 campaigns ! i = (campaigns ! i)\<lparr>device_breakdown := Some ?ds\<rparr>"
      by (rule nth)
    show "normalized_by binary64 (synthetic_for binary64 random i campaigns) ?ds"
      unfolding syn by (rule mock_normalized_by)
    show "near_normalized (synthetic_for binary64 random i campaigns) ?ds"
      unfolding syn by (rule mock_binary64_near [OF r])
    show "fetchData (\<lambda>x. x) random (Some campaigns) = Some (mock_campaigns (\<lambda>x. x) random 0 campaigns)"
      by (simp add: fetchData_def)
    show "length (mock_campaigns (\<lambda>x. x) random 0 campaigns) = length campaigns"
      by (rule mock_campaigns_length)
    show "mock_campaigns (\<lambda>x. x) random 0 campaigns ! i = (campaigns ! i)\<lparr>device_breakdown := Some ?es\<rparr>"
      by (rule nth)
    show "normalized_by (\<lambda>x. x) (synthetic_for (\<lambda>x. x) random i campaigns) ?es"
      unfolding syn by (rule mock_normalized_by)
    show "sum_list (map DeviceBreakdown.percentage_of_audience ?es) = 100"
      by (rule mock_exact_sum [OF r])
  qed
qed

theorem absent_device_breakdown_normalized_witness:
  "(\<forall>n. 0 \<le> half_then_zero n \<and> half_then_zero n < 1)
   \<and> (0::nat) < length [campaign_with (Some []) (Some []) (Some []) None]
   \<and> device_breakdown ([campaign_with (Some []) (Some []) (Some []) None] ! 0) = None
   \<and> synthetic_for binary64 half_then_zero 0 [campaign_with (Some []) (Some []) (Some []) None] = [50, 10, 2]
   \<and> fetchData binary64 half_then_zero (Some [campaign_with (Some []) (Some []) (Some []) None])
       = Some [campaign_with (Some []) (Some []) (Some [])
                 (Some [\<lparr>device_type = ''Mobile'',
                          DeviceBreakdown.percentage_of_audience = 5674898724005161 / 70368744177664\<rparr>,
                        \<lparr>device_type = ''Desktop'',
                          DeviceBreakdown.percentage_of_audience = 4539918979204129 / 281474976710656\<rparr>,
                        \<lparr>device_type = ''Tablet'',
                          DeviceBreakdown.percentage_of_audience = 3631935183363303 / 1125899906842624\<rparr>])]
   \<and> near_normalized [50, 10, 2]
         [\<lparr>device_type = ''Mobile'',
            DeviceBreakdown.percentage_of_audience = 5674898724005161 / 70368744177664\<rparr>,
          \<lparr>device_type = ''Desktop'',
            DeviceBreakdown.percentage_of_audience = 4539918979204129 / 281474976710656\<rparr>,
          \<lparr>device_type = ''Tablet'',
            DeviceBreakdown.percentage_of_audience = 3631935183363303 / 1125899906842624\<rparr>]
   \<and> fetchData (\<lambda>x. x) half_then_zero (Some [campaign_with (Some []) (Some []) (Some []) None])
       = Some [campaign_with (Some []) (Some []) (Some [])
                 (Some [\<lparr>device_type = ''Mobile'', DeviceBreakdown.percentage_of_audience = 2500 / 31\<rparr>,
                        \<lparr>device_type = ''Desktop'', DeviceBreakdown.percentage_of_audience = 500 / 31\<rparr>,
                        \<lparr>device_type = ''Tablet'', DeviceBreakdown.percentage_of_audience = 100 / 31\<rparr>])]
   \<and> (2500 / 31 + 500 / 31 + 100 / 31 :: rat) = 100"
proof -
  let ?cs = "[campaign_with (Some []) (Some []) (Some []) None]"
  let ?ds = "[\<lparr>device_type = ''Mobile'',
                DeviceBreakdown.percentage_of_audience = 5674898724005161 / 70368744177664\<rparr>,
              \<lparr>device_type = ''Desktop'',
                DeviceBreakdown.percentage_of_audience = 4539918979204129 / 281474976710656\<rparr>,
              \<lparr>device_type = ''Tablet'',
                DeviceBreakdown.percentage_of_audience = 3631935183363303 / 1125899906842624\<rparr>]"
  have len: "(0::nat) < length ?cs" by simp
  have absent: "device_breakdown (?cs ! 0) = None" by (simp add: campaign_with_def)
  have fetched: "fetchData binary64 half_then_zero (Some ?cs)
      = Some [campaign_with (Some []) (Some []) (Some []) (Some ?ds)]"
    using mock_binary64_values by (simp add: fetchData_def campaign_with_def half_then_zero_def)
  have exact: "fetchData (\<lambda>x. x) half_then_zero (Some ?cs)
       = Some [campaign_with (Some []) (Some []) (Some [])
                 (Some [\<lparr>device_type = ''Mobile'', DeviceBreakdown.percentage_of_audience = 2500 / 31\<rparr>,
                        \<lparr>device_type = ''Desktop'', DeviceBreakdown.percentage_of_audience = 500 / 31\<rparr>,
                        \<lparr>device_type = ''Tablet'', DeviceBreakdown.percentage_of_audience = 100 / 31\<rparr>])]"
    using mock_exact_values by (simp add: fetchData_def campaign_with_def half_then_zero_def)
  from absent_device_breakdown_normalized [OF half_then_zero_range len absent]
  obtain result ds where result: "fetchData binary64 half_then_zero (Some ?cs) = Some result"
    and nth: "result ! 0 = (?cs ! 0)\<lparr>device_breakdown := Some ds\<rparr>"
    and near: "near_normalized (synthetic_for binary64 half_then_zero 0 ?cs) ds"
    by blast
  from result fetched have "result = [campaign_with (Some []) (Some []) (Some []) (Some ?ds)]"
    by simp
  with nth have "ds = ?ds"
    by (simp add: campaign_with_def)
  with near have "near_normalized [50, 10, 2] ?ds"
    by (simp only: synthetic_example)
  with half_then_zero_range len absent synthetic_example fetched exact show ?thesis
    by simp
qed

subsection \<open>Entries with another gender\<close>



end
